(* ===== verification/Prelude.thy ===== *)
theory Prelude
  imports Main "HOL-Library.Word"
begin

text \<open>
  Shared vocabulary of the development. Python exceptions are values of
  \<open>py_exc\<close>; a computation that may raise and that threads the state of the
  outside world is a function \<open>'w \<Rightarrow> (py_exc + 'a) \<times> 'w\<close> (\<open>Inl\<close> is the
  exception that escapes, the world is returned in both cases, so that what was
  sent before the exception stays visible). Pure code that may raise returns
  \<open>py_exc + 'a\<close>. The \<open>exit()\<close> calls of \<^verbatim>\<open>cloud_bootstrap.main\<close> raise
  \<open>SystemExit\<close>; the model records which call it was.
\<close>

named_theorems py_simps "unfolding rules of the Python exception/state combinators"
named_theorems pyst_rel_intros "rules that a computation relates its start and end worlds by a relation"

type_synonym byte = "8 word"

datatype exit_site =
    NoCloud            \<comment> \<open>\<^verbatim>\<open>exit()\<close> after "Ensure that the Cloud is connected"\<close>
  | NoProject          \<comment> \<open>after "Project Not Created"\<close>
  | NoCluster          \<comment> \<open>after "Cluster Creation Unsuccessful"\<close>
  | ClusterNotAccessible \<comment> \<open>inside the readiness loop\<close>
  | AccessFailed       \<comment> \<open>after "Enabling access to cluster failed."\<close>
  | UserNotCreated     \<comment> \<open>after "User not created"\<close>

text \<open>The exceptions of the Couchbase Python SDK that the SDK script can meet,
  all subclasses of \<^verbatim>\<open>couchbase.exceptions.CouchbaseException\<close>.\<close>

datatype sdk_error =
    InvalidArgumentException
  | UnAmbiguousTimeoutException
  | AuthenticationException
  | BucketNotFoundException
  | DocumentNotFoundException
  | QueryIndexAlreadyExistsException
  | QueryIndexNotFoundException
  | ParsingFailedException

datatype py_exc =
    KeyError
  | IndexError
  | TypeError
  | ValueError
  | JSONDecodeError
  | UnboundLocalError
  | ConnectionError
  | SystemExit exit_site
  | CouchbaseException sdk_error

type_synonym ('w, 'a) pyst = "'w \<Rightarrow> (py_exc + 'a) \<times> 'w"

subsection \<open>Pure code that may raise\<close>

definition py_then :: "py_exc + 'a \<Rightarrow> ('a \<Rightarrow> py_exc + 'b) \<Rightarrow> py_exc + 'b" where
  "py_then r f = (case r of Inl e \<Rightarrow> Inl e | Inr a \<Rightarrow> f a)"

text \<open>\<^verbatim>\<open>try: ... except KeyError: pass\<close>, the locals keeping the value \<open>d\<close>
  they had when the key was missing.\<close>

definition except_KeyError :: "py_exc + 'a \<Rightarrow> 'a \<Rightarrow> py_exc + 'a" where
  "except_KeyError r d = (case r of Inl KeyError \<Rightarrow> Inr d | _ \<Rightarrow> r)"

lemma py_then_simps [simp, py_simps]:
  "py_then (Inl e) f = Inl e"
  "py_then (Inr a) f = f a"
  by (simp_all add: py_then_def)

lemma py_then_Inr_iff [py_simps]:
  "py_then r f = Inr b \<longleftrightarrow> (\<exists>a. r = Inr a \<and> f a = Inr b)"
  by (cases r) simp_all

lemma except_KeyError_simps [simp, py_simps]:
  "except_KeyError (Inr a) d = Inr a"
  "except_KeyError (Inl KeyError) d = Inr d"
  "e \<noteq> KeyError \<Longrightarrow> except_KeyError (Inl e) d = Inl e"
  by (simp_all add: except_KeyError_def split: py_exc.split)

subsection \<open>Code that talks to the world\<close>

definition py_return :: "'a \<Rightarrow> ('w, 'a) pyst" where
  "py_return a w = (Inr a, w)"

definition py_raise :: "py_exc \<Rightarrow> ('w, 'a) pyst" where
  "py_raise e w = (Inl e, w)"

definition py_lift :: "py_exc + 'a \<Rightarrow> ('w, 'a) pyst" where
  "py_lift r w = (r, w)"

definition py_bind :: "('w, 'a) pyst \<Rightarrow> ('a \<Rightarrow> ('w, 'b) pyst) \<Rightarrow> ('w, 'b) pyst" where
  "py_bind m f w = (case m w of (Inl e, w') \<Rightarrow> (Inl e, w') | (Inr a, w') \<Rightarrow> f a w')"

lemma py_basic_simps [simp, py_simps]:
  "py_return a w = (Inr a, w)"
  "py_raise e w = (Inl e, w)"
  "py_lift r w = (r, w)"
  by (simp_all add: py_return_def py_raise_def py_lift_def)

lemma py_bind_apply [py_simps]:
  "py_bind m f w = (case m w of (Inl e, w') \<Rightarrow> (Inl e, w') | (Inr a, w') \<Rightarrow> f a w')"
  by (simp add: py_bind_def)

lemma py_bind_Inr [simp]: "m w = (Inr a, w') \<Longrightarrow> py_bind m f w = f a w'"
  by (simp add: py_bind_def)

lemma py_bind_Inl [simp]: "m w = (Inl e, w') \<Longrightarrow> py_bind m f w = (Inl e, w')"
  by (simp add: py_bind_def)

lemma py_bind_return [simp]: "py_bind (py_return a) f = f a"
  by (simp add: py_bind_def fun_eq_iff)

lemma py_bind_raise [simp]: "py_bind (py_raise e) f = py_raise e"
  by (simp add: py_bind_def fun_eq_iff)

lemma py_bind_lift [simp]:
  "py_bind (py_lift (Inr a)) f = f a"
  "py_bind (py_lift (Inl e)) f = py_raise e"
  by (simp_all add: py_bind_def fun_eq_iff)

lemma py_bind_assoc: "py_bind (py_bind m f) g = py_bind m (\<lambda>a. py_bind (f a) g)"
  by (simp add: py_bind_def fun_eq_iff split: prod.split sum.split)

text \<open>A relation between the world before and after a computation, whatever the
  computation returns or raises. A reflexive and transitive relation is kept by
  every composition of computations that keep it.\<close>

definition pyst_rel :: "('w \<Rightarrow> 'w \<Rightarrow> bool) \<Rightarrow> ('w, 'a) pyst \<Rightarrow> bool" where
  "pyst_rel R m \<longleftrightarrow> (\<forall>w. R w (snd (m w)))"

text \<open>The result of a bind that returned normally came from a normal run of both parts.\<close>

lemma py_bind_InrE:
  assumes "py_bind m f w = (Inr b, w'')"
  obtains a w' where "m w = (Inr a, w')" and "f a w' = (Inr b, w'')"
  using assms by (auto simp: py_bind_def split: prod.splits sum.splits)

lemma py_bind_InlE:
  assumes "py_bind m f w = (Inl e, w'')"
  obtains "m w = (Inl e, w'')" | a w' where "m w = (Inr a, w')" and "f a w' = (Inl e, w'')"
  using assms by (auto simp: py_bind_def split: prod.splits sum.splits)

lemma pyst_relD: "pyst_rel R m \<Longrightarrow> m w = (r, w') \<Longrightarrow> R w w'"
  by (metis pyst_rel_def snd_conv)

lemma pyst_rel_return [pyst_rel_intros]: "reflp R \<Longrightarrow> pyst_rel R (py_return a)"
  by (simp add: pyst_rel_def reflp_def)

lemma pyst_rel_raise [pyst_rel_intros]: "reflp R \<Longrightarrow> pyst_rel R (py_raise e)"
  by (simp add: pyst_rel_def reflp_def)

lemma pyst_rel_lift [pyst_rel_intros]: "reflp R \<Longrightarrow> pyst_rel R (py_lift r)"
  by (simp add: pyst_rel_def reflp_def)

lemma pyst_rel_if [pyst_rel_intros]:
  "pyst_rel R m1 \<Longrightarrow> pyst_rel R m2 \<Longrightarrow> pyst_rel R (if b then m1 else m2)"
  by simp

lemma pyst_rel_bind [pyst_rel_intros]:
  assumes "transp R" and "reflp R" and "pyst_rel R m" and "\<And>a. pyst_rel R (f a)"
  shows "pyst_rel R (py_bind m f)"
  unfolding pyst_rel_def
proof
  fix w
  obtain r w' where m: "m w = (r, w')" by fastforce
  have "R w w'" using assms(3) m by (rule pyst_relD)
  show "R w (snd (py_bind m f w))"
  proof (cases r)
    case (Inl e)
    with m \<open>R w w'\<close> show ?thesis by simp
  next
    case (Inr a)
    with m have "py_bind m f w = f a w'" by simp
    moreover have "R w' (snd (f a w'))" using assms(4) by (simp add: pyst_rel_def)
    ultimately show ?thesis using \<open>R w w'\<close> assms(1) by (metis transpD)
  qed
qed

lemma map_const_replicate: "(\<forall>x \<in> set xs. f x = c) \<Longrightarrow> map f xs = replicate (length xs) c"
  by (induction xs) auto

lemma pyst_rel_case_prod [pyst_rel_intros]:
  "(\<And>a b. pyst_rel R (f a b)) \<Longrightarrow> pyst_rel R (case p of (a, b) \<Rightarrow> f a b)"
  by (simp split: prod.split)


lemma sorted_snoc_last: "sorted (xs @ [c]) \<Longrightarrow> c \<le> d \<Longrightarrow> sorted (xs @ [d])"
  by (induction xs rule: rev_induct) (auto simp: sorted_append)

end
