(* ===== verification/Json.thy ===== *)
theory Json
  imports Prelude
begin

text \<open>
  The Python values the program handles: the result of \<^verbatim>\<open>res.json()\<close>, the
  values of \<^verbatim>\<open>os.getenv\<close> and the request bodies it builds are all JSON
  values, \<open>JNull\<close> being Python's \<open>None\<close>. An object is the list of its members
  in the order of the text (\<^verbatim>\<open>json.loads\<close> keeps the last of a repeated key).
  Numbers are modelled as integers. On these values the theory defines
  Python's subscript \<^verbatim>\<open>v[k]\<close> with its exceptions, truthiness (\<^verbatim>\<open>if not v\<close>),
  \<^verbatim>\<open>str(v)\<close> as an f-string prints it, and the decimal \<^verbatim>\<open>str(int)\<close> with its
  inverse.
\<close>

datatype json =
    JNull
  | JBool bool
  | JInt int
  | JStr string
  | JArr "json list"
  | JObj "(string \<times> json) list"

datatype key = KStr string | KInt int

subsection \<open>Subscript\<close>

definition dict_lookup :: "(string \<times> json) list \<Rightarrow> string \<Rightarrow> json option" where
  "dict_lookup kvs k = map_of (rev kvs) k"

definition py_index :: "'a list \<Rightarrow> int \<Rightarrow> py_exc + 'a" where
  "py_index xs i =
     (let k = (if i < 0 then i + int (length xs) else i)
      in if k < 0 \<or> int (length xs) \<le> k then Inl IndexError else Inr (xs ! nat k))"

fun py_getitem :: "json \<Rightarrow> key \<Rightarrow> py_exc + json" where
  "py_getitem (JObj kvs) (KStr k) =
     (case dict_lookup kvs k of Some v \<Rightarrow> Inr v | None \<Rightarrow> Inl KeyError)"
| "py_getitem (JObj kvs) (KInt i) = Inl KeyError"
| "py_getitem (JArr xs) (KInt i) = py_index xs i"
| "py_getitem (JArr xs) (KStr k) = Inl TypeError"
| "py_getitem (JStr s) (KInt i) = py_then (py_index s i) (\<lambda>c. Inr (JStr [c]))"
| "py_getitem (JStr s) (KStr k) = Inl TypeError"
| "py_getitem JNull k = Inl TypeError"
| "py_getitem (JBool b) k = Inl TypeError"
| "py_getitem (JInt n) k = Inl TypeError"

subsection \<open>Truthiness and equality with a string literal\<close>

fun py_truthy :: "json \<Rightarrow> bool" where
  "py_truthy JNull = False"
| "py_truthy (JBool b) = b"
| "py_truthy (JInt n) = (n \<noteq> 0)"
| "py_truthy (JStr s) = (s \<noteq> [])"
| "py_truthy (JArr xs) = (xs \<noteq> [])"
| "py_truthy (JObj kvs) = (kvs \<noteq> [])"

subsection \<open>Decimal \<^verbatim>\<open>str(int)\<close> and its inverse\<close>

definition digit_char :: "nat \<Rightarrow> char" where
  "digit_char d = char_of (48 + d)"

fun nat_str :: "nat \<Rightarrow> string" where
  "nat_str n = (if n < 10 then [digit_char n] else nat_str (n div 10) @ [digit_char (n mod 10)])"

declare nat_str.simps [simp del]

definition str_int :: "int \<Rightarrow> string" where
  "str_int i = (if i < 0 then CHR ''-'' # nat_str (nat (- i)) else nat_str (nat i))"

definition is_digit :: "char \<Rightarrow> bool" where
  "is_digit c \<longleftrightarrow> (48::nat) \<le> of_char c \<and> of_char c < (58::nat)"

fun digits_val :: "nat \<Rightarrow> string \<Rightarrow> nat" where
  "digits_val acc [] = acc"
| "digits_val acc (c # cs) = digits_val (10 * acc + (of_char c - 48)) cs"

definition parse_nat :: "string \<Rightarrow> nat option" where
  "parse_nat s = (if s \<noteq> [] \<and> list_all is_digit s then Some (digits_val 0 s) else None)"

definition parse_int :: "string \<Rightarrow> int option" where
  "parse_int s =
     (case s of
        c # cs \<Rightarrow> if c = CHR ''-'' then map_option (\<lambda>n. - int n) (parse_nat cs)
                  else map_option int (parse_nat s)
      | [] \<Rightarrow> None)"

subsection \<open>\<^verbatim>\<open>str(v)\<close> of a value, as an f-string prints it\<close>

text \<open>Containers print as their \<^verbatim>\<open>repr\<close>; a string inside a container prints
  between single quotes (the escaping \<^verbatim>\<open>repr\<close> applies to quotes, backslashes and
  control characters is not modelled).\<close>

fun py_repr :: "json \<Rightarrow> string"
  and py_repr_items :: "json list \<Rightarrow> string"
  and py_repr_members :: "(string \<times> json) list \<Rightarrow> string" where
  "py_repr JNull = ''None''"
| "py_repr (JBool b) = (if b then ''True'' else ''False'')"
| "py_repr (JInt n) = str_int n"
| "py_repr (JStr s) = CHR 0x27 # s @ [CHR 0x27]"
| "py_repr (JArr xs) = CHR ''['' # py_repr_items xs @ '']''"
| "py_repr (JObj kvs) = CHR ''{'' # py_repr_members kvs @ ''}''"
| "py_repr_items [] = []"
| "py_repr_items [x] = py_repr x"
| "py_repr_items (x # y # ys) = py_repr x @ '', '' @ py_repr_items (y # ys)"
| "py_repr_members [] = []"
| "py_repr_members [(k, v)] = py_repr (JStr k) @ '': '' @ py_repr v"
| "py_repr_members ((k, v) # m # ms) =
     py_repr (JStr k) @ '': '' @ py_repr v @ '', '' @ py_repr_members (m # ms)"

text \<open>Whether a value is a JSON object (a Python dict).\<close>

fun json_is_object :: "json \<Rightarrow> bool" where
  "json_is_object (JObj kvs) = True"
| "json_is_object v = False"

fun py_str :: "json \<Rightarrow> string" where
  "py_str (JStr s) = s"
| "py_str v = py_repr v"

subsection \<open>Facts on subscripts\<close>

lemma py_index_0 [simp]:
  "py_index [] 0 = Inl IndexError"
  "py_index (x # xs) 0 = Inr x"
  by (simp_all add: py_index_def)

lemma dict_lookup_Cons [simp]:
  "dict_lookup ((k, v) # kvs) k' =
     (case dict_lookup kvs k' of None \<Rightarrow> if k = k' then Some v else None | Some u \<Rightarrow> Some u)"
  by (simp add: dict_lookup_def map_add_def split: option.split)

lemma dict_lookup_Nil [simp]: "dict_lookup [] k = None"
  by (simp add: dict_lookup_def)

subsection \<open>The decimal string of an integer reads back\<close>

lemma of_char_digit_char [simp]: "d < 10 \<Longrightarrow> of_char (digit_char d) = 48 + d"
  by (simp add: digit_char_def)

lemma is_digit_digit_char [simp]: "d < 10 \<Longrightarrow> is_digit (digit_char d)"
  by (simp add: is_digit_def)

lemma is_digit_not_minus: "is_digit c \<Longrightarrow> c \<noteq> CHR ''-''"
  by (auto simp: is_digit_def)

lemma digits_val_append [simp]: "digits_val acc (xs @ ys) = digits_val (digits_val acc xs) ys"
  by (induction xs arbitrary: acc) simp_all

lemma nat_str_props:
  "nat_str n \<noteq> [] \<and> list_all is_digit (nat_str n) \<and> digits_val 0 (nat_str n) = n"
proof (induction n rule: nat_str.induct)
  case (1 n)
  show ?case
  proof (cases "n < 10")
    case True
    then show ?thesis by (simp add: nat_str.simps [of n])
  next
    case False
    with "1.IH" show ?thesis by (simp add: nat_str.simps [of n])
  qed
qed

lemma parse_nat_nat_str [simp]: "parse_nat (nat_str n) = Some n"
  using nat_str_props [of n] by (simp add: parse_nat_def)

text \<open>The timestamp header carries \<^verbatim>\<open>str(cbc_api_now)\<close>; reading that
  decimal string back as an integer gives the timestamp again, for every integer.\<close>

lemma parse_int_str_int: "parse_int (str_int i) = Some i"
proof (cases "i < 0")
  case True
  then show ?thesis by (simp add: str_int_def parse_int_def)
next
  case False
  have props: "nat_str (nat i) \<noteq> []" "list_all is_digit (nat_str (nat i))"
    using nat_str_props by blast+
  then obtain c cs where cs: "nat_str (nat i) = c # cs"
    by (cases "nat_str (nat i)") auto
  with props have "c \<noteq> CHR ''-''" by (simp add: is_digit_not_minus)
  moreover have "parse_nat (c # cs) = Some (nat i)"
    using parse_nat_nat_str [of "nat i"] cs by simp
  ultimately show ?thesis using False cs by (simp add: str_int_def parse_int_def)
qed


text \<open>Subscripts raise only \<open>KeyError\<close>, \<open>IndexError\<close> and \<open>TypeError\<close>, never
  \<open>SystemExit\<close>.\<close>

lemma py_index_not_exit [simp]: "py_index xs i \<noteq> Inl (SystemExit s)"
  by (simp add: py_index_def Let_def)

lemma py_getitem_not_exit [simp]: "py_getitem v k \<noteq> Inl (SystemExit s)"
  by (induction v k rule: py_getitem.induct) (simp_all add: py_then_def py_index_def Let_def split: option.splits sum.splits)

end
