(* ===== verification/Sha256.thy ===== *)
theory Sha256
  imports Prelude
begin

text \<open>
  SHA-256 (FIPS 180-4) and HMAC (FIPS 198-1, RFC 2104) on byte lists, as
  \<^verbatim>\<open>hmac.new(key, msg, digestmod=hashlib.sha256).digest()\<close> computes them in
  \<^verbatim>\<open>CouchbaseCloud.request\<close>. Both come from the Python library, not from the
  repository; they are modelled from the standards on \<open>32 word\<close> values, with
  the additions of the standard wrapping around modulo \<open>2^32\<close>. The lemmas give
  the lengths (a 32-byte digest, a 64-byte HMAC key block) that the signature
  header relies on.
\<close>

unbundle bit_operations_syntax

type_synonym word32 = "32 word"

subsection \<open>Constants and functions of FIPS 180-4, 4.1.2 and 4.2.2\<close>

definition K256 :: "word32 list" where
  "K256 =
   [0x428A2F98, 0x71374491, 0xB5C0FBCF, 0xE9B5DBA5, 0x3956C25B, 0x59F111F1, 0x923F82A4, 0xAB1C5ED5,
    0xD807AA98, 0x12835B01, 0x243185BE, 0x550C7DC3, 0x72BE5D74, 0x80DEB1FE, 0x9BDC06A7, 0xC19BF174,
    0xE49B69C1, 0xEFBE4786, 0x0FC19DC6, 0x240CA1CC, 0x2DE92C6F, 0x4A7484AA, 0x5CB0A9DC, 0x76F988DA,
    0x983E5152, 0xA831C66D, 0xB00327C8, 0xBF597FC7, 0xC6E00BF3, 0xD5A79147, 0x06CA6351, 0x14292967,
    0x27B70A85, 0x2E1B2138, 0x4D2C6DFC, 0x53380D13, 0x650A7354, 0x766A0ABB, 0x81C2C92E, 0x92722C85,
    0xA2BFE8A1, 0xA81A664B, 0xC24B8B70, 0xC76C51A3, 0xD192E819, 0xD6990624, 0xF40E3585, 0x106AA070,
    0x19A4C116, 0x1E376C08, 0x2748774C, 0x34B0BCB5, 0x391C0CB3, 0x4ED8AA4A, 0x5B9CCA4F, 0x682E6FF3,
    0x748F82EE, 0x78A5636F, 0x84C87814, 0x8CC70208, 0x90BEFFFA, 0xA4506CEB, 0xBEF9A3F7, 0xC67178F2]"

record sha_vars =
  va :: word32
  vb :: word32
  vc :: word32
  vd :: word32
  ve :: word32
  vf :: word32
  vg :: word32
  vh :: word32

definition H256_init :: sha_vars where
  "H256_init =
   \<lparr>va = 0x6a09e667, vb = 0xbb67ae85, vc = 0x3c6ef372, vd = 0xa54ff53a,
    ve = 0x510e527f, vf = 0x9b05688c, vg = 0x1f83d9ab, vh = 0x5be0cd19\<rparr>"

definition Ch :: "word32 \<Rightarrow> word32 \<Rightarrow> word32 \<Rightarrow> word32" where
  "Ch x y z = (x AND y) XOR (NOT x AND z)"

definition Maj :: "word32 \<Rightarrow> word32 \<Rightarrow> word32 \<Rightarrow> word32" where
  "Maj x y z = (x AND y) XOR (x AND z) XOR (y AND z)"

definition Sigma0 :: "word32 \<Rightarrow> word32" where
  "Sigma0 x = word_rotr 2 x XOR word_rotr 13 x XOR word_rotr 22 x"

definition Sigma1 :: "word32 \<Rightarrow> word32" where
  "Sigma1 x = word_rotr 6 x XOR word_rotr 11 x XOR word_rotr 25 x"

definition sigma0 :: "word32 \<Rightarrow> word32" where
  "sigma0 x = word_rotr 7 x XOR word_rotr 18 x XOR drop_bit 3 x"

definition sigma1 :: "word32 \<Rightarrow> word32" where
  "sigma1 x = word_rotr 17 x XOR word_rotr 19 x XOR drop_bit 10 x"

subsection \<open>Big-endian conversions and padding (5.1.1, 5.2.1)\<close>

definition be_word32 :: "byte list \<Rightarrow> word32" where
  "be_word32 bs =
     push_bit 24 (ucast (bs ! 0)) OR push_bit 16 (ucast (bs ! 1))
     OR push_bit 8 (ucast (bs ! 2)) OR ucast (bs ! 3)"

definition word32_be :: "word32 \<Rightarrow> byte list" where
  "word32_be w = [ucast (drop_bit 24 w), ucast (drop_bit 16 w), ucast (drop_bit 8 w), ucast w]"

definition be64 :: "nat \<Rightarrow> byte list" where
  "be64 n = map (\<lambda>i. of_nat (n div 2 ^ (8 * (7 - i)))) [0..<8]"

definition sha256_pad :: "byte list \<Rightarrow> byte list" where
  "sha256_pad m =
     m @ [0x80] @ replicate ((119 - length m mod 64) mod 64) 0 @ be64 (8 * length m)"

fun chunks64 :: "byte list \<Rightarrow> byte list list" where
  "chunks64 xs = (if xs = [] then [] else take 64 xs # chunks64 (drop 64 xs))"

declare chunks64.simps [simp del]

definition block_words :: "byte list \<Rightarrow> word32 list" where
  "block_words b = map (\<lambda>i. be_word32 (take 4 (drop (4 * i) b))) [0..<16]"

subsection \<open>Message schedule and compression (6.2.2)\<close>

fun schedule_ext :: "nat \<Rightarrow> word32 list \<Rightarrow> word32 list" where
  "schedule_ext 0 W = W"
| "schedule_ext (Suc n) W =
     (let t = length W
      in schedule_ext n (W @ [sigma1 (W ! (t - 2)) + W ! (t - 7) + sigma0 (W ! (t - 15)) + W ! (t - 16)]))"

definition schedule :: "byte list \<Rightarrow> word32 list" where
  "schedule b = schedule_ext 48 (block_words b)"

definition sha_round :: "sha_vars \<Rightarrow> word32 \<Rightarrow> word32 \<Rightarrow> sha_vars" where
  "sha_round v k w =
     (let T1 = vh v + Sigma1 (ve v) + Ch (ve v) (vf v) (vg v) + k + w;
          T2 = Sigma0 (va v) + Maj (va v) (vb v) (vc v)
      in \<lparr>va = T1 + T2, vb = va v, vc = vb v, vd = vc v,
          ve = vd v + T1, vf = ve v, vg = vf v, vh = vg v\<rparr>)"

definition sha_add :: "sha_vars \<Rightarrow> sha_vars \<Rightarrow> sha_vars" where
  "sha_add h v =
     \<lparr>va = va h + va v, vb = vb h + vb v, vc = vc h + vc v, vd = vd h + vd v,
      ve = ve h + ve v, vf = vf h + vf v, vg = vg h + vg v, vh = vh h + vh v\<rparr>"

definition sha_compress :: "sha_vars \<Rightarrow> byte list \<Rightarrow> sha_vars" where
  "sha_compress h b =
     (let W = schedule b
      in sha_add h (foldl (\<lambda>v t. sha_round v (K256 ! t) (W ! t)) h [0..<64]))"

definition sha_digest :: "sha_vars \<Rightarrow> byte list" where
  "sha_digest h = concat (map word32_be [va h, vb h, vc h, vd h, ve h, vf h, vg h, vh h])"

definition sha256 :: "byte list \<Rightarrow> byte list" where
  "sha256 m = sha_digest (foldl sha_compress H256_init (chunks64 (sha256_pad m)))"

subsection \<open>HMAC-SHA256 (RFC 2104, Python's \<^verbatim>\<open>hmac\<close> module)\<close>

text \<open>A key longer than the 64-byte block is first hashed; the key is then padded
  with zero bytes to the block (\<^verbatim>\<open>key.ljust(blocksize, b'\0')\<close>).\<close>

definition hmac_block_key :: "byte list \<Rightarrow> byte list" where
  "hmac_block_key K =
     (let K' = (if 64 < length K then sha256 K else K) in K' @ replicate (64 - length K') 0)"

definition hmac_sha256 :: "byte list \<Rightarrow> byte list \<Rightarrow> byte list" where
  "hmac_sha256 K msg =
     (let K0 = hmac_block_key K
      in sha256 (map (\<lambda>b. b XOR 0x5c) K0 @ sha256 (map (\<lambda>b. b XOR 0x36) K0 @ msg)))"

subsection \<open>Lengths\<close>

lemma length_word32_be [simp]: "length (word32_be w) = 4"
  by (simp add: word32_be_def)

lemma length_sha_digest [simp]: "length (sha_digest h) = 32"
  by (simp add: sha_digest_def)

lemma length_sha256 [simp]: "length (sha256 m) = 32"
  by (simp add: sha256_def)

lemma length_hmac_block_key [simp]: "length (hmac_block_key K) = 64"
  by (simp add: hmac_block_key_def Let_def)

text \<open>The HMAC-SHA256 digest the client signs with is 32 bytes long, whatever
  the key and the message.\<close>

lemma length_hmac_sha256: "length (hmac_sha256 K msg) = 32"
  by (simp add: hmac_sha256_def Let_def)

end
