(* ===== verification/Base64.thy ===== *)
theory Base64
  imports Prelude
begin

text \<open>
  Base64 with the standard alphabet and \<^verbatim>\<open>=\<close> padding (RFC 4648, section 4), as
  \<^verbatim>\<open>base64.b64encode(...).decode()\<close> produces the signature text in
  \<^verbatim>\<open>CouchbaseCloud.request\<close>. The encoder is Python's library, modelled from the
  RFC: three bytes become four characters, a final group of one or two bytes is
  padded. The decoder is the RFC's inverse, stated so that the roundtrip can be
  proved. The lemmas give the length of the encoding and its alphabet, which
  contains no \<^verbatim>\<open>:\<close> (the separator of the authorization header).
\<close>

definition b64_alphabet :: string where
  "b64_alphabet = ''ABCDEFGHIJKLMNOPQRSTUVWXYZabcdefghijklmnopqrstuvwxyz0123456789+/''"

definition b64_char :: "nat \<Rightarrow> char" where
  "b64_char i = b64_alphabet ! i"

fun b64encode :: "byte list \<Rightarrow> string" where
  "b64encode (a # b # c # rest) =
     (let x = unat a; y = unat b; z = unat c
      in [b64_char (x div 4), b64_char (x mod 4 * 16 + y div 16),
          b64_char (y mod 16 * 4 + z div 64), b64_char (z mod 64)] @ b64encode rest)"
| "b64encode [a, b] =
     (let x = unat a; y = unat b
      in [b64_char (x div 4), b64_char (x mod 4 * 16 + y div 16),
          b64_char (y mod 16 * 4), CHR ''=''])"
| "b64encode [a] =
     (let x = unat a in [b64_char (x div 4), b64_char (x mod 4 * 16), CHR ''='', CHR ''=''])"
| "b64encode [] = []"

fun idx_of :: "'a \<Rightarrow> 'a list \<Rightarrow> nat option" where
  "idx_of x [] = None"
| "idx_of x (y # ys) = (if x = y then Some 0 else map_option Suc (idx_of x ys))"

definition b64_val :: "char \<Rightarrow> nat option" where
  "b64_val c = idx_of c b64_alphabet"

fun b64decode :: "string \<Rightarrow> byte list option" where
  "b64decode [] = Some []"
| "b64decode (c1 # c2 # c3 # c4 # rest) =
     (case (b64_val c1, b64_val c2) of
        (Some p, Some q) \<Rightarrow>
          if c3 = CHR ''='' \<and> c4 = CHR ''='' \<and> rest = [] then Some [of_nat (p * 4 + q div 16)]
          else (case b64_val c3 of
                  None \<Rightarrow> None
                | Some r \<Rightarrow>
                    if c4 = CHR ''='' \<and> rest = []
                    then Some [of_nat (p * 4 + q div 16), of_nat (q mod 16 * 16 + r div 4)]
                    else (case (b64_val c4, b64decode rest) of
                            (Some s, Some bs) \<Rightarrow>
                              Some ([of_nat (p * 4 + q div 16), of_nat (q mod 16 * 16 + r div 4),
                                     of_nat (r mod 4 * 64 + s)] @ bs)
                          | _ \<Rightarrow> None))
      | _ \<Rightarrow> None)"
| "b64decode _ = None"

subsection \<open>Roundtrip, length and alphabet\<close>

lemma idx_of_nth: "distinct xs \<Longrightarrow> i < length xs \<Longrightarrow> idx_of (xs ! i) xs = Some i"
proof (induction xs arbitrary: i)
  case Nil then show ?case by simp
next
  case (Cons y ys)
  then show ?case by (cases i) auto
qed

lemma idx_of_None: "x \<notin> set xs \<Longrightarrow> idx_of x xs = None"
  by (induction xs) auto

lemma length_b64_alphabet [simp]: "length b64_alphabet = 64"
  by (simp add: b64_alphabet_def)

lemma distinct_b64_alphabet: "distinct b64_alphabet"
  by (simp add: b64_alphabet_def)

lemma b64_val_char [simp]: "i < 64 \<Longrightarrow> b64_val (b64_char i) = Some i"
  by (simp add: b64_val_def b64_char_def idx_of_nth distinct_b64_alphabet)

lemma pad_not_in_alphabet: "CHR ''='' \<notin> set b64_alphabet"
  by (simp add: b64_alphabet_def)

lemma b64_char_in [simp]: "i < 64 \<Longrightarrow> b64_char i \<in> set b64_alphabet"
  by (simp add: b64_char_def)

lemma b64_char_not_pad [simp]: "i < 64 \<Longrightarrow> b64_char i \<noteq> CHR ''=''"
  using b64_char_in pad_not_in_alphabet by metis

lemma div_add_small: "b < n \<Longrightarrow> (a * n + b) div n = (a::nat)"
  by simp

lemma mod_add_small: "b < n \<Longrightarrow> (a * n + b) mod n = (b::nat)"
  by simp

lemma div_bound: "(m::nat) < i * n \<Longrightarrow> m div n < i"
  by (simp add: less_mult_imp_div_less)

lemma arith3:
  fixes x y z :: nat
  assumes "x < 256" "y < 256" "z < 256"
  shows "(x div 4) * 4 + (x mod 4 * 16 + y div 16) div 16 = x"
    and "(x mod 4 * 16 + y div 16) mod 16 * 16 + (y mod 16 * 4 + z div 64) div 4 = y"
    and "(y mod 16 * 4 + z div 64) mod 4 * 64 + z mod 64 = z"
    and "x div 4 < 64" "x mod 4 * 16 + y div 16 < 64" "y mod 16 * 4 + z div 64 < 64" "z mod 64 < 64"
proof -
  have y16: "y div 16 < 16" and z64: "z div 64 < 4" and x4: "x div 4 < 64"
    using assms by (simp_all add: div_bound)
  have m4: "x mod 4 < 4" "y mod 16 < 16" by simp_all
  show "(x div 4) * 4 + (x mod 4 * 16 + y div 16) div 16 = x"
    using y16 by (simp only: div_add_small) simp
  show "(x mod 4 * 16 + y div 16) mod 16 * 16 + (y mod 16 * 4 + z div 64) div 4 = y"
    using y16 z64 by (simp only: div_add_small mod_add_small) simp
  show "(y mod 16 * 4 + z div 64) mod 4 * 64 + z mod 64 = z"
    using z64 by (simp only: mod_add_small) simp
  show "x div 4 < 64" by (fact x4)
  show "x mod 4 * 16 + y div 16 < 64" using m4 y16 by linarith
  show "y mod 16 * 4 + z div 64 < 64" using m4 z64 by linarith
  show "z mod 64 < 64" by simp
qed

lemma unat_byte_lt: "unat (a::byte) < 256"
proof -
  have "unat a < 2 ^ LENGTH(8)" by (rule unsigned_less)
  then show ?thesis by simp
qed

text \<open>Decoding the encoding of any byte string gives the byte string back.\<close>

lemma b64decode_b64encode: "b64decode (b64encode bs) = Some bs"
proof (induction bs rule: b64encode.induct)
  case (1 a b c rest)
  have lt: "unat a < 256" "unat b < 256" "unat c < 256" by (simp_all add: unat_byte_lt)
  note ar = arith3 [OF lt]
  show ?case using "1.IH" ar by (simp add: Let_def)
next
  case (2 a b)
  have lt: "unat a < 256" "unat b < 256" "(0::nat) < 256" by (simp_all add: unat_byte_lt)
  note ar = arith3 [OF lt]
  show ?case using ar by (simp add: Let_def)
next
  case (3 a)
  have lt: "unat a < 256" "(0::nat) < 256" "(0::nat) < 256" by (simp_all add: unat_byte_lt)
  note ar = arith3 [OF lt]
  show ?case using ar by (simp add: Let_def)
next
  case 4
  show ?case by simp
qed

lemma length_b64encode: "length (b64encode bs) = 4 * ((length bs + 2) div 3)"
proof (induction bs rule: b64encode.induct)
  case (1 a b c rest)
  have "(length rest + 2 + 3) div 3 = Suc ((length rest + 2) div 3)"
    using div_add_self2 [of 3 "length rest + 2"] by simp
  with "1.IH" show ?case by (simp add: Let_def)
qed (simp_all add: Let_def)

lemma set_b64encode: "set (b64encode bs) \<subseteq> insert (CHR ''='') (set b64_alphabet)"
proof (induction bs rule: b64encode.induct)
  case (1 a b c rest)
  have lt: "unat a < 256" "unat b < 256" "unat c < 256" by (simp_all add: unat_byte_lt)
  show ?case using "1.IH" arith3 [OF lt] by (simp add: Let_def)
next
  case (2 a b)
  have lt: "unat a < 256" "unat b < 256" "(0::nat) < 256" by (simp_all add: unat_byte_lt)
  show ?case using arith3 [OF lt] by (simp add: Let_def)
next
  case (3 a)
  have lt: "unat a < 256" "(0::nat) < 256" "(0::nat) < 256" by (simp_all add: unat_byte_lt)
  show ?case using arith3 [OF lt] by (simp add: Let_def)
qed simp

lemma colon_not_in_b64encode: "CHR '':'' \<notin> set (b64encode bs)"
proof
  assume "CHR '':'' \<in> set (b64encode bs)"
  with set_b64encode have "CHR '':'' \<in> insert (CHR ''='') (set b64_alphabet)" by blast
  then show False by (simp add: b64_alphabet_def)
qed

end
