(* ===== verification/Cloud.thy ===== *)
theory Cloud
  imports Json Sha256 Base64
begin

text \<open>
  The signed request client, \<^verbatim>\<open>src/src/couchbase_cloud.py\<close>. The object
  \<^verbatim>\<open>CouchbaseCloud(access_key, secret, url)\<close> is the record
  \<open>couchbase_cloud\<close>; its fields hold whatever \<^verbatim>\<open>os.getenv\<close> returned, so they
  are Python values. \<^verbatim>\<open>request(endpoint, method, data)\<close> is \<open>request\<close>: it
  reads the clock, builds the message \<open>METHOD\nPATH\nTIMESTAMP\<close>, signs it with
  HMAC-SHA256 under the secret, base64-encodes the digest, attaches the two
  headers and sends the request. The HTTP library and the control plane are the
  world: \<open>responses\<close> are the answers the server will give, in order, and
  \<open>exchanges\<close> records every request sent with the answer it got. A request
  with no answer left raises \<open>ConnectionError\<close>. The clock is the world's
  millisecond clock; only \<^verbatim>\<open>time.sleep\<close> advances it (requests are taken to
  be instantaneous). \<open>console\<close> holds the lines printed so far: \<open>print_line\<close>
  is one \<^verbatim>\<open>print\<close> call, \<open>py_emit\<close> prints lines and then returns a value
  or raises.

  Strings are encoded to bytes by \<open>utf8_bytes\<close>, UTF-8 for code points below 256.
  For the lemmas about what the control plane can check, the theory also
  states the server's side of the scheme from section 6 of the spec:
  \<open>cbc_verify\<close> rebuilds the signed text from the request's method, URL and
  timestamp header and recomputes the signature, without the client's
  \<open>cbc_api_message\<close> or \<open>cbc_api_signature\<close>.
\<close>

record couchbase_cloud =
  access_key :: json
  secret :: json
  url :: json

record http_request =
  req_method :: string
  req_url :: string
  req_headers :: "(string \<times> string) list"
  req_json :: json

record response =
  status_code :: int
  body :: "json option"

record world =
  responses :: "response list"
  exchanges :: "(http_request \<times> response) list"
  clock :: int
  console :: "string list"

subsection \<open>Strings and bytes\<close>

text \<open>A character of a string is a code point below 256; \<^verbatim>\<open>str.encode("utf-8")\<close>
  writes one below 128 as one byte and any other as two, \<open>110xxxxx 10xxxxxx\<close>.\<close>

definition utf8_char :: "char \<Rightarrow> byte list" where
  "utf8_char c =
     (let n = of_char c :: nat in
      if n < 128 then [of_nat n] else [of_nat (192 + n div 64), of_nat (128 + n mod 64)])"

definition utf8_bytes :: "string \<Rightarrow> byte list" where
  "utf8_bytes s = concat (map utf8_char s)"

text \<open>\<^verbatim>\<open>bytes(v, "utf-8")\<close>: a string becomes its bytes, anything else raises.\<close>

definition py_bytes_utf8 :: "json \<Rightarrow> py_exc + byte list" where
  "py_bytes_utf8 v = (case v of JStr s \<Rightarrow> Inr (utf8_bytes s) | _ \<Rightarrow> Inl TypeError)"

abbreviation nl :: char where
  "nl \<equiv> CHR 0x0A"

subsection \<open>The signature (lines 19 to 38)\<close>

definition cbc_api_message :: "string \<Rightarrow> string \<Rightarrow> int \<Rightarrow> string" where
  "cbc_api_message method endpoint now = method @ [nl] @ endpoint @ [nl] @ str_int now"

definition cbc_api_signature :: "byte list \<Rightarrow> string \<Rightarrow> string" where
  "cbc_api_signature key message = b64encode (hmac_sha256 key (utf8_bytes message))"

definition cbc_api_request_headers :: "json \<Rightarrow> string \<Rightarrow> int \<Rightarrow> (string \<times> string) list" where
  "cbc_api_request_headers key signature now =
     [(''Authorization'', ''Bearer '' @ py_str key @ '':'' @ signature),
      (''Couchbase-Timestamp'', str_int now)]"

subsection \<open>The transport and the request\<close>

definition http_send :: "http_request \<Rightarrow> (world, response) pyst" where
  "http_send r w =
     (case responses w of
        [] \<Rightarrow> (Inl ConnectionError, w)
      | res # rest \<Rightarrow> (Inr res, w\<lparr>responses := rest, exchanges := exchanges w @ [(r, res)]\<rparr>))"

text \<open>Console output: \<^verbatim>\<open>print(s)\<close> appends the line \<open>s\<close>; \<open>py_emit ls r\<close>
  is pure code that printed the lines \<open>ls\<close> and then returned or raised \<open>r\<close>.\<close>

definition py_emit :: "string list \<Rightarrow> py_exc + 'a \<Rightarrow> (world, 'a) pyst" where
  "py_emit ls r w = (r, w\<lparr>console := console w @ ls\<rparr>)"

definition print_line :: "string \<Rightarrow> (world, unit) pyst" where
  "print_line s = py_emit [s] (Inr ())"

text \<open>A method other than GET, POST and DELETE leaves \<^verbatim>\<open>res\<close> unbound, and
  \<^verbatim>\<open>return res\<close> raises \<open>UnboundLocalError\<close>.\<close>

definition request :: "couchbase_cloud \<Rightarrow> string \<Rightarrow> string \<Rightarrow> json \<Rightarrow> (world, response) pyst" where
  "request cloud endpoint method data w =
     (let now = clock w;
          message = cbc_api_message method endpoint now
      in case py_bytes_utf8 (secret cloud) of
           Inl e \<Rightarrow> (Inl e, w)
         | Inr key \<Rightarrow>
             (let headers = cbc_api_request_headers (access_key cloud)
                              (cbc_api_signature key message) now;
                  target = py_str (url cloud) @ endpoint
              in if method = ''GET'' then
                   http_send \<lparr>req_method = ''GET'', req_url = target, req_headers = headers,
                              req_json = JNull\<rparr> w
                 else if method = ''POST'' then
                   http_send \<lparr>req_method = ''POST'', req_url = target, req_headers = headers,
                              req_json = data\<rparr> w
                 else if method = ''DELETE'' then
                   http_send \<lparr>req_method = ''DELETE'', req_url = target, req_headers = headers,
                              req_json = JNull\<rparr> w
                 else (Inl UnboundLocalError, w)))"

text \<open>The request \<open>request\<close> sends: the three branches differ only in the
  method and in whether the body is sent.\<close>

definition signed_request :: "couchbase_cloud \<Rightarrow> byte list \<Rightarrow> string \<Rightarrow> string \<Rightarrow> json \<Rightarrow> int \<Rightarrow> http_request" where
  "signed_request cloud key endpoint method data now =
     \<lparr>req_method = method, req_url = py_str (url cloud) @ endpoint,
      req_headers = cbc_api_request_headers (access_key cloud)
                      (cbc_api_signature key (cbc_api_message method endpoint now)) now,
      req_json = (if method = ''POST'' then data else JNull)\<rparr>"

subsection \<open>The control plane's check of a signed request (spec, section 6)\<close>

fun split_acc :: "char \<Rightarrow> string \<Rightarrow> string \<Rightarrow> string list" where
  "split_acc c acc [] = [rev acc]"
| "split_acc c acc (x # xs) = (if x = c then rev acc # split_acc c [] xs else split_acc c (x # acc) xs)"

definition split_message :: "string \<Rightarrow> (string \<times> string \<times> int) option" where
  "split_message s =
     (case split_acc nl [] s of
        [m, e, t] \<Rightarrow> map_option (\<lambda>n. (m, e, n)) (parse_int t)
      | _ \<Rightarrow> None)"

text \<open>The control plane's check, as section 6 of the spec states the headers:
  the request goes to the base URL, its timestamp header is a decimal integer,
  and its authorization header is \<^verbatim>\<open>Bearer {access_key}:{signature}\<close>, the
  signature being the base64 HMAC-SHA256, under the secret, of the UTF-8 bytes of
  the method, the path after the base URL and the timestamp header, each
  followed by a newline but the last.\<close>

definition cbc_verify :: "string \<Rightarrow> byte list \<Rightarrow> string \<Rightarrow> http_request \<Rightarrow> bool" where
  "cbc_verify key secret_bytes base r \<longleftrightarrow>
     take (length base) (req_url r) = base \<and>
     (case (map_of (req_headers r) ''Authorization'', map_of (req_headers r) ''Couchbase-Timestamp'') of
        (Some auth, Some ts) \<Rightarrow>
          parse_int ts \<noteq> None \<and>
          auth = ''Bearer '' @ key @ '':'' @
                   b64encode (hmac_sha256 secret_bytes
                     (utf8_bytes (req_method r @ ''\<newline>'' @ drop (length base) (req_url r) @ ''\<newline>'' @ ts)))
      | _ \<Rightarrow> False)"

subsection \<open>What a computation sends\<close>

text \<open>\<open>signed_by cloud r\<close>: the control plane accepts \<open>r\<close> as signed with the
  client's credentials. \<open>sends_only P w w'\<close>: going from \<open>w\<close> to \<open>w'\<close>, only
  exchanges whose request satisfies \<open>P\<close> were added.\<close>

definition signed_by :: "couchbase_cloud \<Rightarrow> http_request \<Rightarrow> bool" where
  "signed_by cloud r \<longleftrightarrow>
     (\<exists>key. py_bytes_utf8 (secret cloud) = Inr key \<and>
            cbc_verify (py_str (access_key cloud)) key (py_str (url cloud)) r)"

definition sends_only :: "(http_request \<Rightarrow> bool) \<Rightarrow> world \<Rightarrow> world \<Rightarrow> bool" where
  "sends_only P w w' \<longleftrightarrow> (\<exists>new. exchanges w' = exchanges w @ new \<and> (\<forall>x \<in> set new. P (fst x)))"

text \<open>The timestamp a request carries, as the control plane reads its
  \<^verbatim>\<open>Couchbase-Timestamp\<close> header; and the property of a world that every
  logged request carries one, in the order sent, none later than the clock.\<close>

definition req_timestamp :: "http_request \<Rightarrow> int option" where
  "req_timestamp q =
     (case map_of (req_headers q) ''Couchbase-Timestamp'' of None \<Rightarrow> None | Some ts \<Rightarrow> parse_int ts)"

definition timestamps_ok :: "world \<Rightarrow> bool" where
  "timestamps_ok w \<longleftrightarrow>
     list_all (\<lambda>x. req_timestamp (fst x) \<noteq> None) (exchanges w) \<and>
     sorted (map (\<lambda>x. the (req_timestamp (fst x))) (exchanges w) @ [clock w])"

definition clock_rel :: "world \<Rightarrow> world \<Rightarrow> bool" where
  "clock_rel w w' \<longleftrightarrow> clock w \<le> clock w' \<and> (timestamps_ok w \<longrightarrow> timestamps_ok w')"

text \<open>The shape of every request the client can send: the two headers of the
  scheme, in this order, and a JSON object as the body of a POST, no body
  otherwise.\<close>

definition req_well_formed :: "http_request \<Rightarrow> bool" where
  "req_well_formed q \<longleftrightarrow>
     map fst (req_headers q) = [''Authorization'', ''Couchbase-Timestamp''] \<and>
     (if req_method q = ''POST'' then json_is_object (req_json q) else req_json q = JNull)"

subsection \<open>A client and a world to evaluate on\<close>

definition demo_cloud :: couchbase_cloud where
  "demo_cloud = \<lparr>access_key = JStr ''ak'', secret = JStr ''sk'',
                 url = JStr ''https://cloudapi.cloud.couchbase.com''\<rparr>"

definition demo_ok :: response where
  "demo_ok = \<lparr>status_code = 200, body = Some (JObj [])\<rparr>"

definition demo_world :: world where
  "demo_world = \<lparr>responses = [demo_ok], exchanges = [], clock = 1700000000000, console = []\<rparr>"

subsection \<open>Lemmas\<close>

lemma split_acc_no_sep: "c \<notin> set xs \<Longrightarrow> split_acc c acc (xs @ ys) = split_acc c (rev xs @ acc) ys"
  by (induction xs arbitrary: acc) auto

lemma split_acc_sep: "c \<notin> set xs \<Longrightarrow> split_acc c acc (xs @ c # ys) = (rev acc @ xs) # split_acc c [] ys"
  using split_acc_no_sep [of c xs acc "c # ys"] by simp

lemma split_acc_last: "c \<notin> set xs \<Longrightarrow> split_acc c acc xs = [rev acc @ xs]"
  using split_acc_no_sep [of c xs acc "[]"] by simp

lemma nl_not_in_str_int: "nl \<notin> set (str_int t)"
proof -
  have "list_all is_digit (nat_str n)" for n using nat_str_props by blast
  then have "nl \<notin> set (nat_str n)" for n
  proof -
    have "\<not> is_digit nl" by (simp add: is_digit_def)
    then show ?thesis using \<open>list_all is_digit (nat_str n)\<close> by (auto simp: list_all_iff)
  qed
  then show ?thesis by (simp add: str_int_def)
qed

text \<open>C14: the canonical message \<open>METHOD\nPATH\nTIMESTAMP\<close> determines the
  method, the path and the timestamp it was built from, as long as the method and
  the path contain no newline: splitting it at the newlines gives them back.\<close>

theorem split_message_cbc_api_message:
  assumes "nl \<notin> set m" and "nl \<notin> set e"
  shows "split_message (cbc_api_message m e t) = Some (m, e, t)"
proof -
  have "split_acc nl [] (cbc_api_message m e t) = [m, e, str_int t]"
    using assms nl_not_in_str_int
    by (simp add: cbc_api_message_def split_acc_sep split_acc_last)
  then show ?thesis by (simp add: split_message_def parse_int_str_int)
qed

text \<open>C15: the signature text is 44 characters long, 32 digest bytes in base64,
  whatever the key and the message.\<close>

theorem length_cbc_api_signature: "length (cbc_api_signature key message) = 44"
  by (simp add: cbc_api_signature_def length_b64encode length_hmac_sha256)

lemma http_send_Inr:
  "http_send r w = (Inr res, w') \<longleftrightarrow>
   responses w = res # responses w' \<and> clock w' = clock w \<and> exchanges w' = exchanges w @ [(r, res)] \<and>
   w' = w\<lparr>responses := responses w', exchanges := exchanges w @ [(r, res)]\<rparr>"
  by (auto simp: http_send_def split: list.splits)

lemma http_send_Inl: "http_send r w = (Inl e, w') \<Longrightarrow> w' = w \<and> e = ConnectionError"
  by (auto simp: http_send_def split: list.splits)

lemma request_Inr:
  assumes "request cloud endpoint method data w = (Inr res, w')"
  shows "\<exists>key. py_bytes_utf8 (secret cloud) = Inr key \<and> method \<in> {''GET'', ''POST'', ''DELETE''} \<and>
           http_send (signed_request cloud key endpoint method data (clock w)) w = (Inr res, w')"
  using assms
  by (auto simp: request_def signed_request_def Let_def split: sum.splits if_splits)

lemma request_Inl:
  "request cloud endpoint method data w = (Inl e, w') \<Longrightarrow> w' = w"
  by (auto simp: request_def Let_def dest: http_send_Inl split: sum.splits if_splits)

text \<open>C16: the docstring says that only GET, POST and DELETE are supported. Any
  other method sends nothing and raises \<open>UnboundLocalError\<close> at
  \<^verbatim>\<open>return res\<close>, leaving the world unchanged.\<close>

theorem request_unsupported_method:
  assumes "method \<notin> {''GET'', ''POST'', ''DELETE''}" and "secret cloud = JStr s"
  shows "request cloud endpoint method data w = (Inl UnboundLocalError, w)"
  using assms by (simp add: request_def py_bytes_utf8_def Let_def)

lemma cbc_verify_signed_request:
  "cbc_verify (py_str (access_key cloud)) key (py_str (url cloud))
     (signed_request cloud key endpoint method data now)"
  by (simp add: cbc_verify_def signed_request_def cbc_api_request_headers_def cbc_api_signature_def
      cbc_api_message_def parse_int_str_int)

text \<open>Every request that \<open>request\<close> sends is recorded with its answer, goes
  to the base URL followed by the endpoint with the given method, and carries
  headers that pass the control plane's check: the bearer token names the access
  key, and the signature is the base64 HMAC-SHA256, under the secret, of the
  method, the endpoint and the timestamp that the timestamp header carries.\<close>

lemma request_sent:
  assumes "request cloud endpoint method data w = (Inr res, w')"
  shows "\<exists>r key. exchanges w' = exchanges w @ [(r, res)] \<and> py_bytes_utf8 (secret cloud) = Inr key \<and>
           req_method r = method \<and> req_url r = py_str (url cloud) @ endpoint \<and>
           cbc_verify (py_str (access_key cloud)) key (py_str (url cloud)) r"
proof -
  obtain key where key: "py_bytes_utf8 (secret cloud) = Inr key"
    and send: "http_send (signed_request cloud key endpoint method data (clock w)) w = (Inr res, w')"
    using request_Inr [OF assms] by blast
  let ?r = "signed_request cloud key endpoint method data (clock w)"
  have "exchanges w' = exchanges w @ [(?r, res)]" using send by (simp add: http_send_Inr)
  moreover have "req_method ?r = method" "req_url ?r = py_str (url cloud) @ endpoint"
    by (simp_all add: signed_request_def)
  ultimately show ?thesis using key cbc_verify_signed_request by blast
qed

lemma sends_only_reflp [simp]: "reflp (sends_only P)"
  by (auto simp: reflp_def sends_only_def)

lemma sends_only_transp [simp]: "transp (sends_only P)"
  by (auto simp: transp_def sends_only_def)

lemma sends_only_mono:
  "sends_only P w w' \<Longrightarrow> (\<And>r. P r \<Longrightarrow> Q r) \<Longrightarrow> sends_only Q w w'"
  by (auto simp: sends_only_def)

lemma pyst_rel_sends_only_mono:
  "pyst_rel (sends_only P) m \<Longrightarrow> (\<And>r. P r \<Longrightarrow> Q r) \<Longrightarrow> pyst_rel (sends_only Q) m"
  by (auto simp: pyst_rel_def intro: sends_only_mono)

lemma request_sends_only:
  "pyst_rel (sends_only (\<lambda>r. req_method r = method \<and> req_url r = py_str (url cloud) @ endpoint \<and>
                             signed_by cloud r))
            (request cloud endpoint method data)"
  unfolding pyst_rel_def
proof
  fix w
  obtain x w' where eq: "request cloud endpoint method data w = (x, w')" by fastforce
  show "sends_only (\<lambda>r. req_method r = method \<and> req_url r = py_str (url cloud) @ endpoint \<and>
          signed_by cloud r) w (snd (request cloud endpoint method data w))"
  proof (cases x)
    case (Inl e)
    with eq have "w' = w" by (simp add: request_Inl)
    with eq show ?thesis by (simp add: sends_only_def)
  next
    case (Inr res)
    with eq request_sent show ?thesis by (fastforce simp: sends_only_def signed_by_def)
  qed
qed

lemma request_sends_weaken:
  assumes "\<And>q. req_method q = method \<Longrightarrow> req_url q = py_str (url cloud) @ endpoint \<Longrightarrow>
              signed_by cloud q \<Longrightarrow> P q"
  shows "pyst_rel (sends_only P) (request cloud endpoint method data)"
  by (rule pyst_rel_sends_only_mono [OF request_sends_only]) (simp add: assms)

lemma request_Inr_world:
  "request cloud endpoint method data w = (Inr res, w') \<Longrightarrow>
   responses w = res # responses w' \<and> clock w' = clock w"
  using request_Inr http_send_Inr by metis

lemma request_clock: "pyst_rel (\<lambda>w w'. clock w' = clock w) (request cloud endpoint method data)"
  unfolding pyst_rel_def
proof
  fix w
  obtain x w' where eq: "request cloud endpoint method data w = (x, w')" by fastforce
  then show "clock (snd (request cloud endpoint method data w)) = clock w"
    by (cases x) (auto dest: request_Inl request_Inr_world)
qed

lemma signed_request_well_formed:
  "(method = ''POST'' \<Longrightarrow> json_is_object data) \<Longrightarrow>
   req_well_formed (signed_request cloud key endpoint method data now)"
  by (simp add: req_well_formed_def signed_request_def cbc_api_request_headers_def)

lemma request_well_formed:
  assumes "method = ''POST'' \<Longrightarrow> json_is_object data"
  shows "pyst_rel (sends_only req_well_formed) (request cloud endpoint method data)"
  unfolding pyst_rel_def
proof
  fix w
  obtain x w' where eq: "request cloud endpoint method data w = (x, w')" by fastforce
  have "sends_only req_well_formed w w'"
  proof (cases x)
    case (Inl e)
    with eq have "w' = w" by (auto dest: request_Inl)
    then show ?thesis by (simp add: sends_only_def)
  next
    case (Inr res)
    then obtain key where "http_send (signed_request cloud key endpoint method data (clock w)) w = (Inr res, w')"
      using eq request_Inr by blast
    then have "exchanges w' = exchanges w @ [(signed_request cloud key endpoint method data (clock w), res)]"
      by (simp add: http_send_Inr)
    then show ?thesis using signed_request_well_formed [OF assms] by (auto simp: sends_only_def)
  qed
  then show "sends_only req_well_formed w (snd (request cloud endpoint method data w))" using eq by simp
qed

lemma req_timestamp_signed_request [simp]:
  "req_timestamp (signed_request cloud key endpoint method data now) = Some now"
  by (simp add: req_timestamp_def signed_request_def cbc_api_request_headers_def parse_int_str_int)

lemma clock_rel_reflp [simp]: "reflp clock_rel"
  by (simp add: reflp_def clock_rel_def)

lemma clock_rel_transp [simp]: "transp clock_rel"
  by (auto simp: transp_def clock_rel_def)

text \<open>Printing changes only the console: it keeps every relation that does not
  look at the console.\<close>

lemma py_emit_apply [simp, py_simps]: "py_emit ls r w = (r, w\<lparr>console := console w @ ls\<rparr>)"
  by (simp add: py_emit_def)

lemma pyst_rel_emit [pyst_rel_intros]: "(\<And>w c. R w (w\<lparr>console := c\<rparr>)) \<Longrightarrow> pyst_rel R (py_emit ls r)"
  by (simp add: pyst_rel_def)

lemma pyst_rel_print [pyst_rel_intros]: "(\<And>w c. R w (w\<lparr>console := c\<rparr>)) \<Longrightarrow> pyst_rel R (print_line s)"
  unfolding print_line_def by (rule pyst_rel_emit)

lemma sends_only_console [simp]: "sends_only P w (w\<lparr>console := c\<rparr>)"
  by (simp add: sends_only_def)

lemma clock_rel_console [simp]: "clock_rel w (w\<lparr>console := c\<rparr>)"
  by (simp add: clock_rel_def timestamps_ok_def)

text \<open>A request stamps the clock it reads and leaves the clock as it was.\<close>

lemma request_clock_rel [pyst_rel_intros]: "pyst_rel clock_rel (request cloud endpoint method data)"
  unfolding pyst_rel_def
proof
  fix w
  obtain x w' where eq: "request cloud endpoint method data w = (x, w')" by fastforce
  have "clock_rel w w'"
  proof (cases x)
    case (Inl e)
    with eq have "w' = w" by (auto dest: request_Inl)
    then show ?thesis by (simp add: clock_rel_def)
  next
    case (Inr res)
    then obtain key where "http_send (signed_request cloud key endpoint method data (clock w)) w = (Inr res, w')"
      using eq request_Inr by blast
    then have ex: "exchanges w' = exchanges w @ [(signed_request cloud key endpoint method data (clock w), res)]"
      and c: "clock w' = clock w" by (simp_all add: http_send_Inr)
    show ?thesis
      by (auto simp: clock_rel_def timestamps_ok_def ex c sorted_append)
  qed
  then show "clock_rel w (snd (request cloud endpoint method data w))" using eq by simp
qed

text \<open>C7: a request that returns was sent exactly once and recorded with the
  answer it returned; its timestamp header carries the clock at the time of the
  call, and the control plane's check accepts it under the client's access key
  and secret.\<close>

theorem request_verifies:
  assumes "request cloud endpoint method data w = (Inr res, w')"
  shows "\<exists>q key. exchanges w' = exchanges w @ [(q, res)] \<and> py_bytes_utf8 (secret cloud) = Inr key \<and>
           map_of (req_headers q) ''Couchbase-Timestamp'' = Some (str_int (clock w)) \<and>
           cbc_verify (py_str (access_key cloud)) key (py_str (url cloud)) q"
proof -
  obtain key where key: "py_bytes_utf8 (secret cloud) = Inr key"
    and send: "http_send (signed_request cloud key endpoint method data (clock w)) w = (Inr res, w')"
    using request_Inr [OF assms] by blast
  let ?q = "signed_request cloud key endpoint method data (clock w)"
  have "exchanges w' = exchanges w @ [(?q, res)]" using send by (simp add: http_send_Inr)
  moreover have "map_of (req_headers ?q) ''Couchbase-Timestamp'' = Some (str_int (clock w))"
    by (simp add: signed_request_def cbc_api_request_headers_def)
  ultimately show ?thesis using key cbc_verify_signed_request by blast
qed

text \<open>Evaluation: with a string secret and a supported method, a request takes the
  next answer and records the signed request with it.\<close>

lemma request_next:
  assumes "secret cloud = JStr s" and "method \<in> {''GET'', ''POST'', ''DELETE''}"
    and "responses w = res # rest"
  shows "request cloud endpoint method data w =
           (Inr res, w\<lparr>responses := rest,
              exchanges := exchanges w @ [(signed_request cloud (utf8_bytes s) endpoint method data (clock w), res)]\<rparr>)"
  using assms by (auto simp: request_def http_send_def signed_request_def py_bytes_utf8_def Let_def)

subsection \<open>Witnesses\<close>

theorem split_message_cbc_api_message_witness:
  "nl \<notin> set ''GET'' \<and> nl \<notin> set ''/v2/clouds'' \<and>
   split_message (cbc_api_message ''GET'' ''/v2/clouds'' 1700000000000) =
     Some (''GET'', ''/v2/clouds'', 1700000000000)"
  using split_message_cbc_api_message [of "''GET''" "''/v2/clouds''" 1700000000000] by simp

theorem request_unsupported_method_witness:
  "''PUT'' \<notin> {''GET'', ''POST'', ''DELETE''} \<and> secret demo_cloud = JStr ''sk'' \<and>
   request demo_cloud ''/v2/clouds'' ''PUT'' JNull demo_world = (Inl UnboundLocalError, demo_world)"
  using request_unsupported_method [of "''PUT''" demo_cloud "''sk''" "''/v2/clouds''" JNull demo_world]
  by (simp add: demo_cloud_def)

theorem request_verifies_witness:
  "\<exists>w'. request demo_cloud ''/v2/clouds'' ''GET'' JNull demo_world = (Inr demo_ok, w') \<and>
     (\<exists>q key. exchanges w' = exchanges demo_world @ [(q, demo_ok)] \<and>
        py_bytes_utf8 (secret demo_cloud) = Inr key \<and>
        map_of (req_headers q) ''Couchbase-Timestamp'' = Some (str_int (clock demo_world)) \<and>
        cbc_verify (py_str (access_key demo_cloud)) key (py_str (url demo_cloud)) q)"
proof -
  obtain w' where h: "request demo_cloud ''/v2/clouds'' ''GET'' JNull demo_world = (Inr demo_ok, w')"
    by (simp add: request_def demo_cloud_def demo_world_def py_bytes_utf8_def http_send_def Let_def)
  show ?thesis using h request_verifies [OF h] by blast
qed

end
