(* ===== verification/Helpers.thy ===== *)
theory Helpers
  imports Cloud
begin

text \<open>
  The step functions of the orchestrator, \<^verbatim>\<open>src/src/cloud_helpers.py\<close>. Each
  helper sends one request through \<open>request\<close> and then interprets the response;
  the only effect of that second part is what \<^verbatim>\<open>check_response_for_errors\<close>
  prints. The model keeps that shape: the helper is
  \<open>py_bind (request ...) (\<lambda>res. py_emit (check_response_report res ...) (..._result res))\<close>,
  the lines the check prints, then the value of the code after the call.
  \<^verbatim>\<open>res.json()\<close> is \<open>resp_json\<close> (a body that is not JSON raises
  \<open>JSONDecodeError\<close>); \<^verbatim>\<open>check_response_for_errors\<close> reads
  \<^verbatim>\<open>errorType\<close> and \<^verbatim>\<open>message\<close> on failure, which raises when the body has
  no such fields, after it printed that the step failed.
\<close>


definition resp_json :: "response \<Rightarrow> py_exc + json" where
  "resp_json res = (case body res of None \<Rightarrow> Inl JSONDecodeError | Some j \<Rightarrow> Inr j)"

definition json_field :: "response \<Rightarrow> string \<Rightarrow> py_exc + json" where
  "json_field res k = py_then (resp_json res) (\<lambda>j. py_getitem j (KStr k))"

definition check_response_for_errors :: "response \<Rightarrow> string \<Rightarrow> int list \<Rightarrow> py_exc + response \<times> bool" where
  "check_response_for_errors res check_message status_codes =
     (if status_code res \<in> set status_codes then Inr (res, True)
      else py_then (json_field res ''errorType'') (\<lambda>_.
           py_then (json_field res ''message'') (\<lambda>_. Inr (res, False))))"

text \<open>The lines \<^verbatim>\<open>check_response_for_errors\<close> prints: the success line, or
  the failure line and then the error report, whose f-string raises (and so
  prints nothing) when the body lacks \<^verbatim>\<open>errorType\<close> or \<^verbatim>\<open>message\<close>.\<close>

definition check_response_report :: "response \<Rightarrow> string \<Rightarrow> int list \<Rightarrow> string list" where
  "check_response_report res check_message status_codes =
     (if status_code res \<in> set status_codes then [check_message @ '' Successful'']
      else (check_message @ '' Failed'') #
        (case (json_field res ''errorType'', json_field res ''message'') of
           (Inr t, Inr m) \<Rightarrow>
             [''Status code: '' @ str_int (status_code res) @ ''\<newline>Error Type:'' @ py_str t @
              '' \<newline>Error Message:'' @ py_str m]
         | _ \<Rightarrow> []))"

subsection \<open>\<^verbatim>\<open>get_cloud_status\<close>\<close>

text \<open>\<^verbatim>\<open>res.json()["data"][0]\<close>; a \<^verbatim>\<open>KeyError\<close> of the try block leaves
  \<^verbatim>\<open>cloud_id\<close> as far as it was assigned, any other exception escapes.\<close>

definition first_data_item :: "response \<Rightarrow> py_exc + json" where
  "first_data_item res = py_then (json_field res ''data'') (\<lambda>d. py_getitem d (KInt 0))"

definition cloud_status_fields :: "response \<Rightarrow> py_exc + json \<times> json" where
  "cloud_status_fields res =
     except_KeyError
       (py_then (first_data_item res) (\<lambda>r.
        py_then (py_getitem r (KStr ''id'')) (\<lambda>cloud_id.
        except_KeyError
          (py_then (py_getitem r (KStr ''provider'')) (\<lambda>cloud_provider. Inr (cloud_id, cloud_provider)))
          (cloud_id, JNull))))
       (JNull, JNull)"

definition cloud_status_result :: "response \<Rightarrow> py_exc + json \<times> json" where
  "cloud_status_result res =
     py_then (check_response_for_errors res ''Check Cloud Connection'' [200]) (\<lambda>(res, success).
       if success then cloud_status_fields res else Inr (JNull, JNull))"

definition get_cloud_status :: "couchbase_cloud \<Rightarrow> (world, json \<times> json) pyst" where
  "get_cloud_status cloud =
     py_bind (request cloud ''/v2/clouds'' ''GET'' JNull) (\<lambda>res. py_emit (check_response_report res ''Check Cloud Connection'' [200]) (cloud_status_result res))"

subsection \<open>\<^verbatim>\<open>create_project\<close>\<close>

definition create_project_result :: "response \<Rightarrow> py_exc + json" where
  "create_project_result res =
     py_then (check_response_for_errors res ''Create Project'' [201]) (\<lambda>(res, success).
       if success then except_KeyError (json_field res ''id'') JNull else Inr JNull)"

definition create_project :: "couchbase_cloud \<Rightarrow> json \<Rightarrow> (world, json) pyst" where
  "create_project cloud project_name =
     py_bind (request cloud ''/v2/projects'' ''POST'' (JObj [(''name'', project_name)]))
       (\<lambda>res. py_emit (check_response_report res ''Create Project'' [201]) (create_project_result res))"

subsection \<open>\<^verbatim>\<open>create_cluster\<close>\<close>

text \<open>The fixed topology: three AWS \<^verbatim>\<open>m5.xlarge\<close> nodes with 128 GiB of EBS
  storage, running the data, index and query services.\<close>

definition cluster_request :: "json \<Rightarrow> json \<Rightarrow> json \<Rightarrow> json" where
  "cluster_request cluster_name cloud_id project_id =
     JObj [(''name'', cluster_name), (''cloudId'', cloud_id), (''projectId'', project_id),
           (''version'', JStr ''latest''),
           (''servers'', JArr [JObj [(''services'', JArr [JStr ''data'', JStr ''index'', JStr ''query'']),
                                     (''size'', JInt 3),
                                     (''aws'', JObj [(''ebsSizeGib'', JInt 128),
                                                     (''instanceSize'', JStr ''m5.xlarge'')])]])]"

definition success_result :: "response \<Rightarrow> string \<Rightarrow> int list \<Rightarrow> py_exc + bool" where
  "success_result res check_message status_codes =
     py_then (check_response_for_errors res check_message status_codes) (\<lambda>(res, success). Inr success)"

definition create_cluster :: "couchbase_cloud \<Rightarrow> json \<Rightarrow> json \<Rightarrow> json \<Rightarrow> (world, bool) pyst" where
  "create_cluster cloud cluster_name cloud_id project_id =
     py_bind (request cloud ''/v2/clusters'' ''POST'' (cluster_request cluster_name cloud_id project_id))
       (\<lambda>res. py_emit (check_response_report res ''Create Cluster'' [202]) (success_result res ''Create Cluster'' [202]))"

subsection \<open>\<^verbatim>\<open>get_clusters\<close>\<close>

text \<open>Here the field reads are not inside a try block: every exception escapes.\<close>

definition get_clusters_result :: "response \<Rightarrow> py_exc + json" where
  "get_clusters_result res =
     py_then (check_response_for_errors res ''Get Clusters'' [200]) (\<lambda>(res, success).
       if success then py_then (first_data_item res) (\<lambda>r. py_getitem r (KStr ''id'')) else Inr JNull)"

definition get_clusters :: "couchbase_cloud \<Rightarrow> (world, json) pyst" where
  "get_clusters cloud =
     py_bind (request cloud ''/v2/clusters'' ''GET'' JNull) (\<lambda>res. py_emit (check_response_report res ''Get Clusters'' [200]) (get_clusters_result res))"

subsection \<open>The operations on one cluster\<close>

definition cluster_path :: "json \<Rightarrow> string" where
  "cluster_path cluster_id = ''/v2/clusters/'' @ py_str cluster_id"

definition check_cluster_ready :: "couchbase_cloud \<Rightarrow> json \<Rightarrow> (world, response \<times> bool) pyst" where
  "check_cluster_ready cloud cluster_id =
     py_bind (request cloud (cluster_path cluster_id) ''GET'' JNull)
       (\<lambda>res. py_emit (check_response_report res ''Get Cluster Status'' [200])
         (check_response_for_errors res ''Get Cluster Status'' [200]))"

definition allowlist_rule :: json where
  "allowlist_rule =
     JObj [(''cidrBlock'', JStr ''0.0.0.0/0''), (''ruleType'', JStr ''permanent''),
           (''comment'', JStr ''cluster accesss to all'')]"

definition enable_access_to_cluster :: "couchbase_cloud \<Rightarrow> json \<Rightarrow> (world, bool) pyst" where
  "enable_access_to_cluster cloud cluster_id =
     py_bind (request cloud (cluster_path cluster_id @ ''/allowlist'') ''POST'' allowlist_rule)
       (\<lambda>res. py_emit (check_response_report res ''Enable Cluster Access'' [202]) (success_result res ''Enable Cluster Access'' [202]))"

definition database_user :: "json \<Rightarrow> json \<Rightarrow> json" where
  "database_user username password =
     JObj [(''username'', username), (''password'', password), (''allBucketsAccess'', JStr ''data_writer'')]"

definition create_database_user :: "couchbase_cloud \<Rightarrow> json \<Rightarrow> json \<Rightarrow> json \<Rightarrow> (world, bool) pyst" where
  "create_database_user cloud cluster_id username password =
     py_bind (request cloud (cluster_path cluster_id @ ''/users'') ''POST'' (database_user username password))
       (\<lambda>res. py_emit (check_response_report res ''Create Database User'' [201]) (success_result res ''Create Database User'' [201]))"

definition delete_cluster :: "couchbase_cloud \<Rightarrow> json \<Rightarrow> (world, bool) pyst" where
  "delete_cluster cloud cluster_id =
     py_bind (request cloud (cluster_path cluster_id) ''DELETE'' JNull)
       (\<lambda>res. py_emit (check_response_report res ''Delete Cluster'' [202]) (success_result res ''Delete Cluster'' [202]))"

text \<open>The shape of every helper: one request, then the lines the check printed
  and the value of the code after the call.\<close>

abbreviation checked_request ::
  "couchbase_cloud \<Rightarrow> string \<Rightarrow> string \<Rightarrow> json \<Rightarrow> (response \<Rightarrow> string list) \<Rightarrow> (response \<Rightarrow> py_exc + 'a) \<Rightarrow> (world, 'a) pyst" where
  "checked_request cloud endpoint method data P g \<equiv>
     py_bind (request cloud endpoint method data) (\<lambda>res. py_emit (P res) (g res))"

text \<open>The method and the URL of an exchange, as the request log shows them.\<close>

definition req_line :: "http_request \<times> response \<Rightarrow> string \<times> string" where
  "req_line x = (req_method (fst x), req_url (fst x))"

subsection \<open>Sample answers of the control plane\<close>

definition answer_world :: "response list \<Rightarrow> world" where
  "answer_world rs = \<lparr>responses = rs, exchanges = [], clock = 1700000000000, console = []\<rparr>"

definition ok_answer :: "int \<Rightarrow> response" where
  "ok_answer c = \<lparr>status_code = c, body = Some (JObj [])\<rparr>"

definition error_answer :: response where
  "error_answer =
     \<lparr>status_code = 400, body = Some (JObj [(''errorType'', JStr ''BadRequest''), (''message'', JStr ''no'')])\<rparr>"

definition garbled_answer :: response where
  "garbled_answer = \<lparr>status_code = 502, body = None\<rparr>"

definition empty_list_answer :: response where
  "empty_list_answer = \<lparr>status_code = 200, body = Some (JObj [(''data'', JArr [])])\<rparr>"

definition cloud_list_answer :: response where
  "cloud_list_answer =
     \<lparr>status_code = 200,
      body = Some (JObj [(''data'', JArr [JObj [(''id'', JStr ''cloud-1''), (''provider'', JStr ''aws'')]])])\<rparr>"

definition project_answer :: response where
  "project_answer = \<lparr>status_code = 201, body = Some (JObj [(''id'', JStr ''p1'')])\<rparr>"

definition cluster_list_answer :: response where
  "cluster_list_answer =
     \<lparr>status_code = 200, body = Some (JObj [(''data'', JArr [JObj [(''id'', JStr ''clus-1'')]])])\<rparr>"

definition nameless_cluster_answer :: response where
  "nameless_cluster_answer =
     \<lparr>status_code = 200, body = Some (JObj [(''data'', JArr [JObj [(''name'', JStr ''cluster'')]])])\<rparr>"

subsection \<open>Lemmas\<close>

lemma bind_request_lift_Inr:
  "checked_request cloud endpoint method data P g w = (Inr x, w') \<longleftrightarrow>
   (\<exists>res w1. request cloud endpoint method data w = (Inr res, w1) \<and> g res = Inr x \<and>
      w' = w1\<lparr>console := console w1 @ P res\<rparr>)"
  by (auto simp: py_bind_apply split: prod.splits sum.splits)

lemma bind_request_lift_next:
  assumes "secret cloud = JStr s" and "responses w = res # rest"
    and "method \<in> {''GET'', ''POST'', ''DELETE''}"
  shows "fst (checked_request cloud endpoint method data P g w) = g res"
  using request_next [OF assms(1,3,2)] by simp

lemma bind_request_lift_sends_only:
  "pyst_rel (sends_only (\<lambda>r. req_method r = method \<and> req_url r = py_str (url cloud) @ endpoint \<and>
                             signed_by cloud r))
            (checked_request cloud endpoint method data P g)"
  by (intro pyst_rel_bind request_sends_only pyst_rel_emit sends_only_reflp sends_only_transp sends_only_console)

lemma check_response_in_codes:
  "status_code res \<in> set codes \<Longrightarrow> check_response_for_errors res m codes = Inr (res, True)"
  by (simp add: check_response_for_errors_def)

lemma check_response_report_ok [simp]:
  "status_code res \<in> set codes \<Longrightarrow> check_response_report res m codes = [m @ '' Successful'']"
  by (simp add: check_response_report_def)

lemma check_response_success_flag:
  "check_response_for_errors res m codes = Inr (r, s) \<Longrightarrow> r = res \<and> s = (status_code res \<in> set codes)"
  by (auto simp: check_response_for_errors_def py_then_Inr_iff split: if_splits)

text \<open>C3: the check succeeds with the success flag set exactly when the status
  code is in the allowed set of the step.\<close>

theorem check_response_success_iff:
  "check_response_for_errors res m codes = Inr (res, True) \<longleftrightarrow> status_code res \<in> set codes"
  using check_response_in_codes check_response_success_flag by blast

text \<open>C4: for a status code outside the allowed set and an error body that has the
  \<^verbatim>\<open>errorType\<close> and \<^verbatim>\<open>message\<close> fields, the check returns the response with
  the success flag cleared.\<close>

theorem check_response_failure:
  assumes "status_code res \<notin> set codes"
    and "json_field res ''errorType'' = Inr t" and "json_field res ''message'' = Inr msg"
  shows "check_response_for_errors res m codes = Inr (res, False)"
  using assms by (simp add: check_response_for_errors_def)

text \<open>C11: the spec asks that a body that does not parse be reported as a decode
  failure rather than crash the run. On a status outside the allowed set, the
  error report reads \<^verbatim>\<open>res.json()['errorType']\<close>, and a body that is not JSON
  raises \<open>JSONDecodeError\<close> out of the check.\<close>

theorem check_response_undecodable:
  "status_code res \<notin> set codes \<Longrightarrow> body res = None \<Longrightarrow>
   check_response_for_errors res m codes = Inl JSONDecodeError"
  by (simp add: check_response_for_errors_def json_field_def resp_json_def)

text \<open>C10: the spec says that an empty cloud list yields no cloud id and no
  provider. \<^verbatim>\<open>res.json()["data"][0]\<close> on an empty list raises \<open>IndexError\<close>,
  which the \<^verbatim>\<open>except KeyError\<close> does not catch: the helper raises.\<close>

theorem get_cloud_status_empty_data:
  assumes "secret cloud = JStr s" and "responses w = res # rest"
    and "status_code res = 200" and "json_field res ''data'' = Inr (JArr [])"
  shows "fst (get_cloud_status cloud w) = Inl IndexError"
proof -
  have "fst (get_cloud_status cloud w) = cloud_status_result res"
    unfolding get_cloud_status_def using assms(1,2) by (rule bind_request_lift_next) simp
  then show ?thesis
    using assms(3,4) by (simp add: cloud_status_result_def check_response_in_codes cloud_status_fields_def first_data_item_def)
qed

text \<open>C17: on a 200 answer, cloud discovery returns the id and the provider of the
  first entry of the \<^verbatim>\<open>data\<close> list.\<close>

theorem get_cloud_status_first_entry:
  assumes "secret cloud = JStr s" and "responses w = res # rest"
    and "status_code res = 200" and "json_field res ''data'' = Inr (JArr (JObj kvs # others))"
    and "dict_lookup kvs ''id'' = Some i" and "dict_lookup kvs ''provider'' = Some p"
  shows "fst (get_cloud_status cloud w) = Inr (i, p)"
proof -
  have "fst (get_cloud_status cloud w) = cloud_status_result res"
    unfolding get_cloud_status_def using assms(1,2) by (rule bind_request_lift_next) simp
  then show ?thesis
    using assms(3-) by (simp add: cloud_status_result_def check_response_in_codes cloud_status_fields_def first_data_item_def)
qed

text \<open>C29: the spec says that a body missing an expected field must not crash
  the run. In discovery, the \<^verbatim>\<open>try\<close> block assigns \<^verbatim>\<open>cloud_id\<close> before it
  reads \<^verbatim>\<open>provider\<close>: when the first entry has no provider, the helper returns
  its id (or \<open>None\<close> when the id is missing too) and \<open>None\<close> as the provider.\<close>

theorem get_cloud_status_missing_provider:
  assumes "secret cloud = JStr s" and "responses w = res # rest"
    and "status_code res = 200" and "json_field res ''data'' = Inr (JArr (JObj kvs # others))"
    and "dict_lookup kvs ''provider'' = None"
  shows "fst (get_cloud_status cloud w) = Inr (case dict_lookup kvs ''id'' of Some i \<Rightarrow> i | None \<Rightarrow> JNull, JNull)"
proof -
  have "fst (get_cloud_status cloud w) = cloud_status_result res"
    unfolding get_cloud_status_def using assms(1,2) by (rule bind_request_lift_next) simp
  then show ?thesis
    using assms(3-) by (simp add: cloud_status_result_def check_response_in_codes cloud_status_fields_def
        first_data_item_def split: option.split)
qed

text \<open>C18: on a 201 answer whose body has an \<^verbatim>\<open>id\<close>, project creation returns
  that id.\<close>

theorem create_project_returns_id:
  assumes "secret cloud = JStr s" and "responses w = res # rest"
    and "status_code res = 201" and "json_field res ''id'' = Inr v"
  shows "fst (create_project cloud project_name w) = Inr v"
proof -
  have "fst (create_project cloud project_name w) = create_project_result res"
    unfolding create_project_def using assms(1,2) by (rule bind_request_lift_next) simp
  then show ?thesis
    using assms(3,4) by (simp add: create_project_result_def check_response_in_codes)
qed

text \<open>C19: on a 200 answer with an empty \<^verbatim>\<open>data\<close> list, resolving the cluster id
  raises \<open>IndexError\<close> (there is no try block here).\<close>

theorem get_clusters_empty_data:
  assumes "secret cloud = JStr s" and "responses w = res # rest"
    and "status_code res = 200" and "json_field res ''data'' = Inr (JArr [])"
  shows "fst (get_clusters cloud w) = Inl IndexError"
proof -
  have "fst (get_clusters cloud w) = get_clusters_result res"
    unfolding get_clusters_def using assms(1,2) by (rule bind_request_lift_next) simp
  then show ?thesis
    using assms(3,4) by (simp add: get_clusters_result_def check_response_in_codes first_data_item_def)
qed

text \<open>C31: the spec says that a body missing an expected field must not crash the
  run. On a 200 answer whose first cluster has no \<^verbatim>\<open>id\<close>, resolving the
  cluster id raises \<open>KeyError\<close>: unlike project creation and cloud discovery,
  \<^verbatim>\<open>get_clusters\<close> has no \<^verbatim>\<open>try\<close> block.\<close>

theorem get_clusters_missing_id:
  assumes "secret cloud = JStr s" and "responses w = res # rest"
    and "status_code res = 200" and "json_field res ''data'' = Inr (JArr (JObj kvs # others))"
    and "dict_lookup kvs ''id'' = None"
  shows "fst (get_clusters cloud w) = Inl KeyError"
proof -
  have "fst (get_clusters cloud w) = get_clusters_result res"
    unfolding get_clusters_def using assms(1,2) by (rule bind_request_lift_next) simp
  then show ?thesis
    using assms(3-) by (simp add: get_clusters_result_def check_response_in_codes first_data_item_def)
qed

text \<open>A helper that returns normally added exactly one exchange, with its
  method and endpoint, signed, and the answer it interpreted.\<close>

lemma bind_request_lift_exchange:
  assumes "checked_request cloud endpoint method data P g w = (Inr x, w')"
  shows "\<exists>q res. exchanges w' = exchanges w @ [(q, res)] \<and> g res = Inr x \<and>
           req_method q = method \<and> req_url q = py_str (url cloud) @ endpoint \<and> signed_by cloud q \<and>
           responses w = res # responses w' \<and> clock w' = clock w"
proof -
  obtain res w1 where req: "request cloud endpoint method data w = (Inr res, w1)" and g: "g res = Inr x"
    and w': "w' = w1\<lparr>console := console w1 @ P res\<rparr>"
    using assms unfolding bind_request_lift_Inr by blast
  obtain q key where q: "exchanges w1 = exchanges w @ [(q, res)]" "py_bytes_utf8 (secret cloud) = Inr key"
    "req_method q = method" "req_url q = py_str (url cloud) @ endpoint"
    "cbc_verify (py_str (access_key cloud)) key (py_str (url cloud)) q"
    using request_sent [OF req] by blast
  have "signed_by cloud q" using q(2,5) by (auto simp: signed_by_def)
  then show ?thesis unfolding w' using q(1,3,4) g request_Inr_world [OF req] by auto
qed

lemma bind_request_lift_Inl:
  assumes "checked_request cloud endpoint method data P g w = (Inl e, w')"
  shows "w' = w \<or> (\<exists>q res. exchanges w' = exchanges w @ [(q, res)] \<and> g res = Inl e \<and>
           req_method q = method \<and> req_url q = py_str (url cloud) @ endpoint \<and> signed_by cloud q)"
proof -
  obtain x w1 where req: "request cloud endpoint method data w = (x, w1)" by fastforce
  show ?thesis
  proof (cases x)
    case (Inl e')
    with req assms have "w' = w" by (auto dest: request_Inl)
    then show ?thesis by blast
  next
    case (Inr res)
    with req have req': "request cloud endpoint method data w = (Inr res, w1)" by simp
    with assms have w1: "exchanges w' = exchanges w1" and g: "g res = Inl e" by (auto split: sum.splits)
    obtain q key where q: "exchanges w1 = exchanges w @ [(q, res)]"
      "py_bytes_utf8 (secret cloud) = Inr key"
      "req_method q = method" "req_url q = py_str (url cloud) @ endpoint"
      "cbc_verify (py_str (access_key cloud)) key (py_str (url cloud)) q"
      using request_sent [OF req'] by blast
    have "signed_by cloud q" using q(2,5) by (auto simp: signed_by_def)
    then show ?thesis using q(1,3,4) w1 g by auto
  qed
qed

lemma bind_request_lift_step:
  assumes "secret cloud = JStr s" and "responses w = res # rest"
    and "method \<in> {''GET'', ''POST'', ''DELETE''}"
  shows "checked_request cloud endpoint method data P g w =
           (g res, w\<lparr>responses := rest,
              exchanges := exchanges w @ [(signed_request cloud (utf8_bytes s) endpoint method data (clock w), res)],
              console := console w @ P res\<rparr>)"
  using request_next [OF assms(1,3,2)] by simp

text \<open>A helper whose answer it can interpret returns normally after one exchange.\<close>

lemma bind_request_lift_ok:
  assumes "secret cloud = JStr s" and "responses w = res # rest"
    and "method \<in> {''GET'', ''POST'', ''DELETE''}" and "g res = Inr a"
  shows "\<exists>w'. checked_request cloud endpoint method data P g w = (Inr a, w') \<and>
           responses w' = rest \<and>
           map req_line (exchanges w') = map req_line (exchanges w) @ [(method, py_str (url cloud) @ endpoint)] \<and>
           console w' = console w @ P res"
  using bind_request_lift_step [OF assms(1-3), of endpoint data P g] assms(4)
  by (simp add: req_line_def signed_request_def)

lemma check_cluster_ready_step:
  assumes "secret cloud = JStr s" and "responses w = res # rest"
  shows "check_cluster_ready cloud cid w =
           (check_response_for_errors res ''Get Cluster Status'' [200],
            w\<lparr>responses := rest,
              exchanges := exchanges w @ [(signed_request cloud (utf8_bytes s) (cluster_path cid) ''GET'' JNull (clock w), res)],
              console := console w @ check_response_report res ''Get Cluster Status'' [200]\<rparr>)"
  unfolding check_cluster_ready_def using assms by (rule bind_request_lift_step) simp

lemma bind_request_lift_length:
  "length (exchanges (snd (checked_request cloud endpoint method data P g w)))
     \<le> Suc (length (exchanges w))"
proof -
  obtain x w' where eq: "checked_request cloud endpoint method data P g w = (x, w')"
    by fastforce
  have "length (exchanges w') \<le> Suc (length (exchanges w))"
  proof (cases x)
    case (Inl e)
    then show ?thesis using bind_request_lift_Inl eq by fastforce
  next
    case (Inr a)
    then show ?thesis using bind_request_lift_exchange eq by fastforce
  qed
  then show ?thesis using eq by simp
qed

text \<open>No helper raises \<open>SystemExit\<close>: the request raises only the errors of
  the transport and of \<^verbatim>\<open>bytes\<close>, and the interpretation of the answer only
  those of subscripts and of \<^verbatim>\<open>res.json()\<close>.\<close>

lemma request_not_exit [simp]: "request cloud endpoint method data w \<noteq> (Inl (SystemExit s), w')"
  by (auto simp: request_def Let_def http_send_def py_bytes_utf8_def split: sum.splits list.splits json.splits)

lemma results_not_exit [simp]:
  "json_field res k \<noteq> Inl (SystemExit s)"
  "check_response_for_errors res m codes \<noteq> Inl (SystemExit s)"
  "cloud_status_result res \<noteq> Inl (SystemExit s)"
  "create_project_result res \<noteq> Inl (SystemExit s)"
  "success_result res m codes \<noteq> Inl (SystemExit s)"
  "get_clusters_result res \<noteq> Inl (SystemExit s)"
  by (auto simp: json_field_def resp_json_def check_response_for_errors_def cloud_status_result_def
      cloud_status_fields_def first_data_item_def create_project_result_def success_result_def
      get_clusters_result_def except_KeyError_def py_then_def split: option.splits sum.splits py_exc.splits)

lemma checked_request_not_exit:
  "(\<And>res. g res \<noteq> Inl (SystemExit s)) \<Longrightarrow> checked_request cloud endpoint method data P g w \<noteq> (Inl (SystemExit s), w')"
  by (auto simp: py_bind_apply split: prod.splits sum.splits)

lemma helpers_not_exit [simp]:
  "get_cloud_status cloud w \<noteq> (Inl (SystemExit s), w')"
  "create_project cloud n w \<noteq> (Inl (SystemExit s), w')"
  "create_cluster cloud n ci pi w \<noteq> (Inl (SystemExit s), w')"
  "get_clusters cloud w \<noteq> (Inl (SystemExit s), w')"
  "check_cluster_ready cloud cid w \<noteq> (Inl (SystemExit s), w')"
  "enable_access_to_cluster cloud cid w \<noteq> (Inl (SystemExit s), w')"
  "create_database_user cloud cid u p w \<noteq> (Inl (SystemExit s), w')"
  unfolding get_cloud_status_def create_project_def create_cluster_def get_clusters_def
    check_cluster_ready_def enable_access_to_cluster_def create_database_user_def
  by (rule checked_request_not_exit, simp)+

lemma bind_request_lift_body:
  assumes "checked_request cloud endpoint method data P g w = (Inr x, w')"
  shows "\<exists>q res. exchanges w' = exchanges w @ [(q, res)] \<and> g res = Inr x \<and>
           req_json q = (if method = ''POST'' then data else JNull)"
proof -
  obtain res w1 where req: "request cloud endpoint method data w = (Inr res, w1)" and g: "g res = Inr x"
    and w': "w' = w1\<lparr>console := console w1 @ P res\<rparr>"
    using assms unfolding bind_request_lift_Inr by blast
  obtain key where "http_send (signed_request cloud key endpoint method data (clock w)) w = (Inr res, w1)"
    using request_Inr [OF req] by blast
  then have "exchanges w1 = exchanges w @ [(signed_request cloud key endpoint method data (clock w), res)]"
    by (simp add: http_send_Inr)
  then show ?thesis using g w' by (simp add: signed_request_def)
qed

lemma bind_request_lift_line:
  assumes "checked_request cloud endpoint method data P g w = (Inr x, w')"
  shows "\<exists>e. exchanges w' = exchanges w @ [e] \<and> req_line e = (method, py_str (url cloud) @ endpoint)"
  using bind_request_lift_exchange [OF assms] by (fastforce simp: req_line_def)

text \<open>C25: the (disabled) delete step sends one signed DELETE of the cluster's
  path and reports success exactly when the answer is 202, printing that the
  deletion succeeded, or that it failed followed by the status code and the error
  fields of the answer; an answer outside the allowed set needs the error fields
  its report reads.\<close>

theorem delete_cluster_sends_delete:
  assumes "secret cloud = JStr s" and "responses w = res # rest"
    and "status_code res = 202 \<or> (json_field res ''errorType'' = Inr t \<and> json_field res ''message'' = Inr msg)"
  shows "delete_cluster cloud cid w =
           (Inr (status_code res = 202),
            w\<lparr>responses := rest,
              exchanges := exchanges w @ [(signed_request cloud (utf8_bytes s) (cluster_path cid) ''DELETE'' JNull (clock w), res)],
              console := console w @
                (if status_code res = 202 then [''Delete Cluster Successful'']
                 else [''Delete Cluster Failed'', ''Status code: '' @ str_int (status_code res) @
                       ''\<newline>Error Type:'' @ py_str t @ '' \<newline>Error Message:'' @ py_str msg])\<rparr>)"
proof -
  have "success_result res ''Delete Cluster'' [202] = Inr (status_code res = 202)"
    using assms(3) by (auto simp: success_result_def check_response_for_errors_def)
  moreover have "check_response_report res ''Delete Cluster'' [202] =
      (if status_code res = 202 then [''Delete Cluster Successful'']
       else [''Delete Cluster Failed'', ''Status code: '' @ str_int (status_code res) @
             ''\<newline>Error Type:'' @ py_str t @ '' \<newline>Error Message:'' @ py_str msg])"
    using assms(3) by (auto simp: check_response_report_def)
  moreover have "delete_cluster cloud cid w =
           (success_result res ''Delete Cluster'' [202],
            w\<lparr>responses := rest,
              exchanges := exchanges w @ [(signed_request cloud (utf8_bytes s) (cluster_path cid) ''DELETE'' JNull (clock w), res)],
              console := console w @ check_response_report res ''Delete Cluster'' [202]\<rparr>)"
    unfolding delete_cluster_def using assms(1,2) by (rule bind_request_lift_step) simp
  ultimately show ?thesis by simp
qed

subsection \<open>Witnesses\<close>

lemmas answer_defs = answer_world_def error_answer_def garbled_answer_def empty_list_answer_def
  cloud_list_answer_def project_answer_def cluster_list_answer_def nameless_cluster_answer_def
  json_field_def resp_json_def

theorem check_response_failure_witness:
  "status_code error_answer \<notin> set [200] \<and>
   json_field error_answer ''errorType'' = Inr (JStr ''BadRequest'') \<and>
   json_field error_answer ''message'' = Inr (JStr ''no'') \<and>
   check_response_for_errors error_answer ''Get Clusters'' [200] = Inr (error_answer, False)"
  using check_response_failure [of error_answer "[200]" "JStr ''BadRequest''" "JStr ''no''" "''Get Clusters''"]
  by (simp add: answer_defs)

theorem check_response_undecodable_witness:
  "status_code garbled_answer \<notin> set [200] \<and> body garbled_answer = None \<and>
   check_response_for_errors garbled_answer ''Get Clusters'' [200] = Inl JSONDecodeError"
  using check_response_undecodable [of garbled_answer "[200]" "''Get Clusters''"]
  by (simp add: answer_defs)

theorem get_cloud_status_empty_data_witness:
  "secret demo_cloud = JStr ''sk'' \<and> responses (answer_world [empty_list_answer]) = empty_list_answer # [] \<and>
   status_code empty_list_answer = 200 \<and> json_field empty_list_answer ''data'' = Inr (JArr []) \<and>
   fst (get_cloud_status demo_cloud (answer_world [empty_list_answer])) = Inl IndexError"
  using get_cloud_status_empty_data [of demo_cloud "''sk''" "answer_world [empty_list_answer]" empty_list_answer "[]"]
  by (simp add: answer_defs demo_cloud_def)

theorem get_cloud_status_first_entry_witness:
  "secret demo_cloud = JStr ''sk'' \<and> responses (answer_world [cloud_list_answer]) = cloud_list_answer # [] \<and>
   status_code cloud_list_answer = 200 \<and>
   json_field cloud_list_answer ''data'' =
     Inr (JArr (JObj [(''id'', JStr ''cloud-1''), (''provider'', JStr ''aws'')] # [])) \<and>
   dict_lookup [(''id'', JStr ''cloud-1''), (''provider'', JStr ''aws'')] ''id'' = Some (JStr ''cloud-1'') \<and>
   dict_lookup [(''id'', JStr ''cloud-1''), (''provider'', JStr ''aws'')] ''provider'' = Some (JStr ''aws'') \<and>
   fst (get_cloud_status demo_cloud (answer_world [cloud_list_answer])) = Inr (JStr ''cloud-1'', JStr ''aws'')"
  using get_cloud_status_first_entry [of demo_cloud "''sk''" "answer_world [cloud_list_answer]" cloud_list_answer "[]"
      "[(''id'', JStr ''cloud-1''), (''provider'', JStr ''aws'')]" "[]" "JStr ''cloud-1''" "JStr ''aws''"]
  by (simp add: answer_defs demo_cloud_def)

theorem create_project_returns_id_witness:
  "secret demo_cloud = JStr ''sk'' \<and> responses (answer_world [project_answer]) = project_answer # [] \<and>
   status_code project_answer = 201 \<and> json_field project_answer ''id'' = Inr (JStr ''p1'') \<and>
   fst (create_project demo_cloud (JStr ''demo'') (answer_world [project_answer])) = Inr (JStr ''p1'')"
  using create_project_returns_id [of demo_cloud "''sk''" "answer_world [project_answer]" project_answer "[]"
      "JStr ''p1''" "JStr ''demo''"]
  by (simp add: answer_defs demo_cloud_def)

theorem get_clusters_empty_data_witness:
  "secret demo_cloud = JStr ''sk'' \<and> responses (answer_world [empty_list_answer]) = empty_list_answer # [] \<and>
   status_code empty_list_answer = 200 \<and> json_field empty_list_answer ''data'' = Inr (JArr []) \<and>
   fst (get_clusters demo_cloud (answer_world [empty_list_answer])) = Inl IndexError"
  using get_clusters_empty_data [of demo_cloud "''sk''" "answer_world [empty_list_answer]" empty_list_answer "[]"]
  by (simp add: answer_defs demo_cloud_def)

theorem get_clusters_missing_id_witness:
  "secret demo_cloud = JStr ''sk'' \<and> responses (answer_world [nameless_cluster_answer]) = nameless_cluster_answer # [] \<and>
   status_code nameless_cluster_answer = 200 \<and>
   json_field nameless_cluster_answer ''data'' = Inr (JArr (JObj [(''name'', JStr ''cluster'')] # [])) \<and>
   dict_lookup [(''name'', JStr ''cluster'')] ''id'' = None \<and>
   fst (get_clusters demo_cloud (answer_world [nameless_cluster_answer])) = Inl KeyError"
  using get_clusters_missing_id [of demo_cloud "''sk''" "answer_world [nameless_cluster_answer]" nameless_cluster_answer "[]"
      "[(''name'', JStr ''cluster'')]" "[]"]
  by (simp add: answer_defs demo_cloud_def)

theorem delete_cluster_sends_delete_witness:
  "secret demo_cloud = JStr ''sk'' \<and> responses (answer_world [ok_answer 202]) = ok_answer 202 # [] \<and>
   (status_code (ok_answer 202) = 202 \<or>
    (json_field (ok_answer 202) ''errorType'' = Inr JNull \<and> json_field (ok_answer 202) ''message'' = Inr JNull)) \<and>
   fst (delete_cluster demo_cloud (JStr ''clus-1'') (answer_world [ok_answer 202])) = Inr True \<and>
   map req_line (exchanges (snd (delete_cluster demo_cloud (JStr ''clus-1'') (answer_world [ok_answer 202])))) =
     [(''DELETE'', ''https://cloudapi.cloud.couchbase.com/v2/clusters/clus-1'')]"
proof -
  have h: "secret demo_cloud = JStr ''sk''" "responses (answer_world [ok_answer 202]) = ok_answer 202 # []"
    "status_code (ok_answer 202) = 202 \<or>
     (json_field (ok_answer 202) ''errorType'' = Inr JNull \<and> json_field (ok_answer 202) ''message'' = Inr JNull)"
    by (simp_all add: demo_cloud_def answer_world_def ok_answer_def)
  show ?thesis using h delete_cluster_sends_delete [OF h, of "JStr ''clus-1''"]
    by (simp add: ok_answer_def answer_world_def req_line_def signed_request_def demo_cloud_def cluster_path_def)
qed

theorem get_cloud_status_missing_provider_witness:
  "secret demo_cloud = JStr ''sk'' \<and>
   responses (answer_world [\<lparr>status_code = 200, body = Some (JObj [(''data'', JArr [JObj [(''id'', JStr ''cloud-1'')]])])\<rparr>]) =
     \<lparr>status_code = 200, body = Some (JObj [(''data'', JArr [JObj [(''id'', JStr ''cloud-1'')]])])\<rparr> # [] \<and>
   status_code \<lparr>status_code = 200, body = Some (JObj [(''data'', JArr [JObj [(''id'', JStr ''cloud-1'')]])])\<rparr> = 200 \<and>
   dict_lookup [(''id'', JStr ''cloud-1'')] ''provider'' = None \<and>
   fst (get_cloud_status demo_cloud
     (answer_world [\<lparr>status_code = 200, body = Some (JObj [(''data'', JArr [JObj [(''id'', JStr ''cloud-1'')]])])\<rparr>])) =
   Inr (JStr ''cloud-1'', JNull)"
  using get_cloud_status_missing_provider [of demo_cloud "''sk''"
      "answer_world [\<lparr>status_code = 200, body = Some (JObj [(''data'', JArr [JObj [(''id'', JStr ''cloud-1'')]])])\<rparr>]"
      "\<lparr>status_code = 200, body = Some (JObj [(''data'', JArr [JObj [(''id'', JStr ''cloud-1'')]])])\<rparr>" "[]"
      "[(''id'', JStr ''cloud-1'')]" "[]"]
  by (simp add: answer_defs demo_cloud_def)

end
