(* ===== verification/Poll.thy ===== *)
theory Poll
  imports Helpers "HOL-Library.While_Combinator"
begin

text \<open>
  The readiness loop of \<^verbatim>\<open>main()\<close> in \<^verbatim>\<open>src/src/cloud_bootstrap.py\<close>,
  lines 55 to 70: \<^verbatim>\<open>while timeout > 0\<close>, one \<^verbatim>\<open>check_cluster_ready\<close>
  per round, \<^verbatim>\<open>break\<close> on the status \<^verbatim>\<open>"ready"\<close>, otherwise
  \<^verbatim>\<open>time.sleep(60)\<close> and \<^verbatim>\<open>timeout -= 1\<close>; a failed check exits.
  \<open>poll_cluster_ready\<close> is the loop as recursion on the countdown;
  \<^verbatim>\<open>time.sleep(60)\<close> advances the world's clock by 60000 ms. \<open>poll_while\<close>
  runs the same lines as the literal \<^verbatim>\<open>while\<close> loop, and
  \<open>poll_while_eq\<close> shows the two agree. The lemmas give the run of the loop on
  each kind of answer, its bound on requests, and the invariants it keeps.
\<close>

definition time_sleep :: "int \<Rightarrow> (world, unit) pyst" where
  "time_sleep secs w = (Inr (), w\<lparr>clock := clock w + secs * 1000\<rparr>)"

definition cluster_status :: "response \<Rightarrow> py_exc + json" where
  "cluster_status res = json_field res ''status''"

fun poll_cluster_ready :: "couchbase_cloud \<Rightarrow> json \<Rightarrow> nat \<Rightarrow> (world, unit) pyst" where
  "poll_cluster_ready cloud cluster_id 0 = py_return ()"
| "poll_cluster_ready cloud cluster_id (Suc timeout) =
     py_bind (check_cluster_ready cloud cluster_id) (\<lambda>(res, success).
       if success then
         py_bind (py_lift (cluster_status res)) (\<lambda>status.
           if status = JStr ''ready'' then py_bind (print_line ''Cluster is ready'') (\<lambda>_. py_return ())
           else py_bind (print_line ''Checking again in a minute...'') (\<lambda>_.
                py_bind (time_sleep 60) (\<lambda>_. poll_cluster_ready cloud cluster_id timeout)))
       else py_bind (print_line ''Cluster not accessible. Please check the Cloud Environment'') (\<lambda>_.
            py_raise (SystemExit ClusterNotAccessible)))"

subsection \<open>The loop as a loop\<close>

text \<open>The same lines run by \<open>while_option\<close>: the state holds the loop
  variable \<^verbatim>\<open>timeout\<close>, whether \<^verbatim>\<open>break\<close> ran, the exception that left
  the body (a \<^verbatim>\<open>SystemExit\<close> from \<^verbatim>\<open>exit()\<close> or one raised inside
  \<^verbatim>\<open>check_cluster_ready\<close>), and the world.\<close>

record poll_loop =
  lp_timeout :: nat
  lp_break :: bool
  lp_exc :: "py_exc option"
  lp_world :: world

definition poll_guard :: "poll_loop \<Rightarrow> bool" where
  "poll_guard s \<longleftrightarrow> 0 < lp_timeout s \<and> \<not> lp_break s \<and> lp_exc s = None"

definition poll_body :: "couchbase_cloud \<Rightarrow> json \<Rightarrow> poll_loop \<Rightarrow> poll_loop" where
  "poll_body cloud cluster_id s =
     (case check_cluster_ready cloud cluster_id (lp_world s) of
        (Inl e, w) \<Rightarrow> s\<lparr>lp_exc := Some e, lp_world := w\<rparr>
      | (Inr (res, success), w) \<Rightarrow>
          if success then
            (case cluster_status res of
               Inl e \<Rightarrow> s\<lparr>lp_exc := Some e, lp_world := w\<rparr>
             | Inr status \<Rightarrow>
                 if status = JStr ''ready'' then s\<lparr>lp_break := True, lp_world := snd (print_line ''Cluster is ready'' w)\<rparr>
                 else s\<lparr>lp_timeout := lp_timeout s - 1,
                        lp_world := snd (time_sleep 60 (snd (print_line ''Checking again in a minute...'' w)))\<rparr>)
          else s\<lparr>lp_exc := Some (SystemExit ClusterNotAccessible),
                 lp_world := snd (print_line ''Cluster not accessible. Please check the Cloud Environment'' w)\<rparr>)"

definition poll_start :: "nat \<Rightarrow> world \<Rightarrow> poll_loop" where
  "poll_start t w = \<lparr>lp_timeout = t, lp_break = False, lp_exc = None, lp_world = w\<rparr>"

definition poll_outcome :: "poll_loop \<Rightarrow> (py_exc + unit) \<times> world" where
  "poll_outcome s = ((case lp_exc s of Some e \<Rightarrow> Inl e | None \<Rightarrow> Inr ()), lp_world s)"

definition poll_while :: "couchbase_cloud \<Rightarrow> json \<Rightarrow> nat \<Rightarrow> world \<Rightarrow> ((py_exc + unit) \<times> world) option" where
  "poll_while cloud cluster_id t w =
     map_option poll_outcome (while_option poll_guard (poll_body cloud cluster_id) (poll_start t w))"

subsection \<open>Answers to the readiness check\<close>

text \<open>A 200 answer whose \<^verbatim>\<open>status\<close> field is present: not yet \<^verbatim>\<open>"ready"\<close>, or
  \<^verbatim>\<open>"ready"\<close>.\<close>

definition not_ready_answer :: "response \<Rightarrow> bool" where
  "not_ready_answer res \<longleftrightarrow>
     status_code res = 200 \<and> (case cluster_status res of Inr v \<Rightarrow> v \<noteq> JStr ''ready'' | Inl _ \<Rightarrow> False)"

definition ready_answer :: "response \<Rightarrow> bool" where
  "ready_answer res \<longleftrightarrow> status_code res = 200 \<and> cluster_status res = Inr (JStr ''ready'')"

text \<open>The log of a run of checks answered by \<open>rs\<close>, one a minute from \<open>t0\<close>.\<close>

fun poll_log :: "couchbase_cloud \<Rightarrow> byte list \<Rightarrow> json \<Rightarrow> int \<Rightarrow> response list \<Rightarrow> (http_request \<times> response) list" where
  "poll_log cloud key cid t0 [] = []"
| "poll_log cloud key cid t0 (r # rs) =
     (signed_request cloud key (cluster_path cid) ''GET'' JNull t0, r) # poll_log cloud key cid (t0 + 60000) rs"

subsection \<open>A sample answer\<close>

definition status_answer :: "string \<Rightarrow> response" where
  "status_answer s = \<lparr>status_code = 200, body = Some (JObj [(''status'', JStr s)])\<rparr>"

text \<open>What a round prints on a not-ready and on a ready answer.\<close>

abbreviation poll_wait_lines :: "string list" where
  "poll_wait_lines \<equiv> [''Get Cluster Status Successful'', ''Checking again in a minute...'']"

abbreviation poll_ready_lines :: "string list" where
  "poll_ready_lines \<equiv> [''Get Cluster Status Successful'', ''Cluster is ready'']"

subsection \<open>The readiness loop\<close>

lemma poll_not_ready_step:
  assumes "secret cloud = JStr s" and "responses w = res # rest" and "not_ready_answer res"
  shows "poll_cluster_ready cloud cid (Suc t) w =
           poll_cluster_ready cloud cid t
             (w\<lparr>responses := rest,
                exchanges := exchanges w @ [(signed_request cloud (utf8_bytes s) (cluster_path cid) ''GET'' JNull (clock w), res)],
                console := console w @ poll_wait_lines, clock := clock w + 60000\<rparr>)"
  using assms check_cluster_ready_step [OF assms(1,2)]
  by (auto simp: not_ready_answer_def check_response_in_codes check_response_report_def time_sleep_def
      print_line_def split: sum.splits)

lemma poll_ready_step:
  assumes "secret cloud = JStr s" and "responses w = res # rest" and "ready_answer res"
  shows "poll_cluster_ready cloud cid (Suc t) w =
           (Inr (), w\<lparr>responses := rest,
              exchanges := exchanges w @ [(signed_request cloud (utf8_bytes s) (cluster_path cid) ''GET'' JNull (clock w), res)],
              console := console w @ poll_ready_lines\<rparr>)"
  using assms check_cluster_ready_step [OF assms(1,2)]
  by (simp add: ready_answer_def check_response_in_codes check_response_report_def print_line_def py_bind_apply)

text \<open>The run of the loop that ends at a ready answer, world and all.\<close>

lemma poll_ready_run:
  assumes "secret cloud = JStr s" and "list_all not_ready_answer nrs" and "ready_answer r"
    and "length nrs < t" and "responses w = nrs @ r # rest"
  shows "poll_cluster_ready cloud cid t w =
           (Inr (), w\<lparr>responses := rest,
                     exchanges := exchanges w @ poll_log cloud (utf8_bytes s) cid (clock w) (nrs @ [r]),
                     console := console w @ concat (replicate (length nrs) poll_wait_lines) @ poll_ready_lines,
                     clock := clock w + 60000 * int (length nrs)\<rparr>)"
  using assms(2,4,5)
proof (induction nrs arbitrary: t w)
  case Nil
  then obtain t' where "t = Suc t'" by (cases t) auto
  with Nil poll_ready_step [OF assms(1) _ assms(3)] show ?case by simp
next
  case (Cons n nrs)
  then obtain t' where t: "t = Suc t'" by (cases t) auto
  let ?w1 = "w\<lparr>responses := nrs @ r # rest,
                exchanges := exchanges w @ [(signed_request cloud (utf8_bytes s) (cluster_path cid) ''GET'' JNull (clock w), n)],
                console := console w @ poll_wait_lines, clock := clock w + 60000\<rparr>"
  have "poll_cluster_ready cloud cid t w = poll_cluster_ready cloud cid t' ?w1"
    using Cons.prems t poll_not_ready_step [OF assms(1)] by simp
  also have "\<dots> = (Inr (), ?w1\<lparr>responses := rest,
                     exchanges := exchanges ?w1 @ poll_log cloud (utf8_bytes s) cid (clock ?w1) (nrs @ [r]),
                     console := console ?w1 @ concat (replicate (length nrs) poll_wait_lines) @ poll_ready_lines,
                     clock := clock ?w1 + 60000 * int (length nrs)\<rparr>)"
    using Cons.prems t by (intro Cons.IH) simp_all
  finally show ?case by (simp add: algebra_simps)
qed

lemma length_poll_log [simp]: "length (poll_log cloud key cid t0 rs) = length rs"
  by (induction rs arbitrary: t0) simp_all

lemma req_line_poll_log [simp]:
  "map req_line (poll_log cloud key cid t0 rs) = replicate (length rs) (''GET'', py_str (url cloud) @ cluster_path cid)"
  by (induction rs arbitrary: t0) (simp_all add: req_line_def signed_request_def)

lemma poll_log_timestamps:
  "map (\<lambda>x. req_timestamp (fst x)) (poll_log cloud key cid t0 rs) =
     map (\<lambda>i. Some (t0 + 60000 * int i)) [0..<length rs]"
proof (induction rs arbitrary: t0)
  case Nil
  show ?case by simp
next
  case (Cons r rs)
  have "[0..<length (r # rs)] = 0 # map Suc [0..<length rs]"
    by (simp add: map_Suc_upt upt_conv_Cons del: upt_Suc)
  then show ?case by (simp add: Cons.IH algebra_simps)
qed

text \<open>C5: when the readiness checks answer not ready some number of times and then
  ready, before the countdown runs out, the loop stops right after the ready
  answer: it consumed exactly those answers, sent one status request for each,
  the \<open>i\<close>-th stamped \<open>i\<close> minutes after the first (the fixed interval of 60
  seconds), slept one minute after each not-ready answer, and printed for each
  not-ready answer that it checks again in a minute and at the end that the
  cluster is ready.\<close>

theorem poll_stops_at_ready:
  assumes "secret cloud = JStr s" and "list_all not_ready_answer nrs" and "ready_answer r"
    and "length nrs < t" and "responses w = nrs @ r # rest"
  shows "\<exists>w'. poll_cluster_ready cloud cid t w = (Inr (), w') \<and> responses w' = rest \<and>
           map (\<lambda>x. req_timestamp (fst x)) (drop (length (exchanges w)) (exchanges w')) =
             map (\<lambda>i. Some (clock w + 60000 * int i)) [0..<Suc (length nrs)] \<and>
           clock w' = clock w + 60000 * int (length nrs) \<and>
           console w' = console w @ concat (replicate (length nrs) poll_wait_lines) @ poll_ready_lines"
  using poll_ready_run [OF assms, of cid] poll_log_timestamps by simp

text \<open>The run of the loop whose every check answers not ready, world and all.\<close>

lemma poll_exhaust_run:
  assumes "secret cloud = JStr s" and "list_all not_ready_answer nrs" and "responses w = nrs @ rest"
  shows "poll_cluster_ready cloud cid (length nrs) w =
           (Inr (), w\<lparr>responses := rest,
                     exchanges := exchanges w @ poll_log cloud (utf8_bytes s) cid (clock w) nrs,
                     console := console w @ concat (replicate (length nrs) poll_wait_lines),
                     clock := clock w + 60000 * int (length nrs)\<rparr>)"
  using assms(2,3)
proof (induction nrs arbitrary: w)
  case Nil
  then show ?case by simp
next
  case (Cons n nrs)
  let ?w1 = "w\<lparr>responses := nrs @ rest,
                exchanges := exchanges w @ [(signed_request cloud (utf8_bytes s) (cluster_path cid) ''GET'' JNull (clock w), n)],
                console := console w @ poll_wait_lines, clock := clock w + 60000\<rparr>"
  have "poll_cluster_ready cloud cid (length (n # nrs)) w = poll_cluster_ready cloud cid (length nrs) ?w1"
    using Cons.prems poll_not_ready_step [OF assms(1)] by simp
  also have "\<dots> = (Inr (), ?w1\<lparr>responses := rest,
                     exchanges := exchanges ?w1 @ poll_log cloud (utf8_bytes s) cid (clock ?w1) nrs,
                     console := console ?w1 @ concat (replicate (length nrs) poll_wait_lines),
                     clock := clock ?w1 + 60000 * int (length nrs)\<rparr>)"
    using Cons.prems by (intro Cons.IH) simp_all
  finally show ?case by (simp add: algebra_simps)
qed

text \<open>The only \<^verbatim>\<open>exit()\<close> of the loop is the one after a failed check, and
  it comes right after its message.\<close>

lemma poll_exit:
  "poll_cluster_ready cloud cid t w = (Inl (SystemExit s), w') \<Longrightarrow>
   s = ClusterNotAccessible \<and> last (console w') = ''Cluster not accessible. Please check the Cloud Environment''"
proof (induction t arbitrary: w)
  case 0
  then show ?case by simp
next
  case (Suc t)
  obtain r w1 where chk: "check_cluster_ready cloud cid w = (r, w1)" by fastforce
  show ?case
  proof (cases r)
    case (Inl e)
    then show ?thesis using Suc.prems chk by (auto simp: py_bind_apply)
  next
    case (Inr a)
    then show ?thesis using Suc.prems chk Suc.IH
      by (auto simp: py_bind_apply print_line_def time_sleep_def cluster_status_def split: prod.splits sum.splits if_splits)
  qed
qed

text \<open>The two ways the loop returns, as its caller sees them: the answers it
  consumes, the request lines it adds and the lines it prints.\<close>

lemma poll_ready_returns:
  assumes "secret cloud = JStr s" and "list_all not_ready_answer nrs" and "ready_answer r"
    and "length nrs < t" and "responses w = nrs @ r # rest"
  shows "\<exists>w'. poll_cluster_ready cloud cid t w = (Inr (), w') \<and> responses w' = rest \<and>
           map req_line (exchanges w') =
             map req_line (exchanges w) @ replicate (Suc (length nrs)) (''GET'', py_str (url cloud) @ cluster_path cid) \<and>
           console w' = console w @ concat (replicate (length nrs) poll_wait_lines) @ poll_ready_lines"
  using poll_ready_run [OF assms, of cid] by simp

lemma poll_exhaust_returns:
  assumes "secret cloud = JStr s" and "list_all not_ready_answer nrs" and "responses w = nrs @ rest"
  shows "\<exists>w'. poll_cluster_ready cloud cid (length nrs) w = (Inr (), w') \<and> responses w' = rest \<and>
           map req_line (exchanges w') =
             map req_line (exchanges w) @ replicate (length nrs) (''GET'', py_str (url cloud) @ cluster_path cid) \<and>
           console w' = console w @ concat (replicate (length nrs) poll_wait_lines)"
  using poll_exhaust_run [OF assms, of cid] by simp

text \<open>C20: when every check within the countdown answers not ready, the loop
  ends normally after exactly as many checks as the countdown allows, with no
  exception: the reference behaviour falls through to the next step.\<close>

theorem poll_exhausts:
  assumes "secret cloud = JStr s" and "list_all not_ready_answer nrs"
    and "responses w = nrs @ rest"
  shows "\<exists>w'. poll_cluster_ready cloud cid (length nrs) w = (Inr (), w') \<and> responses w' = rest \<and>
           length (exchanges w') = length (exchanges w) + length nrs \<and>
           clock w' = clock w + 60000 * int (length nrs) \<and>
           console w' = console w @ concat (replicate (length nrs) poll_wait_lines)"
  using poll_exhaust_run [OF assms, of cid] by simp

text \<open>C23: the spec says that any non-200 answer to a readiness check aborts the
  run at once rather than counting against the timeout. With countdown left, a
  check answered outside 200 (with the error fields the report reads) exits at
  the \<^verbatim>\<open>ClusterNotAccessible\<close> site after that one request, without sleeping,
  having printed the failure of the check, its error report, and that the cluster
  is not accessible.\<close>

theorem poll_not_accessible:
  assumes "secret cloud = JStr s" and "responses w = res # rest" and "status_code res \<noteq> 200"
    and "json_field res ''errorType'' = Inr t" and "json_field res ''message'' = Inr msg"
  shows "poll_cluster_ready cloud cid (Suc n) w =
           (Inl (SystemExit ClusterNotAccessible),
            w\<lparr>responses := rest,
              exchanges := exchanges w @ [(signed_request cloud (utf8_bytes s) (cluster_path cid) ''GET'' JNull (clock w), res)],
              console := console w @
                [''Get Cluster Status Failed'',
                 ''Status code: '' @ str_int (status_code res) @ ''\<newline>Error Type:'' @ py_str t @
                 '' \<newline>Error Message:'' @ py_str msg,
                 ''Cluster not accessible. Please check the Cloud Environment'']\<rparr>)"
  using check_cluster_ready_step [OF assms(1,2)] assms(3-5)
  by (simp add: check_response_for_errors_def check_response_report_def print_line_def py_bind_apply)
lemma time_sleep_sends [pyst_rel_intros]: "pyst_rel (sends_only P) (time_sleep n)"
  by (simp add: pyst_rel_def time_sleep_def sends_only_def)

text \<open>A relation kept by the one request and the sleep of a round is kept by
  the whole loop.\<close>

lemma poll_rel:
  assumes "reflp R" and "transp R" and "pyst_rel R (request cloud (cluster_path cid) ''GET'' JNull)"
    and "pyst_rel R (time_sleep 60)" and "\<And>w c. R w (w\<lparr>console := c\<rparr>)"
  shows "pyst_rel R (poll_cluster_ready cloud cid t)"
proof (induction t)
  case 0
  show ?case unfolding poll_cluster_ready.simps by (rule pyst_rel_return) (rule assms(1))
next
  case (Suc t)
  show ?case unfolding poll_cluster_ready.simps check_cluster_ready_def
    by (intro pyst_rel_intros assms Suc.IH)
qed

lemma poll_sends:
  "pyst_rel (sends_only (\<lambda>q. req_method q = ''GET'' \<and> req_url q = py_str (url cloud) @ cluster_path cid \<and>
                             signed_by cloud q))
            (poll_cluster_ready cloud cid t)"
  by (intro poll_rel request_sends_weaken sends_only_reflp sends_only_transp time_sleep_sends sends_only_console) simp_all
lemma time_sleep_clock_rel [pyst_rel_intros]: "0 \<le> n \<Longrightarrow> pyst_rel clock_rel (time_sleep n)"
  by (auto simp: pyst_rel_def time_sleep_def clock_rel_def timestamps_ok_def intro: sorted_snoc_last)

lemma poll_clock_rel: "pyst_rel clock_rel (poll_cluster_ready cloud cid t)"
  by (intro poll_rel request_clock_rel time_sleep_clock_rel clock_rel_reflp clock_rel_transp clock_rel_console) simp

lemma poll_length_bound:
  "length (exchanges (snd (poll_cluster_ready cloud cid t w))) \<le> length (exchanges w) + t"
proof (induction t arbitrary: w)
  case 0
  show ?case by simp
next
  case (Suc t)
  obtain x w1 where chk: "check_cluster_ready cloud cid w = (x, w1)" by fastforce
  have len1: "length (exchanges w1) \<le> Suc (length (exchanges w))"
    using bind_request_lift_length [of cloud "cluster_path cid" "''GET''" JNull
        "\<lambda>res. check_response_report res ''Get Cluster Status'' [200]"
        "\<lambda>res. check_response_for_errors res ''Get Cluster Status'' [200]" w] chk
    by (simp add: check_cluster_ready_def)
  show ?case
  proof (cases x)
    case (Inl e)
    with chk len1 show ?thesis by simp
  next
    case (Inr rs)
    obtain res success where rs: "rs = (res, success)" by fastforce
    have "length (exchanges (snd (poll_cluster_ready cloud cid t
            (w1\<lparr>console := console w1 @ [''Checking again in a minute...''], clock := clock w1 + 60000\<rparr>))))
            \<le> length (exchanges w1) + t"
      using Suc.IH [of "w1\<lparr>console := console w1 @ [''Checking again in a minute...''], clock := clock w1 + 60000\<rparr>"]
      by simp
    with chk len1 Inr rs show ?thesis
      by (cases "cluster_status res") (auto simp: time_sleep_def print_line_def)
  qed
qed
lemma poll_Inr_exchanges:
  assumes "poll_cluster_ready cloud cid (Suc t) w = (Inr (), w')"
  shows "\<exists>new. exchanges w' = exchanges w @ new \<and> 1 \<le> length new \<and> length new \<le> Suc t \<and>
           (\<forall>x \<in> set new. req_line x = (''GET'', py_str (url cloud) @ cluster_path cid))"
proof -
  let ?P = "\<lambda>q. req_method q = ''GET'' \<and> req_url q = py_str (url cloud) @ cluster_path cid \<and> signed_by cloud q"
  obtain new where new: "exchanges w' = exchanges w @ new" "\<forall>x \<in> set new. ?P (fst x)"
    using pyst_relD [OF poll_sends assms] by (auto simp: sends_only_def)
  have upper: "length new \<le> Suc t"
    using poll_length_bound [of cloud cid "Suc t" w] assms new(1) by simp
  from assms obtain a w1 where chk: "check_cluster_ready cloud cid w = (Inr a, w1)"
    and tail: "(case a of (res, success) \<Rightarrow>
        if success then
         py_bind (py_lift (cluster_status res)) (\<lambda>status.
           if status = JStr ''ready'' then py_bind (print_line ''Cluster is ready'') (\<lambda>_. py_return ())
           else py_bind (print_line ''Checking again in a minute...'') (\<lambda>_.
                py_bind (time_sleep 60) (\<lambda>_. poll_cluster_ready cloud cid t)))
       else py_bind (print_line ''Cluster not accessible. Please check the Cloud Environment'') (\<lambda>_.
            py_raise (SystemExit ClusterNotAccessible))) w1 = (Inr (), w')"
    by (auto elim: py_bind_InrE)
  have len1: "length (exchanges w1) = Suc (length (exchanges w))"
    using bind_request_lift_exchange chk unfolding check_cluster_ready_def by fastforce
  have "sends_only ?P w1 w'"
  proof -
    obtain res success where a: "a = (res, success)" by fastforce
    show ?thesis
    proof (cases "cluster_status res = Inr (JStr ''ready'')")
      case True
      with tail a show ?thesis by (auto simp: sends_only_def print_line_def py_bind_apply split: if_splits)
    next
      case False
      let ?w2 = "w1\<lparr>console := console w1 @ [''Checking again in a minute...''], clock := clock w1 + 60000\<rparr>"
      from False tail a have "poll_cluster_ready cloud cid t ?w2 = (Inr (), w')"
        by (cases "cluster_status res") (auto simp: time_sleep_def print_line_def py_bind_apply split: if_splits)
      then have "sends_only ?P ?w2 w'" by (rule pyst_relD [OF poll_sends])
      then show ?thesis by (simp add: sends_only_def)
    qed
  qed
  then have "length (exchanges w1) \<le> length (exchanges w')" by (auto simp: sends_only_def)
  with len1 new(1) have "1 \<le> length new" by simp
  with new upper show ?thesis by (auto simp: req_line_def)
qed

text \<open>C6: the readiness loop with countdown \<open>t\<close> never sends more than \<open>t\<close>
  requests, whatever the answers, and every request it sends is the GET of the
  cluster's status.\<close>

theorem poll_bounded:
  "\<exists>new. exchanges (snd (poll_cluster_ready cloud cid t w)) = exchanges w @ new \<and> length new \<le> t \<and>
     (\<forall>x \<in> set new. req_line x = (''GET'', py_str (url cloud) @ cluster_path cid))"
proof -
  obtain r w' where run: "poll_cluster_ready cloud cid t w = (r, w')" by fastforce
  obtain new where new: "exchanges w' = exchanges w @ new"
    "\<forall>x \<in> set new. req_method (fst x) = ''GET'' \<and> req_url (fst x) = py_str (url cloud) @ cluster_path cid"
    using pyst_relD [OF poll_sends run] by (auto simp: sends_only_def)
  moreover have "length new \<le> t" using poll_length_bound [of cloud cid t w] run new(1) by simp
  ultimately show ?thesis using run by (auto simp: req_line_def)
qed

lemma poll_while_stop:
  "\<not> poll_guard s \<Longrightarrow> while_option poll_guard c s = Some s"
  by (simp add: while_option_unfold [of _ _ s])

lemma poll_while_step:
  "poll_guard s \<Longrightarrow> while_option poll_guard c s = while_option poll_guard c (c s)"
  by (simp add: while_option_unfold [of _ _ s])

lemma poll_guard_start: "poll_guard (poll_start t w) \<longleftrightarrow> 0 < t"
  by (simp add: poll_guard_def poll_start_def)

lemma poll_guard_record [simp]:
  "poll_guard \<lparr>lp_timeout = t, lp_break = b, lp_exc = x, lp_world = w\<rparr> \<longleftrightarrow> 0 < t \<and> \<not> b \<and> x = None"
  by (simp add: poll_guard_def)

text \<open>One round of the loop, unfolded.\<close>

lemma poll_while_Suc:
  "map_option poll_outcome (while_option poll_guard (poll_body cloud cid) (poll_start (Suc t) w)) =
     (case check_cluster_ready cloud cid w of
        (Inl e, w1) \<Rightarrow> Some (Inl e, w1)
      | (Inr (res, success), w1) \<Rightarrow>
          if success then
            (case cluster_status res of
               Inl e \<Rightarrow> Some (Inl e, w1)
             | Inr status \<Rightarrow>
                 if status = JStr ''ready'' then Some (Inr (), snd (print_line ''Cluster is ready'' w1))
                 else map_option poll_outcome
                        (while_option poll_guard (poll_body cloud cid)
                          (poll_start t (snd (time_sleep 60 (snd (print_line ''Checking again in a minute...'' w1)))))))
          else Some (Inl (SystemExit ClusterNotAccessible), snd (print_line ''Cluster not accessible. Please check the Cloud Environment'' w1)))"
proof -
  obtain r w1 where chk: "check_cluster_ready cloud cid w = (r, w1)" by fastforce
  show ?thesis
    using chk unfolding poll_start_def
    by (simp add: poll_while_step poll_while_stop poll_body_def poll_outcome_def
        split: sum.split prod.split)
qed

text \<open>The recursion is the loop as the source writes it. The
  \<^verbatim>\<open>while timeout > 0\<close> loop over the variables \<open>timeout\<close>, the
  \<^verbatim>\<open>break\<close> flag, the exception in flight and the world, run by
  \<open>while_option\<close>, always stops (it is never \<open>None\<close>), and returns what the
  recursive \<open>poll_cluster_ready\<close> returns, in the same world.\<close>

lemma poll_while_eq:
  "poll_while cloud cid t w = Some (poll_cluster_ready cloud cid t w)"
  unfolding poll_while_def
proof (induction t arbitrary: w)
  case 0
  have "while_option poll_guard (poll_body cloud cid) (poll_start 0 w) = Some (poll_start 0 w)"
    by (rule poll_while_stop) (simp add: poll_guard_start)
  then show ?case by (simp add: poll_outcome_def poll_start_def)
next
  case (Suc t)
  show ?case
    by (simp add: poll_while_Suc Suc.IH py_bind_apply time_sleep_def print_line_def split: prod.split sum.split)
qed

subsection \<open>Witnesses\<close>

theorem poll_stops_at_ready_witness:
  "secret demo_cloud = JStr ''sk'' \<and>
   list_all not_ready_answer [status_answer ''deploying'', status_answer ''deploying''] \<and>
   ready_answer (status_answer ''ready'') \<and>
   length [status_answer ''deploying'', status_answer ''deploying''] < 30 \<and>
   (\<exists>w'. poll_cluster_ready demo_cloud (JStr ''clus-1'') 30
           (answer_world [status_answer ''deploying'', status_answer ''deploying'', status_answer ''ready'']) =
         (Inr (), w') \<and> responses w' = [] \<and>
         map (\<lambda>x. req_timestamp (fst x)) (exchanges w') =
           [Some 1700000000000, Some 1700000060000, Some 1700000120000] \<and>
         clock w' = 1700000000000 + 120000 \<and>
         console w' = [''Get Cluster Status Successful'', ''Checking again in a minute...'', ''Get Cluster Status Successful'', ''Checking again in a minute...'',
                       ''Get Cluster Status Successful'', ''Cluster is ready''])"
  using poll_stops_at_ready [of demo_cloud "''sk''" "[status_answer ''deploying'', status_answer ''deploying'']"
      "status_answer ''ready''" 30
      "answer_world [status_answer ''deploying'', status_answer ''deploying'', status_answer ''ready'']" "[]"
      "JStr ''clus-1''"]
  by (simp add: demo_cloud_def not_ready_answer_def ready_answer_def status_answer_def cluster_status_def
      json_field_def resp_json_def answer_world_def numeral_3_eq_3)

theorem poll_bounded_witness:
  "\<exists>new. exchanges (snd (poll_cluster_ready demo_cloud (JStr ''clus-1'') 2
        (answer_world [status_answer ''deploying'', status_answer ''deploying'', status_answer ''ready'']))) =
      exchanges (answer_world [status_answer ''deploying'', status_answer ''deploying'', status_answer ''ready'']) @ new \<and>
    length new \<le> 2 \<and>
    (\<forall>x \<in> set new. req_line x = (''GET'', py_str (url demo_cloud) @ cluster_path (JStr ''clus-1'')))"
  by (rule poll_bounded)

theorem poll_exhausts_witness:
  "secret demo_cloud = JStr ''sk'' \<and>
   list_all not_ready_answer [status_answer ''deploying'', status_answer ''deploying''] \<and>
   (\<exists>w'. poll_cluster_ready demo_cloud (JStr ''clus-1'') 2
           (answer_world [status_answer ''deploying'', status_answer ''deploying'', ok_answer 202]) =
         (Inr (), w') \<and> responses w' = [ok_answer 202] \<and> length (exchanges w') = 2 \<and>
         clock w' = 1700000000000 + 120000 \<and> console w' = [''Get Cluster Status Successful'', ''Checking again in a minute...'', ''Get Cluster Status Successful'', ''Checking again in a minute...''])"
  using poll_exhausts [of demo_cloud "''sk''" "[status_answer ''deploying'', status_answer ''deploying'']"
      "answer_world [status_answer ''deploying'', status_answer ''deploying'', ok_answer 202]" "[ok_answer 202]"
      "JStr ''clus-1''"]
  by (simp add: demo_cloud_def not_ready_answer_def status_answer_def cluster_status_def
      json_field_def resp_json_def answer_world_def numeral_2_eq_2)

theorem poll_not_accessible_witness:
  "secret demo_cloud = JStr ''sk'' \<and> responses (answer_world [error_answer]) = error_answer # [] \<and>
   status_code error_answer \<noteq> 200 \<and> json_field error_answer ''errorType'' = Inr (JStr ''BadRequest'') \<and>
   json_field error_answer ''message'' = Inr (JStr ''no'') \<and>
   fst (poll_cluster_ready demo_cloud (JStr ''clus-1'') 30 (answer_world [error_answer])) = Inl (SystemExit ClusterNotAccessible)"
proof -
  have h: "secret demo_cloud = JStr ''sk''" "responses (answer_world [error_answer]) = error_answer # []"
    "status_code error_answer \<noteq> 200" "json_field error_answer ''errorType'' = Inr (JStr ''BadRequest'')"
    "json_field error_answer ''message'' = Inr (JStr ''no'')"
    by (simp_all add: demo_cloud_def answer_defs)
  have "(30::nat) = Suc 29" by simp
  then show ?thesis using h poll_not_accessible [OF h, of "JStr ''clus-1''" 29] by simp
qed

end
