(* ===== verification/Bootstrap.thy ===== *)
theory Bootstrap
  imports Poll
begin

text \<open>
  The orchestrator, \<^verbatim>\<open>main()\<close> of \<^verbatim>\<open>src/src/cloud_bootstrap.py\<close>. The
  environment after \<^verbatim>\<open>load_dotenv()\<close> is a map from variable names to strings;
  \<^verbatim>\<open>os.getenv\<close> gives \<open>None\<close> for a missing one. The readiness loop is
  \<open>poll_cluster_ready\<close> of theory \<open>Poll\<close>, started at 30. \<open>main\<close> prints its
  progress to the console of the world, the access URL last, and returns
  \<open>None\<close>, here \<open>()\<close>; every \<^verbatim>\<open>exit()\<close> is the exception \<open>SystemExit\<close>
  of its call site, raised after the message printed before it. The delete step that the source leaves commented out is not part of
  \<open>main\<close>.
\<close>

type_synonym environ = "string \<Rightarrow> string option"

definition getenv :: "environ \<Rightarrow> string \<Rightarrow> json" where
  "getenv env name = (case env name of None \<Rightarrow> JNull | Some v \<Rightarrow> JStr v)"

definition bootstrap_cloud :: "environ \<Rightarrow> couchbase_cloud" where
  "bootstrap_cloud env =
     \<lparr>access_key = getenv env ''CBC_ACCESS_KEY'', secret = getenv env ''CBC_SECRET_KEY'',
      url = getenv env ''CBC_URL''\<rparr>"

definition main :: "environ \<Rightarrow> (world, unit) pyst" where
  "main env =
     (let cloud = bootstrap_cloud env in
      py_bind (get_cloud_status cloud) (\<lambda>(cloud_id, cloud_provider).
      if \<not> (py_truthy cloud_id \<or> py_truthy cloud_provider) then
        py_bind (print_line (''Ensure that the Cloud is connected. \<newline>Check the details here:'' @
          ''https://docs.couchbase.com/cloud/get-started/deploy-first-cluster.html#connect-a-cloud''))
          (\<lambda>_. py_raise (SystemExit NoCloud)) else
      py_bind (print_line (''Cloud ID: '' @ py_str cloud_id)) (\<lambda>_.
      py_bind (print_line (''Cloud Provider: '' @ py_str cloud_provider)) (\<lambda>_.
      py_bind (create_project cloud (getenv env ''CBC_PROJECT'')) (\<lambda>project_id.
      if \<not> py_truthy project_id then
        py_bind (print_line ''Project Not Created'') (\<lambda>_. py_raise (SystemExit NoProject)) else
      py_bind (print_line (''Project Created with ID: '' @ py_str project_id)) (\<lambda>_.
      py_bind (create_cluster cloud (getenv env ''CBC_CLUSTER'') cloud_id project_id) (\<lambda>_.
      py_bind (get_clusters cloud) (\<lambda>cluster_id.
      if \<not> py_truthy cluster_id then
        py_bind (print_line ''Cluster Creation Unsuccessful. Please try again'') (\<lambda>_. py_raise (SystemExit NoCluster)) else
      py_bind (print_line (''Cluster Created with ID: '' @ py_str cluster_id)) (\<lambda>_.
      py_bind (poll_cluster_ready cloud cluster_id 30) (\<lambda>_.
      py_bind (enable_access_to_cluster cloud cluster_id) (\<lambda>cluster_access.
      if \<not> cluster_access then
        py_bind (print_line ''Enabling access to cluster failed.'') (\<lambda>_. py_raise (SystemExit AccessFailed)) else
      py_bind (create_database_user cloud cluster_id (getenv env ''USERNAME'') (getenv env ''PASSWORD''))
        (\<lambda>user_creation.
      if \<not> user_creation then
        py_bind (print_line ''User not created. Please try again'') (\<lambda>_. py_raise (SystemExit UserNotCreated)) else
      print_line (''Database access URL: '' @ py_str cluster_id @ ''.dp.cloud.couchbase.com'')))))))))))))"

subsection \<open>A run to evaluate on\<close>

definition demo_env :: environ where
  "demo_env =
     [''CBC_ACCESS_KEY'' \<mapsto> ''ak'', ''CBC_SECRET_KEY'' \<mapsto> ''sk'', ''CBC_URL'' \<mapsto> ''https://api'',
      ''CBC_PROJECT'' \<mapsto> ''proj'', ''CBC_CLUSTER'' \<mapsto> ''clus'', ''USERNAME'' \<mapsto> ''u'', ''PASSWORD'' \<mapsto> ''p'']"

definition setup_answers :: "response list" where
  "setup_answers = [cloud_list_answer, \<lparr>status_code = 201, body = Some (JObj [(''id'', JStr ''proj-1'')])\<rparr>]"

subsection \<open>The abstract provisioning sequence\<close>

text \<open>The spec's sequence of calls (section 4.2), as method and URL, with \<open>k\<close>
  readiness polls.\<close>

definition provisioning_calls :: "string \<Rightarrow> string \<Rightarrow> nat \<Rightarrow> (string \<times> string) list" where
  "provisioning_calls base cid k =
     [(''GET'', base @ ''/v2/clouds''), (''POST'', base @ ''/v2/projects''),
      (''POST'', base @ ''/v2/clusters''), (''GET'', base @ ''/v2/clusters'')] @
     replicate k (''GET'', base @ ''/v2/clusters/'' @ cid) @
     [(''POST'', base @ ''/v2/clusters/'' @ cid @ ''/allowlist''),
      (''POST'', base @ ''/v2/clusters/'' @ cid @ ''/users'')]"

subsection \<open>Invariants of every run\<close>

text \<open>A relation kept by every request \<open>main\<close> can make (a GET, or a POST whose
  body is a JSON object) and by the sleep is kept by every run of \<open>main\<close>.\<close>

lemma main_rel:
  assumes "reflp R" and "transp R" and "pyst_rel R (time_sleep 60)"
    and "\<And>endpoint method data. method \<in> {''GET'', ''POST''} \<Longrightarrow>
           (method = ''POST'' \<Longrightarrow> json_is_object data) \<Longrightarrow>
           pyst_rel R (request (bootstrap_cloud env) endpoint method data)"
    and "\<And>w c. R w (w\<lparr>console := c\<rparr>)"
  shows "pyst_rel R (main env)"
  unfolding main_def Let_def get_cloud_status_def create_project_def create_cluster_def get_clusters_def
    enable_access_to_cluster_def create_database_user_def
  by (intro pyst_rel_intros assms(1-3) poll_rel assms(4,5))
     (simp_all add: cluster_request_def allowlist_rule_def database_user_def)

lemma main_sends:
  "pyst_rel (sends_only (\<lambda>q. signed_by (bootstrap_cloud env) q \<and> req_method q \<in> {''GET'', ''POST''}))
            (main env)"
  by (rule main_rel) (auto intro: request_sends_weaken time_sleep_sends)

lemma main_clock_rel: "pyst_rel clock_rel (main env)"
  by (rule main_rel) (simp_all add: request_clock_rel time_sleep_clock_rel)

subsection \<open>Runs of main\<close>

lemma main_InrE:
  assumes "main env w = (Inr u, w')"
  obtains cid prov pid created clid w1 w2 w3 w4 w5 w6 w7 where
    "get_cloud_status (bootstrap_cloud env) w = (Inr (cid, prov), w1)"
    "py_truthy cid \<or> py_truthy prov"
    "create_project (bootstrap_cloud env) (getenv env ''CBC_PROJECT'')
       (w1\<lparr>console := console w1 @ [''Cloud ID: '' @ py_str cid, ''Cloud Provider: '' @ py_str prov]\<rparr>) = (Inr pid, w2)"
    "py_truthy pid"
    "create_cluster (bootstrap_cloud env) (getenv env ''CBC_CLUSTER'') cid pid
       (w2\<lparr>console := console w2 @ [''Project Created with ID: '' @ py_str pid]\<rparr>) = (Inr created, w3)"
    "get_clusters (bootstrap_cloud env) w3 = (Inr clid, w4)"
    "py_truthy clid"
    "poll_cluster_ready (bootstrap_cloud env) clid 30
       (w4\<lparr>console := console w4 @ [''Cluster Created with ID: '' @ py_str clid]\<rparr>) = (Inr (), w5)"
    "enable_access_to_cluster (bootstrap_cloud env) clid w5 = (Inr True, w6)"
    "create_database_user (bootstrap_cloud env) clid (getenv env ''USERNAME'') (getenv env ''PASSWORD'') w6 = (Inr True, w7)"
    "w' = w7\<lparr>console := console w7 @ [''Database access URL: '' @ py_str clid @ ''.dp.cloud.couchbase.com'']\<rparr>"
  using assms unfolding main_def Let_def
  by (auto elim!: py_bind_InrE simp: print_line_def split: if_splits prod.splits)

lemmas run_simps = main_def bootstrap_cloud_def getenv_def demo_env_def setup_answers_def
  ok_answer_def status_answer_def answer_defs print_line_def check_response_report_def
  get_cloud_status_def create_project_def create_cluster_def get_clusters_def check_cluster_ready_def
  enable_access_to_cluster_def create_database_user_def request_def http_send_def py_bytes_utf8_def
  Let_def py_bind_apply numeral_eq_Suc cloud_status_result_def cloud_status_fields_def first_data_item_def
  check_response_for_errors_def create_project_result_def success_result_def
  get_clusters_result_def cluster_status_def time_sleep_def

lemma length_provisioning_calls [simp]: "length (provisioning_calls base cid k) = k + 6"
  by (simp add: provisioning_calls_def)

text \<open>The first three calls of \<open>main\<close> on answers it accepts: discovery, project
  creation and cluster creation, whose result \<open>b\<close> \<open>main\<close> discards.\<close>

lemma main_setup_steps:
  assumes sc: "secret (bootstrap_cloud env) = JStr s"
    and resp: "responses w = r1 # r2 # r3 # rest"
    and r1: "status_code r1 = 200" "json_field r1 ''data'' = Inr (JArr (JObj kvs1 # more1))"
      "dict_lookup kvs1 ''id'' = Some i" "dict_lookup kvs1 ''provider'' = Some p"
    and r2: "status_code r2 = 201" "json_field r2 ''id'' = Inr pid"
    and r3: "success_result r3 ''Create Cluster'' [202] = Inr b"
  shows "\<exists>w1 w2 w3. get_cloud_status (bootstrap_cloud env) w = (Inr (i, p), w1) \<and>
     create_project (bootstrap_cloud env) (getenv env ''CBC_PROJECT'')
       (w1\<lparr>console := console w1 @ [''Cloud ID: '' @ py_str i, ''Cloud Provider: '' @ py_str p]\<rparr>) = (Inr pid, w2) \<and>
     create_cluster (bootstrap_cloud env) (getenv env ''CBC_CLUSTER'') i pid
       (w2\<lparr>console := console w2 @ [''Project Created with ID: '' @ py_str pid]\<rparr>) = (Inr b, w3) \<and>
     responses w3 = rest \<and>
     map req_line (exchanges w3) = map req_line (exchanges w) @
       [(''GET'', py_str (url (bootstrap_cloud env)) @ ''/v2/clouds''),
        (''POST'', py_str (url (bootstrap_cloud env)) @ ''/v2/projects''),
        (''POST'', py_str (url (bootstrap_cloud env)) @ ''/v2/clusters'')] \<and>
     console w3 = console w @
       [''Check Cloud Connection Successful'', ''Cloud ID: '' @ py_str i, ''Cloud Provider: '' @ py_str p,
        ''Create Project Successful'', ''Project Created with ID: '' @ py_str pid] @
       check_response_report r3 ''Create Cluster'' [202]"
proof -
  let ?c = "bootstrap_cloud env"
  have g1: "cloud_status_result r1 = Inr (i, p)"
    using r1 by (simp add: cloud_status_result_def check_response_in_codes cloud_status_fields_def first_data_item_def)
  have g2: "create_project_result r2 = Inr pid" using r2 by (simp add: create_project_result_def check_response_in_codes)
  have "\<exists>w1. get_cloud_status ?c w = (Inr (i, p), w1) \<and> responses w1 = r2 # r3 # rest \<and>
      map req_line (exchanges w1) = map req_line (exchanges w) @ [(''GET'', py_str (url ?c) @ ''/v2/clouds'')] \<and>
      console w1 = console w @ check_response_report r1 ''Check Cloud Connection'' [200]"
    unfolding get_cloud_status_def by (rule bind_request_lift_ok [where g = cloud_status_result, OF sc resp _ g1]) simp
  then obtain w1 where s1: "get_cloud_status ?c w = (Inr (i, p), w1)" and w1: "responses w1 = r2 # r3 # rest"
    "map req_line (exchanges w1) = map req_line (exchanges w) @ [(''GET'', py_str (url ?c) @ ''/v2/clouds'')]"
    "console w1 = console w @ check_response_report r1 ''Check Cloud Connection'' [200]" by blast
  let ?p1 = "w1\<lparr>console := console w1 @ [''Cloud ID: '' @ py_str i, ''Cloud Provider: '' @ py_str p]\<rparr>"
  have "\<exists>w2. create_project ?c (getenv env ''CBC_PROJECT'') ?p1 = (Inr pid, w2) \<and> responses w2 = r3 # rest \<and>
      map req_line (exchanges w2) = map req_line (exchanges ?p1) @ [(''POST'', py_str (url ?c) @ ''/v2/projects'')] \<and>
      console w2 = console ?p1 @ check_response_report r2 ''Create Project'' [201]"
    unfolding create_project_def by (rule bind_request_lift_ok [where g = create_project_result, OF sc _ _ g2]) (simp_all add: w1)
  then obtain w2 where s2: "create_project ?c (getenv env ''CBC_PROJECT'') ?p1 = (Inr pid, w2)" and w2: "responses w2 = r3 # rest"
    "map req_line (exchanges w2) = map req_line (exchanges w1) @ [(''POST'', py_str (url ?c) @ ''/v2/projects'')]"
    "console w2 = console ?p1 @ check_response_report r2 ''Create Project'' [201]" by auto
  let ?p2 = "w2\<lparr>console := console w2 @ [''Project Created with ID: '' @ py_str pid]\<rparr>"
  have "\<exists>w3. create_cluster ?c (getenv env ''CBC_CLUSTER'') i pid ?p2 = (Inr b, w3) \<and> responses w3 = rest \<and>
      map req_line (exchanges w3) = map req_line (exchanges ?p2) @ [(''POST'', py_str (url ?c) @ ''/v2/clusters'')] \<and>
      console w3 = console ?p2 @ check_response_report r3 ''Create Cluster'' [202]"
    unfolding create_cluster_def
    by (rule bind_request_lift_ok [where g = "\<lambda>res. success_result res ''Create Cluster'' [202]", OF sc _ _ r3]) (simp_all add: w2)
  then obtain w3 where s3: "create_cluster ?c (getenv env ''CBC_CLUSTER'') i pid ?p2 = (Inr b, w3)" and w3: "responses w3 = rest"
    "map req_line (exchanges w3) = map req_line (exchanges w2) @ [(''POST'', py_str (url ?c) @ ''/v2/clusters'')]"
    "console w3 = console ?p2 @ check_response_report r3 ''Create Cluster'' [202]" by auto
  have "map req_line (exchanges w3) = map req_line (exchanges w) @
      [(''GET'', py_str (url ?c) @ ''/v2/clouds''), (''POST'', py_str (url ?c) @ ''/v2/projects''),
       (''POST'', py_str (url ?c) @ ''/v2/clusters'')]"
    using w1(2) w2(2) w3(2) by simp
  moreover have "console w3 = console w @
      [''Check Cloud Connection Successful'', ''Cloud ID: '' @ py_str i, ''Cloud Provider: '' @ py_str p,
       ''Create Project Successful'', ''Project Created with ID: '' @ py_str pid] @
      check_response_report r3 ''Create Cluster'' [202]"
    using w1(3) w2(3) w3(3) r1(1) r2(1) by (simp add: check_response_report_def)
  ultimately show ?thesis using s1 s2 s3 w3(1) by blast
qed

text \<open>A run of \<open>main\<close> whose calls are all answered as it expects, for any
  behaviour of the readiness loop that returns and leaves the last two answers:
  the exact request lines it sends and the exact console it prints.\<close>

lemma main_run_steps:
  assumes sec: "env ''CBC_SECRET_KEY'' = Some s"
    and resp: "responses w = r1 # r2 # r3 # r4 # pr @ r5 # r6 # rest"
    and r1: "status_code r1 = 200" "json_field r1 ''data'' = Inr (JArr (JObj kvs1 # more1))"
      "dict_lookup kvs1 ''id'' = Some i" "dict_lookup kvs1 ''provider'' = Some p" "py_truthy i"
    and r2: "status_code r2 = 201" "json_field r2 ''id'' = Inr pid" "py_truthy pid"
    and r3: "success_result r3 ''Create Cluster'' [202] = Inr b"
    and r4: "status_code r4 = 200" "json_field r4 ''data'' = Inr (JArr (JObj kvs4 # more4))"
      "dict_lookup kvs4 ''id'' = Some cid" "py_truthy cid"
    and poll: "\<And>v. responses v = pr @ r5 # r6 # rest \<Longrightarrow> \<exists>v'.
      poll_cluster_ready (bootstrap_cloud env) cid 30 v = (Inr (), v') \<and> responses v' = r5 # r6 # rest \<and>
      map req_line (exchanges v') = map req_line (exchanges v) @
        replicate (length pr) (''GET'', py_str (url (bootstrap_cloud env)) @ cluster_path cid) \<and>
      console v' = console v @ L"
    and r5: "status_code r5 = 202" and r6: "status_code r6 = 201"
  shows "\<exists>w'. main env w = (Inr (), w') \<and> responses w' = rest \<and>
           map req_line (exchanges w') = map req_line (exchanges w) @
             provisioning_calls (py_str (url (bootstrap_cloud env))) (py_str cid) (length pr) \<and>
           length (exchanges w') = length (exchanges w) + length pr + 6 \<and>
           console w' = console w @
             [''Check Cloud Connection Successful'', ''Cloud ID: '' @ py_str i, ''Cloud Provider: '' @ py_str p,
              ''Create Project Successful'', ''Project Created with ID: '' @ py_str pid] @
             check_response_report r3 ''Create Cluster'' [202] @
             [''Get Clusters Successful'', ''Cluster Created with ID: '' @ py_str cid] @
             L @ [''Enable Cluster Access Successful'', ''Create Database User Successful'',
              ''Database access URL: '' @ py_str cid @ ''.dp.cloud.couchbase.com'']"
proof -
  let ?c = "bootstrap_cloud env"
  have sc: "secret ?c = JStr s" by (simp add: bootstrap_cloud_def getenv_def sec)
  obtain w1 w2 w3 where s1: "get_cloud_status ?c w = (Inr (i, p), w1)"
    and s2: "create_project ?c (getenv env ''CBC_PROJECT'')
       (w1\<lparr>console := console w1 @ [''Cloud ID: '' @ py_str i, ''Cloud Provider: '' @ py_str p]\<rparr>) = (Inr pid, w2)"
    and s3: "create_cluster ?c (getenv env ''CBC_CLUSTER'') i pid
       (w2\<lparr>console := console w2 @ [''Project Created with ID: '' @ py_str pid]\<rparr>) = (Inr b, w3)"
    and w3: "responses w3 = r4 # pr @ r5 # r6 # rest"
      "map req_line (exchanges w3) = map req_line (exchanges w) @
         [(''GET'', py_str (url ?c) @ ''/v2/clouds''), (''POST'', py_str (url ?c) @ ''/v2/projects''),
          (''POST'', py_str (url ?c) @ ''/v2/clusters'')]"
      "console w3 = console w @
         [''Check Cloud Connection Successful'', ''Cloud ID: '' @ py_str i, ''Cloud Provider: '' @ py_str p,
          ''Create Project Successful'', ''Project Created with ID: '' @ py_str pid] @
         check_response_report r3 ''Create Cluster'' [202]"
    using main_setup_steps [OF sc resp r1(1-4) r2(1,2) r3] by blast
  have g4: "get_clusters_result r4 = Inr cid" using r4 by (simp add: get_clusters_result_def check_response_in_codes first_data_item_def)
  have "\<exists>w4. get_clusters ?c w3 = (Inr cid, w4) \<and> responses w4 = pr @ r5 # r6 # rest \<and>
      map req_line (exchanges w4) = map req_line (exchanges w3) @ [(''GET'', py_str (url ?c) @ ''/v2/clusters'')] \<and>
      console w4 = console w3 @ check_response_report r4 ''Get Clusters'' [200]"
    unfolding get_clusters_def by (rule bind_request_lift_ok [where g = get_clusters_result, OF sc w3(1) _ g4]) simp
  then obtain w4 where s4: "get_clusters ?c w3 = (Inr cid, w4)" and w4: "responses w4 = pr @ r5 # r6 # rest"
    "map req_line (exchanges w4) = map req_line (exchanges w3) @ [(''GET'', py_str (url ?c) @ ''/v2/clusters'')]"
    "console w4 = console w3 @ check_response_report r4 ''Get Clusters'' [200]" by blast
  let ?p4 = "w4\<lparr>console := console w4 @ [''Cluster Created with ID: '' @ py_str cid]\<rparr>"
  obtain w5 where s5: "poll_cluster_ready ?c cid 30 ?p4 = (Inr (), w5)" and w5: "responses w5 = r5 # r6 # rest"
    "map req_line (exchanges w5) = map req_line (exchanges w4) @ replicate (length pr) (''GET'', py_str (url ?c) @ cluster_path cid)"
    "console w5 = console ?p4 @ L"
    using poll [of ?p4] w4(1) by auto
  have g6: "success_result r5 ''Enable Cluster Access'' [202] = Inr True" using r5 by (simp add: success_result_def check_response_in_codes)
  have "\<exists>w6. enable_access_to_cluster ?c cid w5 = (Inr True, w6) \<and> responses w6 = r6 # rest \<and>
      map req_line (exchanges w6) = map req_line (exchanges w5) @ [(''POST'', py_str (url ?c) @ cluster_path cid @ ''/allowlist'')] \<and>
      console w6 = console w5 @ check_response_report r5 ''Enable Cluster Access'' [202]"
    unfolding enable_access_to_cluster_def
    by (rule bind_request_lift_ok [where g = "\<lambda>res. success_result res ''Enable Cluster Access'' [202]", OF sc w5(1) _ g6]) simp
  then obtain w6 where s6: "enable_access_to_cluster ?c cid w5 = (Inr True, w6)" and w6: "responses w6 = r6 # rest"
    "map req_line (exchanges w6) = map req_line (exchanges w5) @ [(''POST'', py_str (url ?c) @ cluster_path cid @ ''/allowlist'')]"
    "console w6 = console w5 @ check_response_report r5 ''Enable Cluster Access'' [202]" by blast
  have g7: "success_result r6 ''Create Database User'' [201] = Inr True" using r6 by (simp add: success_result_def check_response_in_codes)
  have "\<exists>w7. create_database_user ?c cid (getenv env ''USERNAME'') (getenv env ''PASSWORD'') w6 = (Inr True, w7) \<and> responses w7 = rest \<and>
      map req_line (exchanges w7) = map req_line (exchanges w6) @ [(''POST'', py_str (url ?c) @ cluster_path cid @ ''/users'')] \<and>
      console w7 = console w6 @ check_response_report r6 ''Create Database User'' [201]"
    unfolding create_database_user_def
    by (rule bind_request_lift_ok [where g = "\<lambda>res. success_result res ''Create Database User'' [201]", OF sc w6(1) _ g7]) simp
  then obtain w7 where s7: "create_database_user ?c cid (getenv env ''USERNAME'') (getenv env ''PASSWORD'') w6 = (Inr True, w7)"
    and w7: "responses w7 = rest"
    "map req_line (exchanges w7) = map req_line (exchanges w6) @ [(''POST'', py_str (url ?c) @ cluster_path cid @ ''/users'')]"
    "console w7 = console w6 @ check_response_report r6 ''Create Database User'' [201]" by blast
  have lines: "map req_line (exchanges w7) = map req_line (exchanges w) @
      provisioning_calls (py_str (url ?c)) (py_str cid) (length pr)"
    using w3(2) w4(2) w5(2) w6(2) w7(2) by (simp add: provisioning_calls_def cluster_path_def)
  have "main env w = (Inr (), w7\<lparr>console := console w7 @ [''Database access URL: '' @ py_str cid @ ''.dp.cloud.couchbase.com'']\<rparr>)"
    using r1(5) r2(3) r4(4) s1 s2 s3 s4 s5 s6 s7 by (simp add: main_def Let_def py_bind_apply print_line_def)
  moreover have "length (exchanges w7) = length (exchanges w) + length pr + 6"
    using arg_cong [OF lines, of length] by simp
  ultimately show ?thesis using lines w3(3) w4(3) w5(3) w6(3) w7(1,3) r4(1) r5 r6 by simp
qed

text \<open>C12: the spec leaves open what exhausting the readiness countdown means.
  The code falls through: when all 30 checks answer that the cluster is still
  deploying, the run still opens network access, creates the database user and
  prints the access URL, as if the cluster were ready; it never prints that the
  cluster is ready.\<close>

theorem main_timeout_still_provisions:
  assumes sec: "env ''CBC_SECRET_KEY'' = Some s"
    and resp: "responses w = r1 # r2 # r3 # r4 # nrs @ r5 # r6 # rest"
    and r1: "status_code r1 = 200" "json_field r1 ''data'' = Inr (JArr (JObj kvs1 # more1))"
      "dict_lookup kvs1 ''id'' = Some i" "dict_lookup kvs1 ''provider'' = Some p" "py_truthy i"
    and r2: "status_code r2 = 201" "json_field r2 ''id'' = Inr pid" "py_truthy pid"
    and r3: "status_code r3 = 202"
    and r4: "status_code r4 = 200" "json_field r4 ''data'' = Inr (JArr (JObj kvs4 # more4))"
      "dict_lookup kvs4 ''id'' = Some cid" "py_truthy cid"
    and polls: "list_all not_ready_answer nrs" "length nrs = 30"
    and r5: "status_code r5 = 202" and r6: "status_code r6 = 201"
  shows "\<exists>w' ls. main env w = (Inr (), w') \<and> console w' = console w @ ls \<and>
           last ls = ''Database access URL: '' @ py_str cid @ ''.dp.cloud.couchbase.com'' \<and>
           ''Cluster is ready'' \<notin> set ls \<and> responses w' = rest \<and>
           length (exchanges w') = length (exchanges w) + 36"
proof -
  have sc: "secret (bootstrap_cloud env) = JStr s" by (simp add: bootstrap_cloud_def getenv_def sec)
  have g3: "success_result r3 ''Create Cluster'' [202] = Inr True" using r3 by (simp add: success_result_def check_response_in_codes)
  have poll: "\<exists>v'. poll_cluster_ready (bootstrap_cloud env) cid 30 v = (Inr (), v') \<and>
      responses v' = r5 # r6 # rest \<and>
      map req_line (exchanges v') = map req_line (exchanges v) @
        replicate (length nrs) (''GET'', py_str (url (bootstrap_cloud env)) @ cluster_path cid) \<and>
      console v' = console v @ concat (replicate 30 poll_wait_lines)"
    if "responses v = nrs @ r5 # r6 # rest" for v
    using poll_exhaust_returns [OF sc polls(1) that, of cid] polls(2) by simp
  show ?thesis using main_run_steps [OF sec resp r1 r2 g3 r4 poll r5 r6] polls(2) r3
    by (auto simp: check_response_report_def)
qed

text \<open>C13: the spec says that every step aborts the run on failure. The result of
  \<^verbatim>\<open>create_cluster\<close> is discarded by \<^verbatim>\<open>main\<close>: for any environment with a
  secret, when cluster creation is refused with any status other than 202 and
  the other calls succeed, the run prints that the creation failed, goes on to
  list the clusters, polls the first one, and completes with the whole call
  sequence, printing the access URL last.\<close>

theorem main_ignores_create_cluster_failure:
  assumes sec: "env ''CBC_SECRET_KEY'' = Some s"
    and resp: "responses w = r1 # r2 # r3 # r4 # nrs @ r # r5 # r6 # rest"
    and r1: "status_code r1 = 200" "json_field r1 ''data'' = Inr (JArr (JObj kvs1 # more1))"
      "dict_lookup kvs1 ''id'' = Some i" "dict_lookup kvs1 ''provider'' = Some p" "py_truthy i"
    and r2: "status_code r2 = 201" "json_field r2 ''id'' = Inr pid" "py_truthy pid"
    and r3: "status_code r3 \<noteq> 202" "json_field r3 ''errorType'' = Inr t" "json_field r3 ''message'' = Inr m"
    and r4: "status_code r4 = 200" "json_field r4 ''data'' = Inr (JArr (JObj kvs4 # more4))"
      "dict_lookup kvs4 ''id'' = Some cid" "py_truthy cid"
    and polls: "list_all not_ready_answer nrs" "ready_answer r" "length nrs < 30"
    and r5: "status_code r5 = 202" and r6: "status_code r6 = 201"
  shows "\<exists>w'. main env w = (Inr (), w') \<and> responses w' = rest \<and>
           map req_line (exchanges w') = map req_line (exchanges w) @
             provisioning_calls (py_str (url (bootstrap_cloud env))) (py_str cid) (Suc (length nrs)) \<and>
           ''Create Cluster Failed'' \<in> set (console w') \<and>
           last (console w') = ''Database access URL: '' @ py_str cid @ ''.dp.cloud.couchbase.com''"
proof -
  have sc: "secret (bootstrap_cloud env) = JStr s" by (simp add: bootstrap_cloud_def getenv_def sec)
  have g3: "success_result r3 ''Create Cluster'' [202] = Inr False"
    using r3 by (simp add: success_result_def check_response_for_errors_def)
  have resp': "responses w = r1 # r2 # r3 # r4 # (nrs @ [r]) @ r5 # r6 # rest" using resp by simp
  have poll: "\<exists>v'. poll_cluster_ready (bootstrap_cloud env) cid 30 v = (Inr (), v') \<and>
      responses v' = r5 # r6 # rest \<and>
      map req_line (exchanges v') = map req_line (exchanges v) @
        replicate (length (nrs @ [r])) (''GET'', py_str (url (bootstrap_cloud env)) @ cluster_path cid) \<and>
      console v' = console v @ concat (replicate (length nrs) poll_wait_lines) @ poll_ready_lines"
    if "responses v = (nrs @ [r]) @ r5 # r6 # rest" for v
    using poll_ready_returns [OF sc polls, of v "r5 # r6 # rest" cid] that by simp
  show ?thesis using main_run_steps [OF sec resp' r1 r2 g3 r4 poll r5 r6] r3
    by (auto simp: check_response_report_def)
qed

text \<open>C21: the spec's failure scenario: the cluster list is empty. For any
  environment with a secret, when discovery and project creation succeed, cluster
  creation answers anything \<^verbatim>\<open>main\<close> can read and the cluster list has no
  entry, the run stops with the \<open>IndexError\<close> of \<^verbatim>\<open>get_clusters\<close> right
  after the listing request: it has sent exactly the four setup calls, none for
  the readiness poll, and the last line it printed is the listing's success, not
  a message that the cluster was not created.\<close>

theorem main_empty_cluster_list_aborts:
  assumes sec: "env ''CBC_SECRET_KEY'' = Some s"
    and resp: "responses w = r1 # r2 # r3 # r4 # rest"
    and r1: "status_code r1 = 200" "json_field r1 ''data'' = Inr (JArr (JObj kvs1 # more1))"
      "dict_lookup kvs1 ''id'' = Some i" "dict_lookup kvs1 ''provider'' = Some p" "py_truthy i"
    and r2: "status_code r2 = 201" "json_field r2 ''id'' = Inr pid" "py_truthy pid"
    and r3: "success_result r3 ''Create Cluster'' [202] = Inr b"
    and r4: "status_code r4 = 200" "json_field r4 ''data'' = Inr (JArr [])"
  shows "\<exists>w'. main env w = (Inl IndexError, w') \<and> responses w' = rest \<and>
           map req_line (exchanges w') = map req_line (exchanges w) @
             [(''GET'', py_str (url (bootstrap_cloud env)) @ ''/v2/clouds''),
              (''POST'', py_str (url (bootstrap_cloud env)) @ ''/v2/projects''),
              (''POST'', py_str (url (bootstrap_cloud env)) @ ''/v2/clusters''),
              (''GET'', py_str (url (bootstrap_cloud env)) @ ''/v2/clusters'')] \<and>
           console w' = console w @
             [''Check Cloud Connection Successful'', ''Cloud ID: '' @ py_str i, ''Cloud Provider: '' @ py_str p,
              ''Create Project Successful'', ''Project Created with ID: '' @ py_str pid] @
             check_response_report r3 ''Create Cluster'' [202] @ [''Get Clusters Successful'']"
proof -
  let ?c = "bootstrap_cloud env"
  have sc: "secret ?c = JStr s" by (simp add: bootstrap_cloud_def getenv_def sec)
  obtain w1 w2 w3 where s1: "get_cloud_status ?c w = (Inr (i, p), w1)"
    and s2: "create_project ?c (getenv env ''CBC_PROJECT'')
       (w1\<lparr>console := console w1 @ [''Cloud ID: '' @ py_str i, ''Cloud Provider: '' @ py_str p]\<rparr>) = (Inr pid, w2)"
    and s3: "create_cluster ?c (getenv env ''CBC_CLUSTER'') i pid
       (w2\<lparr>console := console w2 @ [''Project Created with ID: '' @ py_str pid]\<rparr>) = (Inr b, w3)"
    and w3: "responses w3 = r4 # rest"
      "map req_line (exchanges w3) = map req_line (exchanges w) @
         [(''GET'', py_str (url ?c) @ ''/v2/clouds''), (''POST'', py_str (url ?c) @ ''/v2/projects''),
          (''POST'', py_str (url ?c) @ ''/v2/clusters'')]"
      "console w3 = console w @
         [''Check Cloud Connection Successful'', ''Cloud ID: '' @ py_str i, ''Cloud Provider: '' @ py_str p,
          ''Create Project Successful'', ''Project Created with ID: '' @ py_str pid] @
         check_response_report r3 ''Create Cluster'' [202]"
    using main_setup_steps [OF sc resp r1(1-4) r2(1,2) r3] by blast
  have g4: "get_clusters_result r4 = Inl IndexError"
    using r4 by (simp add: get_clusters_result_def check_response_in_codes first_data_item_def)
  have s4: "get_clusters ?c w3 = (Inl IndexError, w3\<lparr>responses := rest,
      exchanges := exchanges w3 @ [(signed_request ?c (utf8_bytes s) ''/v2/clusters'' ''GET'' JNull (clock w3), r4)],
      console := console w3 @ check_response_report r4 ''Get Clusters'' [200]\<rparr>)"
    unfolding get_clusters_def
    using bind_request_lift_step [OF sc w3(1), of "''GET''" "''/v2/clusters''" JNull
        "\<lambda>res. check_response_report res ''Get Clusters'' [200]" get_clusters_result] g4 by simp
  have "main env w = (Inl IndexError, w3\<lparr>responses := rest,
      exchanges := exchanges w3 @ [(signed_request ?c (utf8_bytes s) ''/v2/clusters'' ''GET'' JNull (clock w3), r4)],
      console := console w3 @ check_response_report r4 ''Get Clusters'' [200]\<rparr>)"
    using r1(5) r2(3) s1 s2 s3 s4 by (simp add: main_def Let_def py_bind_apply print_line_def)
  then show ?thesis using w3 r4(1)
    by (simp add: check_response_report_def req_line_def signed_request_def)
qed

text \<open>C22: the spec says that discovery fails the whole run when the call does not
  return 200. For any environment with a secret and any world whose first answer
  is an error outside 200, \<open>main\<close> exits at the \<^verbatim>\<open>NoCloud\<close> site after
  exactly that one signed request, having printed that the check failed, the
  status code and error of the answer, and where to read how to connect a cloud.\<close>

theorem main_discovery_failure_exits:
  assumes "env ''CBC_SECRET_KEY'' = Some s" and "responses w = res # rest" and "status_code res \<noteq> 200"
    and "json_field res ''errorType'' = Inr t" and "json_field res ''message'' = Inr msg"
  shows "main env w =
           (Inl (SystemExit NoCloud),
            w\<lparr>responses := rest,
              exchanges := exchanges w @ [(signed_request (bootstrap_cloud env) (utf8_bytes s) ''/v2/clouds'' ''GET'' JNull (clock w), res)],
              console := console w @
                [''Check Cloud Connection Failed'',
                 ''Status code: '' @ str_int (status_code res) @ ''\<newline>Error Type:'' @ py_str t @
                 '' \<newline>Error Message:'' @ py_str msg,
                 ''Ensure that the Cloud is connected. \<newline>Check the details here:'' @
                   ''https://docs.couchbase.com/cloud/get-started/deploy-first-cluster.html#connect-a-cloud'']\<rparr>)"
proof -
  have sec: "secret (bootstrap_cloud env) = JStr s" by (simp add: bootstrap_cloud_def getenv_def assms(1))
  have "cloud_status_result res = Inr (JNull, JNull)"
    using assms(3-5) by (simp add: cloud_status_result_def check_response_for_errors_def)
  moreover have "get_cloud_status (bootstrap_cloud env) w =
           (cloud_status_result res, w\<lparr>responses := rest,
              exchanges := exchanges w @ [(signed_request (bootstrap_cloud env) (utf8_bytes s) ''/v2/clouds'' ''GET'' JNull (clock w), res)],
              console := console w @ check_response_report res ''Check Cloud Connection'' [200]\<rparr>)"
    unfolding get_cloud_status_def using sec assms(2) by (rule bind_request_lift_step) simp
  moreover have "check_response_report res ''Check Cloud Connection'' [200] =
      [''Check Cloud Connection Failed'', ''Status code: '' @ str_int (status_code res) @ ''\<newline>Error Type:'' @
       py_str t @ '' \<newline>Error Message:'' @ py_str msg]"
    using assms(3-5) by (simp add: check_response_report_def)
  ultimately show ?thesis by (simp add: main_def Let_def print_line_def)
qed

text \<open>C24: with no \<^verbatim>\<open>CBC_SECRET_KEY\<close> in the environment, \<^verbatim>\<open>os.getenv\<close>
  gives \<^verbatim>\<open>None\<close> and \<^verbatim>\<open>bytes(None, "utf-8")\<close> in the first request raises
  \<open>TypeError\<close>: the run crashes before it sends anything.\<close>

theorem main_missing_secret:
  "env ''CBC_SECRET_KEY'' = None \<Longrightarrow> main env w = (Inl TypeError, w)"
  by (simp add: main_def Let_def get_cloud_status_def request_def bootstrap_cloud_def getenv_def
      py_bytes_utf8_def py_bind_apply)

text \<open>C28: liveness. Whenever the control plane cooperates (the cloud list has an
  entry with an id, the project is created with an id, the cluster is accepted and
  listed with an id, it becomes ready within the 30 checks, access and the user
  are granted), \<open>main\<close> runs to the end and prints the access URL of the
  cluster last, for any environment that holds the secret, having sent exactly the
  seven calls of the sequence and one check per readiness answer.\<close>

theorem main_completes:
  assumes sec: "env ''CBC_SECRET_KEY'' = Some s"
    and resp: "responses w = r1 # r2 # r3 # r4 # nrs @ r # r5 # r6 # rest"
    and r1: "status_code r1 = 200" "json_field r1 ''data'' = Inr (JArr (JObj kvs1 # more1))"
      "dict_lookup kvs1 ''id'' = Some i" "dict_lookup kvs1 ''provider'' = Some p" "py_truthy i"
    and r2: "status_code r2 = 201" "json_field r2 ''id'' = Inr pid" "py_truthy pid"
    and r3: "status_code r3 = 202"
    and r4: "status_code r4 = 200" "json_field r4 ''data'' = Inr (JArr (JObj kvs4 # more4))"
      "dict_lookup kvs4 ''id'' = Some cid" "py_truthy cid"
    and polls: "list_all not_ready_answer nrs" "ready_answer r" "length nrs < 30"
    and r5: "status_code r5 = 202" and r6: "status_code r6 = 201"
  shows "\<exists>w'. main env w = (Inr (), w') \<and> responses w' = rest \<and>
           length (exchanges w') = length (exchanges w) + length nrs + 7 \<and>
           last (console w') = ''Database access URL: '' @ py_str cid @ ''.dp.cloud.couchbase.com''"
proof -
  have sc: "secret (bootstrap_cloud env) = JStr s" by (simp add: bootstrap_cloud_def getenv_def sec)
  have g3: "success_result r3 ''Create Cluster'' [202] = Inr True" using r3 by (simp add: success_result_def check_response_in_codes)
  have resp': "responses w = r1 # r2 # r3 # r4 # (nrs @ [r]) @ r5 # r6 # rest" using resp by simp
  have poll: "\<exists>v'. poll_cluster_ready (bootstrap_cloud env) cid 30 v = (Inr (), v') \<and>
      responses v' = r5 # r6 # rest \<and>
      map req_line (exchanges v') = map req_line (exchanges v) @
        replicate (length (nrs @ [r])) (''GET'', py_str (url (bootstrap_cloud env)) @ cluster_path cid) \<and>
      console v' = console v @ concat (replicate (length nrs) poll_wait_lines) @ poll_ready_lines"
    if "responses v = (nrs @ [r]) @ r5 # r6 # rest" for v
    using poll_ready_returns [OF sc polls, of v "r5 # r6 # rest" cid] that by simp
  show ?thesis using main_run_steps [OF sec resp' r1 r2 g3 r4 poll r5 r6] by auto
qed

text \<open>C32: the spec says that a missing field is a handled absence that the
  orchestrator treats as failure. When the project is created (201) but the answer
  has no \<^verbatim>\<open>id\<close>, the \<^verbatim>\<open>except KeyError\<close> leaves the id \<open>None\<close> and
  \<open>main\<close> exits at the \<^verbatim>\<open>NoProject\<close> site after the two requests, without
  creating a cluster, and the last line it prints says that no project was
  created.\<close>

theorem main_project_without_id_exits:
  assumes sec: "env ''CBC_SECRET_KEY'' = Some s"
    and resp: "responses w = r1 # r2 # rest"
    and r1: "status_code r1 = 200" "json_field r1 ''data'' = Inr (JArr (JObj kvs1 # more1))"
      "dict_lookup kvs1 ''id'' = Some i" "dict_lookup kvs1 ''provider'' = Some p" "py_truthy i"
    and r2: "status_code r2 = 201" "json_field r2 ''id'' = Inl KeyError"
  shows "\<exists>w'. main env w = (Inl (SystemExit NoProject), w') \<and> responses w' = rest \<and>
           length (exchanges w') = length (exchanges w) + 2 \<and> last (console w') = ''Project Not Created''"
proof -
  let ?c = "bootstrap_cloud env"
  have sc: "secret ?c = JStr s" by (simp add: bootstrap_cloud_def getenv_def sec)
  have g1: "cloud_status_result r1 = Inr (i, p)" using r1 by (simp add: cloud_status_result_def check_response_in_codes cloud_status_fields_def first_data_item_def)
  have "\<exists>w1. get_cloud_status ?c w = (Inr (i, p), w1) \<and> responses w1 = r2 # rest \<and> map req_line (exchanges w1) = map req_line (exchanges w) @ [(''GET'', py_str (url ?c) @ ''/v2/clouds'')] \<and> console w1 = console w @ check_response_report r1 ''Check Cloud Connection'' [200]"
    unfolding get_cloud_status_def by (rule bind_request_lift_ok [where g = "cloud_status_result", OF sc resp _ g1]) simp
  then obtain w1 where s1: "get_cloud_status ?c w = (Inr (i, p), w1)" and w1: "responses w1 = r2 # rest" "map req_line (exchanges w1) = map req_line (exchanges w) @ [(''GET'', py_str (url ?c) @ ''/v2/clouds'')]" by blast
  have g2: "create_project_result r2 = Inr JNull" using r2 by (simp add: create_project_result_def check_response_in_codes)
  let ?p1 = "w1\<lparr>console := console w1 @ [''Cloud ID: '' @ py_str i, ''Cloud Provider: '' @ py_str p]\<rparr>"
  have "\<exists>w2. create_project ?c (getenv env ''CBC_PROJECT'') ?p1 = (Inr JNull, w2) \<and> responses w2 = rest \<and> map req_line (exchanges w2) = map req_line (exchanges ?p1) @ [(''POST'', py_str (url ?c) @ ''/v2/projects'')] \<and> console w2 = console ?p1 @ check_response_report r2 ''Create Project'' [201]"
    unfolding create_project_def by (rule bind_request_lift_ok [where g = "create_project_result", OF sc _ _ g2]) (simp_all add: w1)
  then obtain w2 where s2: "create_project ?c (getenv env ''CBC_PROJECT'') ?p1 = (Inr JNull, w2)" and w2: "responses w2 = rest" "map req_line (exchanges w2) = map req_line (exchanges w1) @ [(''POST'', py_str (url ?c) @ ''/v2/projects'')]" by auto
  have "main env w = (Inl (SystemExit NoProject), w2\<lparr>console := console w2 @ [''Project Not Created'']\<rparr>)"
    using r1(5) s1 s2 by (simp add: main_def Let_def py_bind_apply print_line_def)
  then show ?thesis using w2(1) arg_cong [OF w1(2), of length] arg_cong [OF w2(2), of length] by simp
qed

text \<open>C36: the spec says that a failure is reported on the console, naming the
  step that failed. Every \<^verbatim>\<open>exit()\<close> of a run of \<open>main\<close>, whatever the
  environment and the answers, comes right after the message of its site: the
  last line printed names why the run stopped, the remediation hint for a missing
  cloud included. The helpers never exit; the readiness loop exits only after a
  failed check, and only after printing that the cluster is not accessible.\<close>

theorem main_exit_messages:
  assumes "main env w = (Inl (SystemExit site), w')"
  shows "last (console w') =
           (case site of
              NoCloud \<Rightarrow> ''Ensure that the Cloud is connected. \<newline>Check the details here:'' @
                ''https://docs.couchbase.com/cloud/get-started/deploy-first-cluster.html#connect-a-cloud''
            | NoProject \<Rightarrow> ''Project Not Created''
            | NoCluster \<Rightarrow> ''Cluster Creation Unsuccessful. Please try again''
            | ClusterNotAccessible \<Rightarrow> ''Cluster not accessible. Please check the Cloud Environment''
            | AccessFailed \<Rightarrow> ''Enabling access to cluster failed.''
            | UserNotCreated \<Rightarrow> ''User not created. Please try again'')"
  using assms unfolding main_def Let_def
  by (auto elim!: py_bind_InlE dest!: poll_exit simp: print_line_def split: if_splits prod.splits)

subsection \<open>Witnesses\<close>

theorem main_discovery_failure_exits_witness:
  "demo_env ''CBC_SECRET_KEY'' = Some ''sk'' \<and> responses (answer_world [error_answer]) = error_answer # [] \<and>
   status_code error_answer \<noteq> 200 \<and> json_field error_answer ''errorType'' = Inr (JStr ''BadRequest'') \<and>
   json_field error_answer ''message'' = Inr (JStr ''no'') \<and>
   fst (main demo_env (answer_world [error_answer])) = Inl (SystemExit NoCloud) \<and>
   length (exchanges (snd (main demo_env (answer_world [error_answer])))) = 1"
proof -
  have h: "demo_env ''CBC_SECRET_KEY'' = Some ''sk''" "responses (answer_world [error_answer]) = error_answer # []"
    "status_code error_answer \<noteq> 200" "json_field error_answer ''errorType'' = Inr (JStr ''BadRequest'')"
    "json_field error_answer ''message'' = Inr (JStr ''no'')"
    by (simp_all add: demo_env_def answer_defs)
  show ?thesis using h main_discovery_failure_exits [where env = demo_env, OF h] by (simp add: answer_world_def)
qed

theorem main_missing_secret_witness:
  "(demo_env(''CBC_SECRET_KEY'' := None)) ''CBC_SECRET_KEY'' = None \<and>
   main (demo_env(''CBC_SECRET_KEY'' := None)) (answer_world [ok_answer 200]) = (Inl TypeError, answer_world [ok_answer 200])"
  using main_missing_secret [of "demo_env(''CBC_SECRET_KEY'' := None)" "answer_world [ok_answer 200]"] by simp


theorem main_completes_witness:
  "demo_env ''CBC_SECRET_KEY'' = Some ''sk'' \<and>
   fst (main demo_env (answer_world [cloud_list_answer, project_answer, ok_answer 202, cluster_list_answer,
      status_answer ''deploying'', status_answer ''ready'', ok_answer 202, ok_answer 201])) = Inr () \<and>
   last (console (snd (main demo_env (answer_world [cloud_list_answer, project_answer, ok_answer 202,
      cluster_list_answer, status_answer ''deploying'', status_answer ''ready'', ok_answer 202, ok_answer 201])))) =
   ''Database access URL: clus-1.dp.cloud.couchbase.com''"
proof -
  have h: "demo_env ''CBC_SECRET_KEY'' = Some ''sk''"
    "responses (answer_world [cloud_list_answer, project_answer, ok_answer 202, cluster_list_answer,
      status_answer ''deploying'', status_answer ''ready'', ok_answer 202, ok_answer 201]) =
     cloud_list_answer # project_answer # ok_answer 202 # cluster_list_answer #
       [status_answer ''deploying''] @ status_answer ''ready'' # ok_answer 202 # ok_answer 201 # []"
    "status_code cloud_list_answer = 200"
    "json_field cloud_list_answer ''data'' =
       Inr (JArr (JObj [(''id'', JStr ''cloud-1''), (''provider'', JStr ''aws'')] # []))"
    "dict_lookup [(''id'', JStr ''cloud-1''), (''provider'', JStr ''aws'')] ''id'' = Some (JStr ''cloud-1'')"
    "dict_lookup [(''id'', JStr ''cloud-1''), (''provider'', JStr ''aws'')] ''provider'' = Some (JStr ''aws'')"
    "py_truthy (JStr ''cloud-1'')"
    "status_code project_answer = 201" "json_field project_answer ''id'' = Inr (JStr ''p1'')"
    "py_truthy (JStr ''p1'')"
    "status_code (ok_answer 202) = 202"
    "status_code cluster_list_answer = 200"
    "json_field cluster_list_answer ''data'' = Inr (JArr (JObj [(''id'', JStr ''clus-1'')] # []))"
    "dict_lookup [(''id'', JStr ''clus-1'')] ''id'' = Some (JStr ''clus-1'')"
    "py_truthy (JStr ''clus-1'')"
    "list_all not_ready_answer [status_answer ''deploying'']" "ready_answer (status_answer ''ready'')"
    "length [status_answer ''deploying''] < 30"
    "status_code (ok_answer 202) = 202" "status_code (ok_answer 201) = 201"
    by (simp_all add: demo_env_def answer_defs ok_answer_def not_ready_answer_def ready_answer_def
        status_answer_def cluster_status_def)
  show ?thesis using h(1) main_completes [where env = demo_env, OF h] by auto
qed

theorem main_timeout_still_provisions_witness:
  "demo_env ''CBC_SECRET_KEY'' = Some ''sk'' \<and>
   (\<exists>w' ls. main demo_env (answer_world ([cloud_list_answer, project_answer, ok_answer 202, cluster_list_answer] @
      replicate 30 (status_answer ''deploying'') @ [ok_answer 202, ok_answer 201])) = (Inr (), w') \<and>
      console w' = ls \<and> last ls = ''Database access URL: clus-1.dp.cloud.couchbase.com'' \<and>
      ''Cluster is ready'' \<notin> set ls)"
proof -
  have h: "demo_env ''CBC_SECRET_KEY'' = Some ''sk''"
    "responses (answer_world ([cloud_list_answer, project_answer, ok_answer 202, cluster_list_answer] @
      replicate 30 (status_answer ''deploying'') @ [ok_answer 202, ok_answer 201])) =
     cloud_list_answer # project_answer # ok_answer 202 # cluster_list_answer #
       replicate 30 (status_answer ''deploying'') @ ok_answer 202 # ok_answer 201 # []"
    "status_code cloud_list_answer = 200"
    "json_field cloud_list_answer ''data'' =
       Inr (JArr (JObj [(''id'', JStr ''cloud-1''), (''provider'', JStr ''aws'')] # []))"
    "dict_lookup [(''id'', JStr ''cloud-1''), (''provider'', JStr ''aws'')] ''id'' = Some (JStr ''cloud-1'')"
    "dict_lookup [(''id'', JStr ''cloud-1''), (''provider'', JStr ''aws'')] ''provider'' = Some (JStr ''aws'')"
    "py_truthy (JStr ''cloud-1'')"
    "status_code project_answer = 201" "json_field project_answer ''id'' = Inr (JStr ''p1'')"
    "py_truthy (JStr ''p1'')"
    "status_code (ok_answer 202) = 202"
    "status_code cluster_list_answer = 200"
    "json_field cluster_list_answer ''data'' = Inr (JArr (JObj [(''id'', JStr ''clus-1'')] # []))"
    "dict_lookup [(''id'', JStr ''clus-1'')] ''id'' = Some (JStr ''clus-1'')"
    "py_truthy (JStr ''clus-1'')"
    "list_all not_ready_answer (replicate 30 (status_answer ''deploying''))"
    "length (replicate 30 (status_answer ''deploying'')) = 30"
    "status_code (ok_answer 202) = 202" "status_code (ok_answer 201) = 201"
    by (simp_all add: demo_env_def answer_defs ok_answer_def not_ready_answer_def
        status_answer_def cluster_status_def list_all_iff)
  show ?thesis using h(1) main_timeout_still_provisions [where env = demo_env, OF h]
    by (simp add: answer_world_def) blast
qed

theorem main_ignores_create_cluster_failure_witness:
  "demo_env ''CBC_SECRET_KEY'' = Some ''sk'' \<and>
   (\<exists>w'. main demo_env (answer_world [cloud_list_answer, project_answer, error_answer, cluster_list_answer,
      status_answer ''ready'', ok_answer 202, ok_answer 201]) = (Inr (), w') \<and>
      ''Create Cluster Failed'' \<in> set (console w') \<and>
      last (console w') = ''Database access URL: clus-1.dp.cloud.couchbase.com'')"
proof -
  have h: "demo_env ''CBC_SECRET_KEY'' = Some ''sk''"
    "responses (answer_world [cloud_list_answer, project_answer, error_answer, cluster_list_answer,
      status_answer ''ready'', ok_answer 202, ok_answer 201]) =
     cloud_list_answer # project_answer # error_answer # cluster_list_answer #
       [] @ status_answer ''ready'' # ok_answer 202 # ok_answer 201 # []"
    "status_code cloud_list_answer = 200"
    "json_field cloud_list_answer ''data'' =
       Inr (JArr (JObj [(''id'', JStr ''cloud-1''), (''provider'', JStr ''aws'')] # []))"
    "dict_lookup [(''id'', JStr ''cloud-1''), (''provider'', JStr ''aws'')] ''id'' = Some (JStr ''cloud-1'')"
    "dict_lookup [(''id'', JStr ''cloud-1''), (''provider'', JStr ''aws'')] ''provider'' = Some (JStr ''aws'')"
    "py_truthy (JStr ''cloud-1'')"
    "status_code project_answer = 201" "json_field project_answer ''id'' = Inr (JStr ''p1'')"
    "py_truthy (JStr ''p1'')"
    "status_code error_answer \<noteq> 202" "json_field error_answer ''errorType'' = Inr (JStr ''BadRequest'')"
    "json_field error_answer ''message'' = Inr (JStr ''no'')"
    "status_code cluster_list_answer = 200"
    "json_field cluster_list_answer ''data'' = Inr (JArr (JObj [(''id'', JStr ''clus-1'')] # []))"
    "dict_lookup [(''id'', JStr ''clus-1'')] ''id'' = Some (JStr ''clus-1'')"
    "py_truthy (JStr ''clus-1'')"
    "list_all not_ready_answer []" "ready_answer (status_answer ''ready'')" "length ([] :: response list) < 30"
    "status_code (ok_answer 202) = 202" "status_code (ok_answer 201) = 201"
    by (simp_all add: demo_env_def answer_defs ok_answer_def ready_answer_def status_answer_def cluster_status_def)
  show ?thesis using h(1) main_ignores_create_cluster_failure [where env = demo_env, OF h] by auto
qed

theorem main_empty_cluster_list_aborts_witness:
  "demo_env ''CBC_SECRET_KEY'' = Some ''sk'' \<and>
   (\<exists>w'. main demo_env (answer_world [cloud_list_answer, project_answer, ok_answer 202, empty_list_answer,
      status_answer ''ready'']) = (Inl IndexError, w') \<and>
      map req_line (exchanges w') =
        [(''GET'', ''https://api/v2/clouds''), (''POST'', ''https://api/v2/projects''),
         (''POST'', ''https://api/v2/clusters''), (''GET'', ''https://api/v2/clusters'')])"
proof -
  have h: "demo_env ''CBC_SECRET_KEY'' = Some ''sk''"
    "responses (answer_world [cloud_list_answer, project_answer, ok_answer 202, empty_list_answer,
      status_answer ''ready'']) =
     cloud_list_answer # project_answer # ok_answer 202 # empty_list_answer # [status_answer ''ready'']"
    "status_code cloud_list_answer = 200"
    "json_field cloud_list_answer ''data'' =
       Inr (JArr (JObj [(''id'', JStr ''cloud-1''), (''provider'', JStr ''aws'')] # []))"
    "dict_lookup [(''id'', JStr ''cloud-1''), (''provider'', JStr ''aws'')] ''id'' = Some (JStr ''cloud-1'')"
    "dict_lookup [(''id'', JStr ''cloud-1''), (''provider'', JStr ''aws'')] ''provider'' = Some (JStr ''aws'')"
    "py_truthy (JStr ''cloud-1'')"
    "status_code project_answer = 201" "json_field project_answer ''id'' = Inr (JStr ''p1'')"
    "py_truthy (JStr ''p1'')"
    "success_result (ok_answer 202) ''Create Cluster'' [202] = Inr True"
    "status_code empty_list_answer = 200" "json_field empty_list_answer ''data'' = Inr (JArr [])"
    by (simp_all add: demo_env_def answer_defs ok_answer_def success_result_def check_response_in_codes)
  have u: "py_str (url (bootstrap_cloud demo_env)) = ''https://api''"
    by (simp add: bootstrap_cloud_def getenv_def demo_env_def)
  obtain w' where "main demo_env (answer_world [cloud_list_answer, project_answer, ok_answer 202, empty_list_answer,
      status_answer ''ready'']) = (Inl IndexError, w')"
    "map req_line (exchanges w') = map req_line (exchanges (answer_world [cloud_list_answer, project_answer,
      ok_answer 202, empty_list_answer, status_answer ''ready''])) @
      [(''GET'', py_str (url (bootstrap_cloud demo_env)) @ ''/v2/clouds''),
       (''POST'', py_str (url (bootstrap_cloud demo_env)) @ ''/v2/projects''),
       (''POST'', py_str (url (bootstrap_cloud demo_env)) @ ''/v2/clusters''),
       (''GET'', py_str (url (bootstrap_cloud demo_env)) @ ''/v2/clusters'')]"
    using main_empty_cluster_list_aborts [where env = demo_env, OF h] by blast
  then show ?thesis using h(1) u by (simp add: answer_world_def)
qed

theorem main_exit_messages_witness:
  "\<exists>w'. main demo_env (answer_world [cloud_list_answer, project_answer, ok_answer 202, cluster_list_answer,
      error_answer]) = (Inl (SystemExit ClusterNotAccessible), w') \<and>
    last (console w') = ''Cluster not accessible. Please check the Cloud Environment''"
proof -
  obtain w' where h: "main demo_env (answer_world [cloud_list_answer, project_answer, ok_answer 202,
      cluster_list_answer, error_answer]) = (Inl (SystemExit ClusterNotAccessible), w')"
    by (simp add: run_simps)
  show ?thesis using h main_exit_messages [OF h] by auto
qed

theorem main_project_without_id_exits_witness:
  "demo_env ''CBC_SECRET_KEY'' = Some ''sk'' \<and>
   fst (main demo_env (answer_world [cloud_list_answer, ok_answer 201])) = Inl (SystemExit NoProject) \<and>
   length (exchanges (snd (main demo_env (answer_world [cloud_list_answer, ok_answer 201])))) = 2"
proof -
  have h: "demo_env ''CBC_SECRET_KEY'' = Some ''sk''"
    "responses (answer_world [cloud_list_answer, ok_answer 201]) = cloud_list_answer # ok_answer 201 # []"
    "status_code cloud_list_answer = 200"
    "json_field cloud_list_answer ''data'' =
       Inr (JArr (JObj [(''id'', JStr ''cloud-1''), (''provider'', JStr ''aws'')] # []))"
    "dict_lookup [(''id'', JStr ''cloud-1''), (''provider'', JStr ''aws'')] ''id'' = Some (JStr ''cloud-1'')"
    "dict_lookup [(''id'', JStr ''cloud-1''), (''provider'', JStr ''aws'')] ''provider'' = Some (JStr ''aws'')"
    "py_truthy (JStr ''cloud-1'')"
    "status_code (ok_answer 201) = 201" "json_field (ok_answer 201) ''id'' = Inl KeyError"
    by (simp_all add: demo_env_def answer_defs ok_answer_def)
  show ?thesis using h(1) main_project_without_id_exits [where env = demo_env, OF h]
    by (auto simp: answer_world_def)
qed

end
