(* ===== verification/Protocol.thy ===== *)
theory Protocol
  imports Bootstrap
begin

text \<open>
  The provisioning protocol of the spec (section 4.2) as an abstract machine, and
  the proof that \<^verbatim>\<open>main\<close> follows it on every run. A phase says which step is
  next; \<open>prov_step base p l q\<close> is one request of the protocol, \<open>l\<close> its method
  and URL; \<open>prov_run\<close> is a sequence of them. The cluster id is chosen when the
  cluster list is read and kept to the end; at most 30 readiness checks are allowed
  and at least one before access is opened. \<open>site_phase\<close> says in which phase each
  \<^verbatim>\<open>exit()\<close> of \<^verbatim>\<open>main\<close> may happen.

  \<open>runs_from base p Q m\<close> says that every run of \<open>m\<close> from phase \<open>p\<close> sends
  requests the protocol accepts, ending in a phase related by \<open>Q\<close> to the
  result, or allowed for the exception raised. Rules for each combinator
  (collection \<open>runs_intros\<close>) and one lemma per helper give it for \<open>main\<close>
  (bundle \<open>main_runs_intros\<close>). \<open>phase_len p k\<close> says how many requests
  \<open>k\<close> a run has sent when it reaches phase \<open>p\<close>; it holds along every
  protocol run by rule induction, and \<open>exit_len\<close>/\<open>outcome_len\<close> read
  it back at each way \<^verbatim>\<open>main\<close> can end.
\<close>

datatype phase =
    Discover
  | Project
  | Cluster
  | Resolve
  | Polled string nat
  | Access string
  | Done

inductive prov_step :: "string \<Rightarrow> phase \<Rightarrow> string \<times> string \<Rightarrow> phase \<Rightarrow> bool" for base where
  discover: "prov_step base Discover (''GET'', base @ ''/v2/clouds'') Project"
| project: "prov_step base Project (''POST'', base @ ''/v2/projects'') Cluster"
| cluster: "prov_step base Cluster (''POST'', base @ ''/v2/clusters'') Resolve"
| resolve: "prov_step base Resolve (''GET'', base @ ''/v2/clusters'') (Polled cid 0)"
| poll: "n < 30 \<Longrightarrow> prov_step base (Polled cid n) (''GET'', base @ ''/v2/clusters/'' @ cid) (Polled cid (Suc n))"
| access: "0 < n \<Longrightarrow>
     prov_step base (Polled cid n) (''POST'', base @ ''/v2/clusters/'' @ cid @ ''/allowlist'') (Access cid)"
| user: "prov_step base (Access cid) (''POST'', base @ ''/v2/clusters/'' @ cid @ ''/users'') Done"

inductive prov_run :: "string \<Rightarrow> phase \<Rightarrow> (string \<times> string) list \<Rightarrow> phase \<Rightarrow> bool" for base where
  nil: "prov_run base p [] p"
| cons: "prov_step base p l q \<Longrightarrow> prov_run base q ls r \<Longrightarrow> prov_run base p (l # ls) r"

fun site_phase :: "exit_site \<Rightarrow> phase \<Rightarrow> bool" where
  "site_phase NoCloud p = (p = Project)"
| "site_phase NoProject p = (p = Cluster)"
| "site_phase NoCluster (Polled cid n) = (n = 0)"
| "site_phase ClusterNotAccessible (Polled cid n) = (0 < n)"
| "site_phase AccessFailed (Access cid) = True"
| "site_phase UserNotCreated p = (p = Done)"
| "site_phase s p = False"

fun is_exit :: "py_exc \<Rightarrow> bool" where
  "is_exit (SystemExit s) = True"
| "is_exit e = False"

definition exc_ok :: "py_exc \<Rightarrow> phase \<Rightarrow> bool" where
  "exc_ok e p = (case e of SystemExit s \<Rightarrow> site_phase s p | _ \<Rightarrow> True)"

definition outcome_phase :: "py_exc + 'a \<Rightarrow> phase \<Rightarrow> bool" where
  "outcome_phase r p = (case r of Inr a \<Rightarrow> p = Done | Inl e \<Rightarrow> exc_ok e p)"

definition runs_from :: "string \<Rightarrow> phase \<Rightarrow> ('a \<Rightarrow> phase \<Rightarrow> bool) \<Rightarrow> (world, 'a) pyst \<Rightarrow> bool" where
  "runs_from base p Q m \<longleftrightarrow>
     (\<forall>w. \<exists>new q. exchanges (snd (m w)) = exchanges w @ new \<and> prov_run base p (map req_line new) q \<and>
            (case fst (m w) of Inr a \<Rightarrow> Q a q | Inl e \<Rightarrow> exc_ok e q))"

fun phase_len :: "phase \<Rightarrow> nat \<Rightarrow> bool" where
  "phase_len Discover k = (k = 0)"
| "phase_len Project k = (k = 1)"
| "phase_len Cluster k = (k = 2)"
| "phase_len Resolve k = (k = 3)"
| "phase_len (Polled cid n) k = (k = 4 + n \<and> n \<le> 30)"
| "phase_len (Access cid) k = (6 \<le> k \<and> k \<le> 35)"
| "phase_len Done k = (7 \<le> k \<and> k \<le> 36)"

fun exit_len :: "exit_site \<Rightarrow> nat \<Rightarrow> bool" where
  "exit_len NoCloud k = (k = 1)"
| "exit_len NoProject k = (k = 2)"
| "exit_len NoCluster k = (k = 4)"
| "exit_len ClusterNotAccessible k = (5 \<le> k \<and> k \<le> 34)"
| "exit_len AccessFailed k = (6 \<le> k \<and> k \<le> 35)"
| "exit_len UserNotCreated k = (7 \<le> k \<and> k \<le> 36)"

definition outcome_len :: "py_exc + 'a \<Rightarrow> nat \<Rightarrow> bool" where
  "outcome_len r k = (case r of Inr a \<Rightarrow> 7 \<le> k \<and> k \<le> 36 | Inl (SystemExit s) \<Rightarrow> exit_len s k | Inl e \<Rightarrow> k \<le> 36)"

named_theorems runs_intros "rules for runs_from over compositions"

lemma exc_ok_exit [simp]: "exc_ok (SystemExit s) p = site_phase s p"
  by (simp add: exc_ok_def)

lemma exc_ok_not_exit [simp]: "\<not> is_exit e \<Longrightarrow> exc_ok e p"
  by (cases e) (simp_all add: exc_ok_def)

lemma prov_run_append:
  "prov_run base p xs q \<Longrightarrow> prov_run base q ys r \<Longrightarrow> prov_run base p (xs @ ys) r"
  by (induction rule: prov_run.induct) (auto intro: prov_run.cons)

lemma prov_run_single: "prov_step base p l q \<Longrightarrow> prov_run base p [l] q"
  by (blast intro: prov_run.intros)

lemma runs_fromI:
  assumes "\<And>w. \<exists>new q. exchanges (snd (m w)) = exchanges w @ new \<and> prov_run base p (map req_line new) q \<and>
                 (case fst (m w) of Inr a \<Rightarrow> Q a q | Inl e \<Rightarrow> exc_ok e q)"
  shows "runs_from base p Q m"
  using assms by (simp add: runs_from_def)

lemma runs_fromD:
  assumes "runs_from base p Q m" and "m w = (r, w')"
  obtains new q where "exchanges w' = exchanges w @ new" "prov_run base p (map req_line new) q"
    "case r of Inr a \<Rightarrow> Q a q | Inl e \<Rightarrow> exc_ok e q"
  using assms unfolding runs_from_def by (metis fst_conv snd_conv)

lemma runs_stay:
  "(case fst (m w) of Inr a \<Rightarrow> Q a p | Inl e \<Rightarrow> exc_ok e p) \<Longrightarrow> exchanges (snd (m w)) = exchanges w \<Longrightarrow>
   \<exists>new q. exchanges (snd (m w)) = exchanges w @ new \<and> prov_run base p (map req_line new) q \<and>
      (case fst (m w) of Inr a \<Rightarrow> Q a q | Inl e \<Rightarrow> exc_ok e q)"
  by (rule exI [of _ "[]"], rule exI [of _ p]) (simp add: prov_run.nil)

lemma runs_return [runs_intros]: "Q a p \<Longrightarrow> runs_from base p Q (py_return a)"
  by (intro runs_fromI runs_stay) simp_all

lemma runs_raise [runs_intros]: "exc_ok e p \<Longrightarrow> runs_from base p Q (py_raise e)"
  by (intro runs_fromI runs_stay) simp_all

lemma runs_lift [runs_intros]:
  "(\<And>a. r = Inr a \<Longrightarrow> Q a p) \<Longrightarrow> (\<And>e. r = Inl e \<Longrightarrow> exc_ok e p) \<Longrightarrow> runs_from base p Q (py_lift r)"
  by (intro runs_fromI runs_stay) (simp_all split: sum.split)

lemma runs_sleep [runs_intros]: "Q () p \<Longrightarrow> runs_from base p Q (time_sleep n)"
  by (intro runs_fromI runs_stay) (simp_all add: time_sleep_def)

lemma runs_if [runs_intros]:
  "(b \<Longrightarrow> runs_from base p Q m1) \<Longrightarrow> (\<not> b \<Longrightarrow> runs_from base p Q m2) \<Longrightarrow>
   runs_from base p Q (if b then m1 else m2)"
  by simp

lemma runs_case_prod [runs_intros]:
  "(\<And>a b. x = (a, b) \<Longrightarrow> runs_from base p Q (f a b)) \<Longrightarrow> runs_from base p Q (case x of (a, b) \<Rightarrow> f a b)"
  by (cases x) simp

lemma runs_bind [runs_intros]:
  assumes m: "runs_from base p Q m" and f: "\<And>a q. Q a q \<Longrightarrow> runs_from base q R (f a)"
  shows "runs_from base p R (py_bind m f)"
proof (rule runs_fromI)
  fix w
  obtain r w1 where mw: "m w = (r, w1)" by fastforce
  obtain new1 q where n1: "exchanges w1 = exchanges w @ new1" "prov_run base p (map req_line new1) q"
    and post: "case r of Inr a \<Rightarrow> Q a q | Inl e \<Rightarrow> exc_ok e q"
    using runs_fromD [OF m mw] by blast
  show "\<exists>new q. exchanges (snd (py_bind m f w)) = exchanges w @ new \<and> prov_run base p (map req_line new) q \<and>
          (case fst (py_bind m f w) of Inr a \<Rightarrow> R a q | Inl e \<Rightarrow> exc_ok e q)"
  proof (cases r)
    case (Inl e)
    with mw n1 post show ?thesis by auto
  next
    case (Inr a)
    obtain r2 w2 where fw: "f a w1 = (r2, w2)" by fastforce
    have "runs_from base q R (f a)" using f post Inr by simp
    then obtain new2 q2 where n2: "exchanges w2 = exchanges w1 @ new2" "prov_run base q (map req_line new2) q2"
      and post2: "case r2 of Inr a \<Rightarrow> R a q2 | Inl e \<Rightarrow> exc_ok e q2"
      using runs_fromD fw by blast
    have "prov_run base p (map req_line (new1 @ new2)) q2"
      using prov_run_append [OF n1(2) n2(2)] by simp
    with mw fw Inr n1(1) n2(1) post2 show ?thesis by auto
  qed
qed

lemma runs_bind_to [runs_intros]:
  "runs_from base p (\<lambda>a q. q = ph a) m \<Longrightarrow> (\<And>a. runs_from base (ph a) R (f a)) \<Longrightarrow>
   runs_from base p R (py_bind m f)"
  by (rule runs_bind [where Q = "\<lambda>a q. q = ph a"]) auto

lemma runs_lift_then [runs_intros]:
  "(\<And>e. r = Inl e \<Longrightarrow> exc_ok e p) \<Longrightarrow> (\<And>a. r = Inr a \<Longrightarrow> runs_from base p R (f a)) \<Longrightarrow>
   runs_from base p R (py_bind (py_lift r) f)"
  by (cases r) (simp_all add: runs_raise)

lemma runs_sleep_then [runs_intros]:
  "runs_from base p R (f ()) \<Longrightarrow> runs_from base p R (py_bind (time_sleep n) f)"
  by (rule runs_bind [where Q = "\<lambda>_ q. q = p"]) (auto intro: runs_sleep)

lemma runs_emit [runs_intros]:
  "(\<And>a. r = Inr a \<Longrightarrow> Q a p) \<Longrightarrow> (\<And>e. r = Inl e \<Longrightarrow> exc_ok e p) \<Longrightarrow> runs_from base p Q (py_emit ls r)"
  by (intro runs_fromI runs_stay) (simp_all split: sum.split)

lemma runs_print [runs_intros]: "Q () p \<Longrightarrow> runs_from base p Q (print_line s)"
  unfolding print_line_def by (rule runs_emit) simp_all

lemma runs_print_then [runs_intros]:
  "runs_from base p R (f ()) \<Longrightarrow> runs_from base p R (py_bind (print_line s) f)"
  by (rule runs_bind [where Q = "\<lambda>_ q. q = p"]) (auto intro: runs_print)

lemma request_Inl_not_exit:
  "request cloud endpoint method data w = (Inl e, w') \<Longrightarrow> \<not> is_exit e"
  by (auto simp: request_def Let_def http_send_def py_bytes_utf8_def split: json.splits list.splits if_splits)

lemma runs_request_lift:
  assumes "\<And>res. \<exists>q. prov_step (py_str (url cloud)) p (method, py_str (url cloud) @ endpoint) q \<and>
                   (case g res of Inr a \<Rightarrow> Q a q | Inl e \<Rightarrow> exc_ok e q)"
  shows "runs_from (py_str (url cloud)) p Q (py_bind (request cloud endpoint method data) (\<lambda>res. py_emit (P res) (g res)))"
proof (rule runs_fromI)
  fix w
  obtain r w1 where req: "request cloud endpoint method data w = (r, w1)" by fastforce
  show "\<exists>new q. exchanges (snd (py_bind (request cloud endpoint method data) (\<lambda>res. py_emit (P res) (g res)) w)) =
          exchanges w @ new \<and> prov_run (py_str (url cloud)) p (map req_line new) q \<and>
          (case fst (py_bind (request cloud endpoint method data) (\<lambda>res. py_emit (P res) (g res)) w) of
             Inr a \<Rightarrow> Q a q | Inl e \<Rightarrow> exc_ok e q)"
  proof (cases r)
    case (Inl e)
    with req have "w1 = w" and "\<not> is_exit e" by (auto dest: request_Inl request_Inl_not_exit)
    with req Inl show ?thesis by (intro runs_stay) simp_all
  next
    case (Inr res)
    with req obtain x key where x: "exchanges w1 = exchanges w @ [(x, res)]"
      "req_method x = method" "req_url x = py_str (url cloud) @ endpoint"
      using request_sent by blast
    obtain q where q: "prov_step (py_str (url cloud)) p (method, py_str (url cloud) @ endpoint) q"
      "case g res of Inr a \<Rightarrow> Q a q | Inl e \<Rightarrow> exc_ok e q"
      using assms by blast
    have "prov_run (py_str (url cloud)) p (map req_line [(x, res)]) q"
      using x(2,3) q(1) by (simp add: req_line_def prov_run_single)
    with req Inr x(1) q(2) show ?thesis by auto
  qed
qed

lemma check_response_not_exit: "check_response_for_errors res m codes = Inl e \<Longrightarrow> \<not> is_exit e"
  by (cases e) auto

lemma result_not_exit:
  "cloud_status_result res = Inl e \<Longrightarrow> \<not> is_exit e"
  "create_project_result res = Inl e \<Longrightarrow> \<not> is_exit e"
  "success_result res m codes = Inl e \<Longrightarrow> \<not> is_exit e"
  "get_clusters_result res = Inl e \<Longrightarrow> \<not> is_exit e"
  "cluster_status res = Inl e \<Longrightarrow> \<not> is_exit e"
  by (cases e; simp add: cluster_status_def)+

lemma runs_request_step:
  assumes "prov_step (py_str (url cloud)) p (method, py_str (url cloud) @ endpoint) q"
    and "\<And>res e. g res = Inl e \<Longrightarrow> \<not> is_exit e"
  shows "runs_from (py_str (url cloud)) p (\<lambda>a q'. q' = q)
           (py_bind (request cloud endpoint method data) (\<lambda>res. py_emit (P res) (g res)))"
proof (rule runs_request_lift)
  fix res
  show "\<exists>q'. prov_step (py_str (url cloud)) p (method, py_str (url cloud) @ endpoint) q' \<and>
          (case g res of Inr a \<Rightarrow> q' = q | Inl e \<Rightarrow> exc_ok e q')"
    using assms by (intro exI [of _ q]) (auto split: sum.split)
qed

text \<open>The steps on one cluster, with the paths as the helpers build them.\<close>

lemma step_poll:
  "n < 30 \<Longrightarrow> prov_step base (Polled (py_str cid) n) (''GET'', base @ cluster_path cid) (Polled (py_str cid) (Suc n))"
  unfolding cluster_path_def by (rule prov_step.poll)

lemma step_access:
  "0 < n \<Longrightarrow> prov_step base (Polled (py_str cid) n) (''POST'', base @ cluster_path cid @ ''/allowlist'') (Access (py_str cid))"
  unfolding cluster_path_def using prov_step.access [of n base "py_str cid"] by simp

lemma step_user:
  "prov_step base (Access (py_str cid)) (''POST'', base @ cluster_path cid @ ''/users'') Done"
  unfolding cluster_path_def using prov_step.user [of base "py_str cid"] by simp

lemma runs_get_cloud_status:
  "runs_from (py_str (url cloud)) Discover (\<lambda>a q. q = Project) (get_cloud_status cloud)"
  unfolding get_cloud_status_def by (rule runs_request_step [OF prov_step.discover result_not_exit(1)])

lemma runs_create_project:
  "runs_from (py_str (url cloud)) Project (\<lambda>a q. q = Cluster) (create_project cloud project_name)"
  unfolding create_project_def by (rule runs_request_step [OF prov_step.project result_not_exit(2)])

lemma runs_create_cluster:
  "runs_from (py_str (url cloud)) Cluster (\<lambda>a q. q = Resolve) (create_cluster cloud cluster_name cloud_id project_id)"
  unfolding create_cluster_def by (rule runs_request_step [OF prov_step.cluster result_not_exit(3)])

lemma runs_get_clusters:
  "runs_from (py_str (url cloud)) Resolve (\<lambda>a q. q = Polled (py_str a) 0) (get_clusters cloud)"
  unfolding get_clusters_def
proof (rule runs_request_lift)
  fix res
  show "\<exists>q. prov_step (py_str (url cloud)) Resolve (''GET'', py_str (url cloud) @ ''/v2/clusters'') q \<and>
          (case get_clusters_result res of Inr a \<Rightarrow> q = Polled (py_str a) 0 | Inl e \<Rightarrow> exc_ok e q)"
  proof (cases "get_clusters_result res")
    case (Inl e)
    then show ?thesis
      by (intro exI [of _ "Polled [] 0"]) (auto intro: prov_step.resolve dest: result_not_exit(4))
  next
    case (Inr a)
    then show ?thesis by (intro exI [of _ "Polled (py_str a) 0"]) (auto intro: prov_step.resolve)
  qed
qed

lemma runs_check_cluster_ready:
  "n < 30 \<Longrightarrow> runs_from (py_str (url cloud)) (Polled (py_str cid) n) (\<lambda>a q. q = Polled (py_str cid) (Suc n))
     (check_cluster_ready cloud cid)"
  unfolding check_cluster_ready_def by (rule runs_request_step [OF step_poll check_response_not_exit])

lemma runs_enable_access:
  "0 < n \<Longrightarrow> runs_from (py_str (url cloud)) (Polled (py_str cid) n) (\<lambda>a q. q = Access (py_str cid))
     (enable_access_to_cluster cloud cid)"
  unfolding enable_access_to_cluster_def by (rule runs_request_step [OF step_access result_not_exit(3)])

lemma runs_create_user:
  "runs_from (py_str (url cloud)) (Access (py_str cid)) (\<lambda>a q. q = Done)
     (create_database_user cloud cid username password)"
  unfolding create_database_user_def by (rule runs_request_step [OF step_user result_not_exit(3)])

lemma runs_poll:
  "n + t \<le> 30 \<Longrightarrow> (t = 0 \<Longrightarrow> 0 < n) \<Longrightarrow>
   runs_from (py_str (url cloud)) (Polled (py_str cid) n) (\<lambda>_ q. \<exists>m. 0 < m \<and> q = Polled (py_str cid) m)
     (poll_cluster_ready cloud cid t)"
proof (induction t arbitrary: n)
  case 0
  show ?case unfolding poll_cluster_ready.simps by (rule runs_return) (use 0 in auto)
next
  case (Suc t)
  have IH: "runs_from (py_str (url cloud)) (Polled (py_str cid) (Suc n))
              (\<lambda>_ q. \<exists>m. 0 < m \<and> q = Polled (py_str cid) m) (poll_cluster_ready cloud cid t)"
    using Suc.prems(1) by (intro Suc.IH) simp_all
  show ?case unfolding poll_cluster_ready.simps
    using Suc.prems(1)
    by (intro runs_bind_to [OF runs_check_cluster_ready] runs_case_prod runs_if runs_lift_then runs_sleep_then runs_print_then runs_print
        runs_return runs_raise IH) (auto dest: result_not_exit(5))
qed

lemma runs_poll_then:
  "(\<And>m r. 0 < m \<Longrightarrow> runs_from (py_str (url cloud)) (Polled (py_str cid) m) R (f r)) \<Longrightarrow>
   runs_from (py_str (url cloud)) (Polled (py_str cid) 0) R (py_bind (poll_cluster_ready cloud cid 30) f)"
  by (rule runs_bind [OF runs_poll [of 0 30]]) auto

lemmas main_runs_intros = runs_bind_to [OF runs_get_cloud_status] runs_bind_to [OF runs_create_project]
  runs_bind_to [OF runs_create_cluster] runs_bind_to [OF runs_get_clusters] runs_poll_then
  runs_bind_to [OF runs_enable_access] runs_bind_to [OF runs_create_user]
  runs_case_prod runs_if runs_raise runs_return runs_print_then runs_print

lemma prov_step_len: "prov_step base p l q \<Longrightarrow> phase_len p k \<Longrightarrow> phase_len q (Suc k)"
  by (induction rule: prov_step.induct) auto

lemma prov_run_len: "prov_run base p ls q \<Longrightarrow> phase_len p k \<Longrightarrow> phase_len q (k + length ls)"
proof (induction arbitrary: k rule: prov_run.induct)
  case (nil p)
  then show ?case by simp
next
  case (cons p l q ls r)
  then have "phase_len r (Suc k + length ls)" using prov_step_len by blast
  then show ?case by simp
qed

lemma phase_len_le: "phase_len p k \<Longrightarrow> k \<le> 36"
  by (cases p) auto

lemma outcome_phase_len: "outcome_phase r p \<Longrightarrow> phase_len p k \<Longrightarrow> outcome_len r k"
proof (cases r)
  case (Inl e)
  moreover assume "outcome_phase r p" and "phase_len p k"
  ultimately show ?thesis
    by (cases e; cases p) (auto simp: outcome_phase_def outcome_len_def elim: site_phase.elims)
qed (auto simp: outcome_phase_def outcome_len_def)

text \<open>C26: every run of \<open>main\<close>, whatever the answers and whether it completes,
  exits or raises, sends a sequence of requests that the provisioning protocol of
  the spec (section 4.2) accepts from its start: the steps in order, one cluster id
  throughout, at most 30 readiness checks, and no request after the step that ended
  the run. A completed run ends in the final phase, each \<^verbatim>\<open>exit()\<close> in the
  phase of its step; and no run sends more than 36 requests (four setup calls, 30
  checks, two access calls).\<close>

theorem main_follows_protocol:
  "\<exists>new p. exchanges (snd (main env w)) = exchanges w @ new \<and>
     prov_run (py_str (url (bootstrap_cloud env))) Discover (map req_line new) p \<and>
     outcome_phase (fst (main env w)) p \<and> length new \<le> 36"
proof -
  let ?c = "bootstrap_cloud env"
  have runs: "runs_from (py_str (url ?c)) Discover (\<lambda>_ q. q = Done) (main env)"
    unfolding main_def Let_def by (intro main_runs_intros) simp_all
  obtain new p where "exchanges (snd (main env w)) = exchanges w @ new"
    and run: "prov_run (py_str (url ?c)) Discover (map req_line new) p"
    and "case fst (main env w) of Inr a \<Rightarrow> p = Done | Inl e \<Rightarrow> exc_ok e p"
    using runs unfolding runs_from_def by blast
  moreover have "length new \<le> 36" using prov_run_len [OF run, where k = 0] by (simp add: phase_len_le)
  ultimately show ?thesis by (auto simp: outcome_phase_def split: sum.split)
qed

theorem main_follows_protocol_witness:
  "\<exists>new. exchanges (snd (main demo_env (answer_world [error_answer]))) = exchanges (answer_world [error_answer]) @ new \<and>
     prov_run ''https://api'' Discover (map req_line new) Project \<and> length new \<le> 36"
proof -
  have r: "fst (main demo_env (answer_world [error_answer])) = Inl (SystemExit NoCloud)"
    by (simp add: run_simps error_answer_def)
  have u: "py_str (url (bootstrap_cloud demo_env)) = ''https://api''"
    by (simp add: bootstrap_cloud_def getenv_def demo_env_def)
  show ?thesis using main_follows_protocol [of demo_env "answer_world [error_answer]"] r u
    by (auto simp: outcome_phase_def)
qed

text \<open>C30: every run of \<open>main\<close> sends exactly as many requests as the steps before
  its end: an \<^verbatim>\<open>exit()\<close> for a missing cloud after one request, for a failed
  project after two, for a missing cluster id after four (the result of the cluster
  creation is not checked), for an inaccessible cluster after 5 to 34, for a refused
  allowlist after 6 to 35 and for a refused user after 7 to 36; a completed run sends
  7 to 36 requests and any other exception ends a run of at most 36.\<close>

theorem main_exit_counts:
  "\<exists>new. exchanges (snd (main env w)) = exchanges w @ new \<and> outcome_len (fst (main env w)) (length new)"
proof -
  let ?c = "bootstrap_cloud env"
  have runs: "runs_from (py_str (url ?c)) Discover (\<lambda>_ q. q = Done) (main env)"
    unfolding main_def Let_def by (intro main_runs_intros) simp_all
  obtain new p where "exchanges (snd (main env w)) = exchanges w @ new"
    and run: "prov_run (py_str (url ?c)) Discover (map req_line new) p"
    and "outcome_phase (fst (main env w)) p"
    using runs unfolding runs_from_def outcome_phase_def by blast
  moreover have "phase_len p (length new)" using prov_run_len [OF run, where k = 0] by simp
  ultimately show ?thesis using outcome_phase_len by blast
qed

end
