(* ===== verification/SdkTest.thy ===== *)
theory SdkTest
  imports Bootstrap "HOL-Library.AList" "HOL-Library.Char_ord" "HOL-Library.List_Lexorder"
begin

text \<open>
  The SDK check script \<^verbatim>\<open>src/src/cloud_sdk_test.py\<close>, which connects to the
  cluster that \<^verbatim>\<open>main\<close> provisioned, stores one document, reads it back and
  runs one N1QL query. The script is \<open>sdk_test\<close>, translated line by line.
  The Couchbase SDK and the data service it talks to are modelled from their
  documented behaviour, as an \<open>sdk_world\<close>: the host the cluster answers on,
  the database users, the buckets with the documents of their default collection
  (association lists, updated as \<^verbatim>\<open>upsert\<close> does), the primary index of each
  bucket that has one, and the lines the script prints. Each SDK call that fails
  raises the \<open>CouchbaseException\<close> the SDK documents. The query service is
  modelled for the statement form the script sends,
  \<^verbatim>\<open>SELECT f FROM b WHERE $1 IN a\<close>, read by a primary index scan in key order.
  The index is maintained asynchronously: it holds the documents as the indexer
  last saw them, and only \<open>index_catch_up\<close>, a step of the service and not of the
  script, brings it up to date. A query with the default scan consistency
  \<^verbatim>\<open>not_bounded\<close> scans the index as it is; \<^verbatim>\<open>request_plus\<close> first waits
  for the index to reach the documents as they are when the query is sent.
\<close>

record sdk_world =
  dbs_host :: string
  dbs_users :: "(string \<times> string) list"
  dbs_buckets :: "(string \<times> (string \<times> json) list) list"
  dbs_indexes :: "(string \<times> (string \<times> json) list) list"
  stdout :: "string list"

subsection \<open>Python operators of the script\<close>

text \<open>\<^verbatim>\<open>a + v\<close> for a string \<open>a\<close>: a \<open>TypeError\<close> unless \<open>v\<close> is a string.\<close>

definition py_str_concat :: "string \<Rightarrow> json \<Rightarrow> py_exc + string" where
  "py_str_concat a v = (case v of JStr b \<Rightarrow> Inr (a @ b) | _ \<Rightarrow> Inl TypeError)"

text \<open>\<^verbatim>\<open>template % arg\<close> with one string argument: \<^verbatim>\<open>%s\<close> takes the argument,
  \<^verbatim>\<open>%%\<close> is a percent sign; a second \<^verbatim>\<open>%s\<close> or an unused argument is a
  \<open>TypeError\<close>, any other conversion a \<open>ValueError\<close>. \<open>x\<close> is the argument
  not yet used.\<close>

fun py_format_str :: "string \<Rightarrow> string option \<Rightarrow> py_exc + string" where
  "py_format_str [] x = (case x of None \<Rightarrow> Inr [] | Some a \<Rightarrow> Inl TypeError)"
| "py_format_str (c # cs) x =
     (if c \<noteq> CHR ''%'' then py_then (py_format_str cs x) (\<lambda>r. Inr (c # r))
      else case cs of
        [] \<Rightarrow> Inl ValueError
      | d # ds \<Rightarrow>
          if d = CHR ''%'' then py_then (py_format_str ds x) (\<lambda>r. Inr (CHR ''%'' # r))
          else if d = CHR ''s'' then
            (case x of None \<Rightarrow> Inl TypeError | Some a \<Rightarrow> py_then (py_format_str ds None) (\<lambda>r. Inr (a @ r)))
          else Inl ValueError)"

definition py_print :: "string \<Rightarrow> (sdk_world, unit) pyst" where
  "py_print s w = (Inr (), w\<lparr>stdout := stdout w @ [s]\<rparr>)"

subsection \<open>The SDK calls\<close>

text \<open>The host part of a \<^verbatim>\<open>couchbases://\<close> connection string.\<close>

definition connstr_host :: "string \<Rightarrow> string option" where
  "connstr_host s =
     (if take 13 s = ''couchbases://'' then Some (takeWhile (\<lambda>c. c \<noteq> CHR ''?'') (drop 13 s)) else None)"

definition password_authenticator :: "json \<Rightarrow> json \<Rightarrow> py_exc + string \<times> string" where
  "password_authenticator username password =
     (case (username, password) of
        (JStr u, JStr p) \<Rightarrow> Inr (u, p)
      | _ \<Rightarrow> Inl (CouchbaseException InvalidArgumentException))"

definition cluster_connect :: "string \<Rightarrow> string \<times> string \<Rightarrow> (sdk_world, unit) pyst" where
  "cluster_connect connstr auth w =
     (case connstr_host connstr of
        None \<Rightarrow> (Inl (CouchbaseException InvalidArgumentException), w)
      | Some h \<Rightarrow>
          if h \<noteq> dbs_host w then (Inl (CouchbaseException UnAmbiguousTimeoutException), w)
          else if auth \<notin> set (dbs_users w) then (Inl (CouchbaseException AuthenticationException), w)
          else (Inr (), w))"

definition cluster_bucket :: "string \<Rightarrow> (sdk_world, unit) pyst" where
  "cluster_bucket b w =
     (if map_of (dbs_buckets w) b = None then (Inl (CouchbaseException BucketNotFoundException), w)
      else (Inr (), w))"

text \<open>A new primary index is built over the documents the bucket holds.\<close>

definition create_primary_index :: "string \<Rightarrow> bool \<Rightarrow> (sdk_world, unit) pyst" where
  "create_primary_index b ignore_if_exists w =
     (case map_of (dbs_buckets w) b of
        None \<Rightarrow> (Inl (CouchbaseException BucketNotFoundException), w)
      | Some docs \<Rightarrow>
          if map_of (dbs_indexes w) b \<noteq> None then
            (if ignore_if_exists then (Inr (), w) else (Inl (CouchbaseException QueryIndexAlreadyExistsException), w))
          else (Inr (), w\<lparr>dbs_indexes := dbs_indexes w @ [(b, docs)]\<rparr>))"

text \<open>The indexer, a step of the data service: the index of bucket \<open>b\<close> catches up
  with the bucket's documents.\<close>

definition index_catch_up :: "string \<Rightarrow> sdk_world \<Rightarrow> sdk_world" where
  "index_catch_up b w =
     (case (map_of (dbs_buckets w) b, map_of (dbs_indexes w) b) of
        (Some docs, Some _) \<Rightarrow> w\<lparr>dbs_indexes := AList.update b docs (dbs_indexes w)\<rparr>
      | _ \<Rightarrow> w)"

definition coll_upsert :: "string \<Rightarrow> string \<Rightarrow> json \<Rightarrow> (sdk_world, unit) pyst" where
  "coll_upsert b key doc w =
     (if map_of (dbs_buckets w) b = None then (Inl (CouchbaseException BucketNotFoundException), w)
      else (Inr (), w\<lparr>dbs_buckets := AList.map_entry b (AList.update key doc) (dbs_buckets w)\<rparr>))"

definition coll_get :: "string \<Rightarrow> string \<Rightarrow> (sdk_world, json) pyst" where
  "coll_get b key w =
     (case map_of (dbs_buckets w) b of
        None \<Rightarrow> (Inl (CouchbaseException BucketNotFoundException), w)
      | Some docs \<Rightarrow>
          (case map_of docs key of
             None \<Rightarrow> (Inl (CouchbaseException DocumentNotFoundException), w)
           | Some d \<Rightarrow> (Inr d, w)))"

subsection \<open>The query service\<close>

fun split_spaces :: "string \<Rightarrow> string list" where
  "split_spaces [] = [[]]"
| "split_spaces (c # cs) =
     (if c = CHR '' '' then [] # split_spaces cs
      else case split_spaces cs of [] \<Rightarrow> [[c]] | w # ws \<Rightarrow> (c # w) # ws)"

definition n1ql_words :: "string \<Rightarrow> string list" where
  "n1ql_words s = filter (\<lambda>w. w \<noteq> []) (split_spaces s)"

text \<open>\<^verbatim>\<open>SELECT f FROM b WHERE $1 IN a\<close>, read as the projected field, the bucket
  and the array field.\<close>

fun n1ql_parse :: "string list \<Rightarrow> (string \<times> string \<times> string) option" where
  "n1ql_parse [sel, f, frm, b, whr, par, inn, a] =
     (if sel = ''SELECT'' \<and> frm = ''FROM'' \<and> whr = ''WHERE'' \<and> par = ''$1'' \<and> inn = ''IN''
      then Some (f, b, a) else None)"
| "n1ql_parse ws = None"

text \<open>The row of one document: the projected field (none when it is missing) if
  the parameter is an element of the array field.\<close>

definition n1ql_row :: "string \<Rightarrow> string \<Rightarrow> json \<Rightarrow> json \<Rightarrow> json option" where
  "n1ql_row f a p d =
     (case d of
        JObj kvs \<Rightarrow>
          (case dict_lookup kvs a of
             Some (JArr xs) \<Rightarrow>
               if p \<in> set xs then Some (JObj (case dict_lookup kvs f of Some v \<Rightarrow> [(f, v)] | None \<Rightarrow> [])) else None
           | _ \<Rightarrow> None)
      | _ \<Rightarrow> None)"

text \<open>The scan consistency of \<^verbatim>\<open>QueryOptions\<close>; its default is \<^verbatim>\<open>not_bounded\<close>.\<close>

datatype scan_consistency = NotBounded | RequestPlus

definition n1ql_query :: "string \<Rightarrow> json list \<Rightarrow> scan_consistency \<Rightarrow> (sdk_world, json list) pyst" where
  "n1ql_query stmt params consistency w =
     (case n1ql_parse (n1ql_words stmt) of
        None \<Rightarrow> (Inl (CouchbaseException ParsingFailedException), w)
      | Some (f, b, a) \<Rightarrow>
          (case map_of (dbs_buckets w) b of
             None \<Rightarrow> (Inl (CouchbaseException ParsingFailedException), w)
           | Some docs \<Rightarrow>
               (case map_of (dbs_indexes w) b of
                  None \<Rightarrow> (Inl (CouchbaseException QueryIndexNotFoundException), w)
                | Some indexed \<Rightarrow>
                    (let scanned = (case consistency of NotBounded \<Rightarrow> indexed | RequestPlus \<Rightarrow> docs) in
                     case params of
                       [] \<Rightarrow> (Inr [], w)
                     | p # _ \<Rightarrow> (Inr (List.map_filter (\<lambda>(k, d). n1ql_row f a p d) (sort_key fst scanned)), w)))))"

subsection \<open>The script\<close>

definition connection_string :: "json \<Rightarrow> py_exc + string" where
  "connection_string endpoint = py_then (py_str_concat ''couchbases://'' endpoint) (\<lambda>s. Inr (s @ ''?ssl=no_verify''))"

definition arthur_doc :: json where
  "arthur_doc =
     JObj [(''name'', JStr ''Arthur''), (''email'', JStr ''kingarthur@couchbase.com''),
           (''interests'', JArr [JStr ''Holy Grail'', JStr ''African Swallows''])]"

primrec print_rows :: "json list \<Rightarrow> (sdk_world, unit) pyst" where
  "print_rows [] = py_return ()"
| "print_rows (row # rows) = py_bind (py_print (py_str row)) (\<lambda>_. print_rows rows)"

definition sdk_test :: "environ \<Rightarrow> (sdk_world, unit) pyst" where
  "sdk_test env =
     (let endpoint = getenv env ''DB_HOST''; username = getenv env ''USERNAME'';
          password = getenv env ''PASSWORD''; bucketName = ''couchbasecloudbucket'' in
      py_bind (py_lift (connection_string endpoint)) (\<lambda>connstr.
      py_bind (py_lift (password_authenticator username password)) (\<lambda>auth.
      py_bind (cluster_connect connstr auth) (\<lambda>_.
      py_bind (cluster_bucket bucketName) (\<lambda>_.
      py_bind (create_primary_index bucketName True) (\<lambda>_.
      py_bind (coll_upsert bucketName ''u:king_arthur'' arthur_doc) (\<lambda>_.
      py_bind (coll_get bucketName ''u:king_arthur'') (\<lambda>doc.
      py_bind (py_print (py_str doc)) (\<lambda>_.
      py_bind (py_lift (py_format_str ''SELECT name FROM %s WHERE $1 IN interests'' (Some bucketName))) (\<lambda>stmt.
      py_bind (n1ql_query stmt [JStr ''African Swallows''] NotBounded) (\<lambda>row_iter.
      print_rows row_iter)))))))))))"

subsection \<open>A data service to evaluate on\<close>

definition demo_dbs :: sdk_world where
  "demo_dbs =
     \<lparr>dbs_host = ''clus-1.dp.cloud.couchbase.com'', dbs_users = [(''u'', ''p'')],
      dbs_buckets = [(''couchbasecloudbucket'', [])], dbs_indexes = [], stdout = []\<rparr>"

text \<open>The rows the script's query selects from a list of documents.\<close>

abbreviation script_rows :: "(string \<times> json) list \<Rightarrow> json list" where
  "script_rows docs \<equiv> List.map_filter (\<lambda>(k, d). n1ql_row ''name'' ''interests'' (JStr ''African Swallows'') d) (sort_key fst docs)"

subsection \<open>The users the control plane created\<close>

text \<open>The database users that the exchanges of a run created: each POST to a
  \<^verbatim>\<open>.../users\<close> path answered with 201 adds the user named in its body.\<close>

fun user_of :: "json \<Rightarrow> (string \<times> string) option" where
  "user_of (JObj kvs) =
     (case (dict_lookup kvs ''username'', dict_lookup kvs ''password'') of
        (Some (JStr u), Some (JStr p)) \<Rightarrow> Some (u, p)
      | _ \<Rightarrow> None)"
| "user_of v = None"

definition ends_with :: "string \<Rightarrow> string \<Rightarrow> bool" where
  "ends_with s sfx = (length sfx \<le> length s \<and> drop (length s - length sfx) s = sfx)"

definition created_users :: "(http_request \<times> response) list \<Rightarrow> (string \<times> string) list" where
  "created_users xs =
     List.map_filter (\<lambda>(q, res).
       if req_method q = ''POST'' \<and> ends_with (req_url q) ''/users'' \<and> status_code res = 201
       then user_of (req_json q) else None) xs"

subsection \<open>Lemmas\<close>

lemma connstr_host_roundtrip:
  "CHR ''?'' \<notin> set h \<Longrightarrow> connstr_host (''couchbases://'' @ h @ ''?ssl=no_verify'') = Some h"
proof -
  assume "CHR ''?'' \<notin> set h"
  then have "\<And>c. c \<in> set h \<Longrightarrow> c \<noteq> CHR ''?''" by blast
  then show ?thesis by (simp add: connstr_host_def takeWhile_append2)
qed

lemma print_rows_run: "print_rows rows w = (Inr (), w\<lparr>stdout := stdout w @ map py_str rows\<rparr>)"
  by (induction rows arbitrary: w) (simp_all add: py_print_def py_bind_apply)

lemma map_of_map_entry: "map_of (AList.map_entry k f al) k' = (if k' = k then map_option f (map_of al k) else map_of al k')"
  by (induction al) auto

lemma map_filter_memI: "x \<in> set xs \<Longrightarrow> f x = Some y \<Longrightarrow> y \<in> set (List.map_filter f xs)"
  by (induction xs) (auto simp: List.map_filter_simps split: option.split)

text \<open>A run of the script on a cluster that answers on the host of
  \<^verbatim>\<open>DB_HOST\<close>, knows the user, and has the bucket: it stores the document,
  creates the primary index unless there is one, prints the document it reads
  back and then one line per row of the query.\<close>

lemma sdk_test_run:
  assumes env: "env ''DB_HOST'' = Some h" "env ''USERNAME'' = Some u" "env ''PASSWORD'' = Some p"
    and host: "CHR ''?'' \<notin> set h" "dbs_host w = h" and user: "(u, p) \<in> set (dbs_users w)"
    and bucket: "map_of (dbs_buckets w) ''couchbasecloudbucket'' = Some docs"
  shows "sdk_test env w =
    (Inr (), w\<lparr>dbs_buckets := AList.map_entry ''couchbasecloudbucket'' (AList.update ''u:king_arthur'' arthur_doc) (dbs_buckets w),
       dbs_indexes := (if map_of (dbs_indexes w) ''couchbasecloudbucket'' \<noteq> None then dbs_indexes w
                       else dbs_indexes w @ [(''couchbasecloudbucket'', docs)]),
       stdout := stdout w @ py_str arthur_doc #
         map py_str (script_rows (case map_of (dbs_indexes w) ''couchbasecloudbucket'' of Some ix \<Rightarrow> ix | None \<Rightarrow> docs))\<rparr>)"
proof -
  define cs where "cs = ''couchbases://'' @ h @ ''?ssl=no_verify''"
  have cs: "connection_string (getenv env ''DB_HOST'') = Inr cs"
    by (simp add: cs_def connection_string_def py_str_concat_def getenv_def env(1))
  have conn: "cluster_connect cs (u, p) w = (Inr (), w)"
    using connstr_host_roundtrip [OF host(1)] host(2) user by (simp add: cs_def cluster_connect_def)
  have auth: "password_authenticator (getenv env ''USERNAME'') (getenv env ''PASSWORD'') = Inr (u, p)"
    by (simp add: password_authenticator_def getenv_def env(2,3))
  show ?thesis
    using bucket
    by (cases "map_of (dbs_indexes w) ''couchbasecloudbucket''")
      (simp_all add: sdk_test_def Let_def py_bind_apply cs conn auth cluster_bucket_def create_primary_index_def
        coll_upsert_def coll_get_def map_of_map_entry update_conv' py_print_def n1ql_query_def n1ql_words_def
        print_rows_run map_add_def)
qed

lemma sdk_test_missing_host: "env ''DB_HOST'' = None \<Longrightarrow> sdk_test env w = (Inl TypeError, w)"
  by (simp add: sdk_test_def Let_def getenv_def connection_string_def py_str_concat_def)

lemma created_users_snoc:
  "created_users (xs @ [(q, res)]) =
     created_users xs @ (if req_method q = ''POST'' \<and> ends_with (req_url q) ''/users'' \<and> status_code res = 201
                         then (case user_of (req_json q) of Some x \<Rightarrow> [x] | None \<Rightarrow> []) else [])"
  by (simp add: created_users_def List.map_filter_def split: option.split)

text \<open>A completed run of \<^verbatim>\<open>main\<close> created, in its last exchange, the database
  user of \<^verbatim>\<open>USERNAME\<close> and \<^verbatim>\<open>PASSWORD\<close>.\<close>

lemma main_creates_user:
  assumes run: "main env w = (Inr r, w')"
    and env: "env ''USERNAME'' = Some u" "env ''PASSWORD'' = Some p"
  shows "(u, p) \<in> set (created_users (exchanges w'))"
proof -
  let ?c = "bootstrap_cloud env"
  obtain clid w6 w7 where
      user: "create_database_user ?c clid (getenv env ''USERNAME'') (getenv env ''PASSWORD'') w6 = (Inr True, w7)"
    and w': "exchanges w' = exchanges w7"
    using run by (rule main_InrE) simp
  obtain res w8 where req: "request ?c (cluster_path clid @ ''/users'') ''POST''
      (database_user (getenv env ''USERNAME'') (getenv env ''PASSWORD'')) w6 = (Inr res, w8)"
    and ok: "success_result res ''Create Database User'' [201] = Inr True" and w7: "exchanges w7 = exchanges w8"
    using user unfolding create_database_user_def bind_request_lift_Inr by auto
  obtain key where "http_send (signed_request ?c key (cluster_path clid @ ''/users'') ''POST''
      (database_user (getenv env ''USERNAME'') (getenv env ''PASSWORD'')) (clock w6)) w6 = (Inr res, w8)"
    using request_Inr [OF req] by blast
  then have ex: "exchanges w' = exchanges w6 @ [(signed_request ?c key (cluster_path clid @ ''/users'') ''POST''
      (database_user (getenv env ''USERNAME'') (getenv env ''PASSWORD'')) (clock w6), res)]"
    using w' w7 by (auto simp: http_send_def split: list.splits)
  have "status_code res = 201"
    using ok by (auto simp: success_result_def py_then_Inr_iff dest!: check_response_success_flag)
  then show ?thesis
    by (simp add: ex created_users_snoc signed_request_def ends_with_def database_user_def getenv_def env)
qed



end
