(* ===== verification/Spec2Isabelle.thy ===== *)
theory Spec2Isabelle
  imports Protocol SdkTest
begin

text \<open>
  \<^bold>\<open>A verification library for couchbaselabs/python-quickstart-cloud.\<close>

  \<^medskip>\<^bold>\<open>The program.\<close> A provisioning script for a managed database cluster.
  \<^verbatim>\<open>src/src/couchbase_cloud.py\<close> is the signed request client: every call to the
  control plane carries a bearer token with the access key and a base64
  HMAC-SHA256 signature of \<open>METHOD\nPATH\nTIMESTAMP\<close> under the secret.
  \<^verbatim>\<open>src/src/cloud_helpers.py\<close> holds one helper per step, each one request and
  an interpretation of the answer against the status codes the step accepts.
  \<^verbatim>\<open>src/src/cloud_bootstrap.py\<close> is \<^verbatim>\<open>main\<close>, which calls the helpers in
  sequence (discover the cloud, create a project, create a cluster, resolve its id,
  poll its readiness up to 30 times a minute apart, open network access, create a
  database user) and exits at the first failure it checks for.
  \<^verbatim>\<open>src/src/cloud_sdk_test.py\<close> is the check that comes after: it connects
  with the database SDK to the host \<^verbatim>\<open>main\<close> printed, as the user
  \<^verbatim>\<open>main\<close> created, stores a document, reads it back and queries it.

  \<^medskip>\<^bold>\<open>The library.\<close>
  \<^item> \<open>Prelude\<close>: Python exceptions (\<open>py_exc\<close>, \<open>SystemExit\<close> carrying the
    \<^verbatim>\<open>exit()\<close> call site), computations over the world that may raise
    (\<open>py_bind\<close>, \<open>py_lift\<close>, \<open>py_raise\<close>), the SDK's exceptions
    (\<open>CouchbaseException\<close>), \<^verbatim>\<open>except KeyError\<close>, and
    \<open>pyst_rel R m\<close>: every run of \<open>m\<close> relates its start and end worlds by
    \<open>R\<close>, with introduction rules (collection \<open>pyst_rel_intros\<close>) that carry an
    invariant through a whole composition.
  \<^item> \<open>Json\<close>: Python values as decoded JSON, \<^verbatim>\<open>v[k]\<close> with its
    \<open>KeyError\<close>/\<open>IndexError\<close>/\<open>TypeError\<close>, truthiness, \<^verbatim>\<open>str(v)\<close>, and
    the decimal \<^verbatim>\<open>str(int)\<close> with its inverse.
  \<^item> \<open>Sha256\<close>, \<open>Base64\<close>: \<^verbatim>\<open>hashlib.sha256\<close>, \<^verbatim>\<open>hmac\<close> and
    \<^verbatim>\<open>base64.b64encode\<close>, which the client calls, modelled from FIPS 180-4,
    RFC 2104 and RFC 4648 (library code, not repository code), with the digest
    lengths, the base64 roundtrip, length and alphabet.
  \<^item> \<open>Cloud\<close> (\<^verbatim>\<open>couchbase_cloud.py\<close>): the record \<open>couchbase_cloud\<close>, the
    world (\<open>responses\<close> the server will give, in order; \<open>exchanges\<close> sent so
    far; the millisecond \<open>clock\<close>; the \<open>console\<close> lines printed so far, which
    \<open>print_line\<close> and \<open>py_emit\<close> extend), \<open>utf8_bytes\<close>
    (\<^verbatim>\<open>str.encode("utf-8")\<close>), \<open>cbc_api_message\<close>, \<open>cbc_api_signature\<close>,
    \<open>cbc_api_request_headers\<close> and \<open>request\<close>. \<open>cbc_verify\<close> is the control
    plane's check, written from section 6 of the spec and independently of the
    client's message and signature functions: it rebuilds
    \<open>METHOD\nPATH\nTIMESTAMP\<close> from the request's method, URL and timestamp
    header. Proved: a returning request is recorded once, stamped with the clock,
    and passes that check (C7); the message splits back into its parts (C14); the
    signature is 44 characters (C15); an unsupported method raises
    \<open>UnboundLocalError\<close> (C16).
  \<^item> \<open>Helpers\<close> (\<^verbatim>\<open>cloud_helpers.py\<close>): \<open>check_response_for_errors\<close> and
    the eight helpers, each \<open>py_bind (request ...) (\<lambda>res. py_emit (check_response_report res ...) (..._result res))\<close>:
    one request, the lines \<^verbatim>\<open>check_response_for_errors\<close> prints
    (\<open>check_response_report\<close>), and the interpretation of the answer.
    Proved: the success flag is membership of the status code (C3, C4); the
    behaviour of discovery, project creation and cluster listing on the answers
    of the spec (C17, C18), and where the code raises instead (C10, C11, C19, C31);
    the disabled delete step sends one DELETE, succeeds exactly on 202 and prints
    the status and error of any other answer (C25); a first cloud entry without a
    provider yields its id and no provider (C29).
  \<^item> \<open>Poll\<close> (\<^verbatim>\<open>cloud_bootstrap.py\<close>, lines 55 to 70): the readiness loop,
    \<open>poll_cluster_ready\<close> (recursion on the countdown), shown equal to
    \<open>poll_while\<close>, the same lines as a \<open>while_option\<close> loop over
    \<^verbatim>\<open>timeout\<close>, the \<^verbatim>\<open>break\<close> flag and the exception in flight (lemma
    \<open>poll_while_eq\<close>). Proved: the loop stops at the first ready answer, the
    checks stamped a minute apart, having printed two lines per round (C5); it
    never sends more requests than the countdown (C6); it falls through when the
    countdown runs out, never printing that the cluster is ready (C20); a check
    answered outside 200 exits at once (C23).
  \<^item> \<open>Bootstrap\<close> (\<^verbatim>\<open>cloud_bootstrap.py\<close>): \<open>main\<close>, the environment,
    the spec's abstract call sequence \<open>provisioning_calls\<close>, and \<open>main_rel\<close>,
    which carries any relation kept by each request and the sleep through every
    run. \<open>main_setup_steps\<close> and \<open>main_run_steps\<close> give the exact request
    lines and console of the first three calls and of a whole run whose calls are
    answered as \<open>main\<close> expects, for any behaviour of the readiness loop. Proved,
    for every environment with a secret and all answers of the shape each claim
    names: exhausting the countdown does not stop the run, which prints the access
    URL and never that the cluster is ready (C12); a refused cluster creation does
    not stop it either (C13); an empty cluster list stops it with
    \<open>IndexError\<close> after the four setup calls (C21); a failed discovery exits
    after one request and the three lines of its message (C22); a missing secret
    crashes with \<open>TypeError\<close> before any request (C24); on every cooperating
    server the run completes and prints the access URL last (C28); a project
    created without an id ends the run at \<^verbatim>\<open>NoProject\<close> after two requests,
    printing \<^verbatim>\<open>Project Not Created\<close> last (C32); every \<^verbatim>\<open>exit()\<close>, the one
    inside the readiness loop included, comes right after the message of its site,
    because no helper raises \<open>SystemExit\<close> (C36).
  \<^item> \<open>Protocol\<close>: the provisioning protocol of the spec (section 4.2) as an
    inductive step relation over phases, with the phase each \<^verbatim>\<open>exit()\<close> belongs
    to, and \<open>runs_from\<close>, a Hoare-style judgement with one rule per combinator and
    one lemma per helper. Proved: every run of \<open>main\<close>, whatever its outcome,
    follows the protocol, stops at the phase of its exit, and sends at most 36
    requests (C26); each exit comes after exactly the requests of the steps before
    it (C30). Both bounds come from \<open>phase_len\<close>, the number of requests
    sent on reaching each phase, kept by rule induction on the protocol runs.
  \<^item> \<open>SdkTest\<close> (\<^verbatim>\<open>cloud_sdk_test.py\<close>): the script \<open>sdk_test\<close> over
    \<open>sdk_world\<close>, a model of the SDK and the data service from their
    documentation (connection string, users, buckets as association lists of
    documents, primary indexes that the indexer \<open>index_catch_up\<close> brings up to
    date asynchronously, the one query form the script sends with its scan
    consistency, printed lines), and \<open>created_users\<close>, the users the control
    plane created on the exchanges of a run. Proved: the script stores the
    document and reads it back by key; its query, at the default
    \<^verbatim>\<open>not_bounded\<close> consistency, returns the rows of the index as it stands,
    which need not include the document just stored, and does return its name
    once the indexer has caught up (C33).
  \<^item> This theory: the properties of whole runs. The spec's end-to-end scenario,
    for all ids, with its exact call sequence and the thirteen lines it prints
    (C1); every successful run sends exactly the sequence, with between 1 and 30
    polls, and prints the access URL last (C2); every request of every run,
    successful or not, passes the control plane's check under the environment's
    access key, secret and base URL (C8), none is a DELETE (C9), each is well
    formed (C27); in every completed run the cluster request carries the cloud
    and project ids the earlier answers gave, the allowlist opens the cluster to
    \<^verbatim>\<open>0.0.0.0/0\<close> and the user request carries the environment's credentials
    (C35); a completed run of \<open>main\<close> prints the address of the cluster
    on which it created the user, and the SDK script run on that address logs in
    as that user and completes (C34).

  \<^medskip>\<^bold>\<open>Bounds and fuel.\<close> No fuel is needed: the only loop counts a natural
  number down from 30, so \<open>poll_cluster_ready\<close> is structural recursion and
  total; C6 bounds its requests by the countdown. The literal loop
  \<open>poll_while\<close> runs by \<open>while_option\<close>; \<open>poll_while_eq\<close> shows it always
  returns \<open>Some\<close>. The transport never blocks: a world without an answer left
  raises \<open>ConnectionError\<close>. The bound of 36 requests per run (C26) is the sum of
  the four setup calls, the 30 checks and the two access calls.

  \<^medskip>\<^bold>\<open>Not modelled.\<close> The console is a list of lines: Python's
  \<^verbatim>\<open>print\<close> with several arguments is one line of them joined by a space, and
  the terminal itself is not modelled. The data service beyond the calls the SDK
  script makes, user roles, and N1QL beyond its one statement form;
  \<^verbatim>\<open>load_dotenv\<close> (the environment is given as a map); the HTTP library's URL
  handling and timeouts (a \<open>None\<close> base URL is sent as the text \<open>None\<close>, where
  \<^verbatim>\<open>requests\<close> would raise); the wall clock: \<^verbatim>\<open>datetime.now()\<close> reads the
  world's integer clock, which only \<^verbatim>\<open>time.sleep\<close> advances, so the model says
  nothing about a system clock that steps back; the escaping \<^verbatim>\<open>repr\<close> applies
  inside containers; JSON numbers other than integers. A character of a HOL
  string is a code point below 256, so Python strings with other characters are
  not represented. SHA-256 is defined but too slow to evaluate in the kernel,
  so its known-answer tests are not proved here.
\<close>

subsection \<open>The abstract provisioning sequence\<close>

definition e2e_answers :: "response list" where
  "e2e_answers = setup_answers @ [ok_answer 202, cluster_list_answer, status_answer ''ready'',
                                  ok_answer 202, ok_answer 201]"

subsection \<open>Whole runs\<close>

text \<open>C1: the spec's end-to-end scenario, for any environment with a secret and
  whatever ids the control plane answers with. Discovery answers a cloud id and a
  provider, project creation a project id, cluster creation is accepted (202),
  the cluster list gives a cluster id, the first readiness check answers ready,
  network access (202) and the user (201) are created: the run completes after
  sending exactly the spec's sequence of calls with one poll, and prints the
  progress of every step, in order, ending with the cluster's access URL.\<close>

theorem main_end_to_end:
  assumes sec: "env ''CBC_SECRET_KEY'' = Some s"
    and resp: "responses w = r1 # r2 # r3 # r4 # r # r5 # r6 # rest"
    and r1: "status_code r1 = 200" "json_field r1 ''data'' = Inr (JArr (JObj kvs1 # more1))"
      "dict_lookup kvs1 ''id'' = Some i" "dict_lookup kvs1 ''provider'' = Some p" "py_truthy i"
    and r2: "status_code r2 = 201" "json_field r2 ''id'' = Inr pid" "py_truthy pid"
    and r3: "status_code r3 = 202"
    and r4: "status_code r4 = 200" "json_field r4 ''data'' = Inr (JArr (JObj kvs4 # more4))"
      "dict_lookup kvs4 ''id'' = Some cid" "py_truthy cid"
    and ready: "ready_answer r"
    and r5: "status_code r5 = 202" and r6: "status_code r6 = 201"
  shows "\<exists>w'. main env w = (Inr (), w') \<and> responses w' = rest \<and>
     map req_line (exchanges w') = map req_line (exchanges w) @
       provisioning_calls (py_str (url (bootstrap_cloud env))) (py_str cid) 1 \<and>
     console w' = console w @
       [''Check Cloud Connection Successful'', ''Cloud ID: '' @ py_str i, ''Cloud Provider: '' @ py_str p,
        ''Create Project Successful'', ''Project Created with ID: '' @ py_str pid, ''Create Cluster Successful'',
        ''Get Clusters Successful'', ''Cluster Created with ID: '' @ py_str cid, ''Get Cluster Status Successful'',
        ''Cluster is ready'', ''Enable Cluster Access Successful'', ''Create Database User Successful'',
        ''Database access URL: '' @ py_str cid @ ''.dp.cloud.couchbase.com'']"
proof -
  have sc: "secret (bootstrap_cloud env) = JStr s" by (simp add: bootstrap_cloud_def getenv_def sec)
  have g3: "success_result r3 ''Create Cluster'' [202] = Inr True" using r3 by (simp add: success_result_def check_response_in_codes)
  have resp': "responses w = r1 # r2 # r3 # r4 # [r] @ r5 # r6 # rest" using resp by simp
  have poll: "\<exists>v'. poll_cluster_ready (bootstrap_cloud env) cid 30 v = (Inr (), v') \<and>
      responses v' = r5 # r6 # rest \<and>
      map req_line (exchanges v') = map req_line (exchanges v) @
        replicate (length [r]) (''GET'', py_str (url (bootstrap_cloud env)) @ cluster_path cid) \<and>
      console v' = console v @ poll_ready_lines"
    if "responses v = [r] @ r5 # r6 # rest" for v
  proof -
    have "list_all not_ready_answer ([] :: response list)" "length ([] :: response list) < 30"
      "responses v = [] @ r # r5 # r6 # rest" using that by simp_all
    from poll_ready_returns [OF sc this(1) ready this(2,3), of cid] show ?thesis by simp
  qed
  show ?thesis using main_run_steps [OF sec resp' r1 r2 g3 r4 poll r5 r6] r3 by simp blast
qed

text \<open>C2: refinement. Every run of \<open>main\<close> that completes has sent exactly the
  spec's sequence of calls, to the configured base URL, with between 1 and 30
  readiness polls of the cluster whose id it resolved, and the last line it
  prints is that cluster's access URL.\<close>

theorem main_refines_provisioning:
  assumes "main env w = (Inr u, w')"
  shows "\<exists>clid k. 1 \<le> k \<and> k \<le> 30 \<and> py_truthy clid \<and>
           map req_line (drop (length (exchanges w)) (exchanges w')) =
             provisioning_calls (py_str (url (bootstrap_cloud env))) (py_str clid) k \<and>
           last (console w') = ''Database access URL: '' @ py_str clid @ ''.dp.cloud.couchbase.com''"
proof -
  let ?c = "bootstrap_cloud env"
  let ?b = "py_str (url ?c)"
  obtain cid prov pid created clid w1 w2 w3 w4 w5 w6 w7 where
    s1: "get_cloud_status ?c w = (Inr (cid, prov), w1)" and
    s2: "create_project ?c (getenv env ''CBC_PROJECT'')
           (w1\<lparr>console := console w1 @ [''Cloud ID: '' @ py_str cid, ''Cloud Provider: '' @ py_str prov]\<rparr>) = (Inr pid, w2)" and
    s3: "create_cluster ?c (getenv env ''CBC_CLUSTER'') cid pid
           (w2\<lparr>console := console w2 @ [''Project Created with ID: '' @ py_str pid]\<rparr>) = (Inr created, w3)" and
    s4: "get_clusters ?c w3 = (Inr clid, w4)" and t4: "py_truthy clid" and
    s5: "poll_cluster_ready ?c clid 30
           (w4\<lparr>console := console w4 @ [''Cluster Created with ID: '' @ py_str clid]\<rparr>) = (Inr (), w5)" and
    s6: "enable_access_to_cluster ?c clid w5 = (Inr True, w6)" and
    s7: "create_database_user ?c clid (getenv env ''USERNAME'') (getenv env ''PASSWORD'') w6 = (Inr True, w7)" and
    w': "w' = w7\<lparr>console := console w7 @ [''Database access URL: '' @ py_str clid @ ''.dp.cloud.couchbase.com'']\<rparr>"
    using main_InrE [OF assms] by metis
  obtain e1 where e1: "exchanges w1 = exchanges w @ [e1]" "req_line e1 = (''GET'', ?b @ ''/v2/clouds'')"
    using bind_request_lift_line [OF s1 [unfolded get_cloud_status_def]] by blast
  obtain e2 where e2: "exchanges w2 = exchanges w1 @ [e2]" "req_line e2 = (''POST'', ?b @ ''/v2/projects'')"
    using bind_request_lift_line [OF s2 [unfolded create_project_def]] by auto
  obtain e3 where e3: "exchanges w3 = exchanges w2 @ [e3]" "req_line e3 = (''POST'', ?b @ ''/v2/clusters'')"
    using bind_request_lift_line [OF s3 [unfolded create_cluster_def]] by auto
  obtain e4 where e4: "exchanges w4 = exchanges w3 @ [e4]" "req_line e4 = (''GET'', ?b @ ''/v2/clusters'')"
    using bind_request_lift_line [OF s4 [unfolded get_clusters_def]] by blast
  have s5': "poll_cluster_ready ?c clid (Suc 29)
      (w4\<lparr>console := console w4 @ [''Cluster Created with ID: '' @ py_str clid]\<rparr>) = (Inr (), w5)"
    using s5 by simp
  obtain new where new: "exchanges w5 = exchanges w4 @ new" "1 \<le> length new" "length new \<le> 30"
    "\<forall>x \<in> set new. req_line x = (''GET'', ?b @ cluster_path clid)"
    using poll_Inr_exchanges [OF s5'] by auto
  obtain e6 where e6: "exchanges w6 = exchanges w5 @ [e6]"
    "req_line e6 = (''POST'', ?b @ cluster_path clid @ ''/allowlist'')"
    using bind_request_lift_line [OF s6 [unfolded enable_access_to_cluster_def]] by blast
  obtain e7 where e7: "exchanges w' = exchanges w6 @ [e7]"
    "req_line e7 = (''POST'', ?b @ cluster_path clid @ ''/users'')"
    using bind_request_lift_line [OF s7 [unfolded create_database_user_def]] w' by auto
  have "drop (length (exchanges w)) (exchanges w') = [e1, e2, e3, e4] @ new @ [e6, e7]"
    using e1(1) e2(1) e3(1) e4(1) new(1) e6(1) e7(1) by simp
  moreover have "map req_line new = replicate (length new) (''GET'', ?b @ cluster_path clid)"
    using new(4) by (rule map_const_replicate)
  ultimately have "map req_line (drop (length (exchanges w)) (exchanges w')) =
      provisioning_calls ?b (py_str clid) (length new)"
    using e1(2) e2(2) e3(2) e4(2) e6(2) e7(2) by (simp add: provisioning_calls_def cluster_path_def)
  moreover have "last (console w') = ''Database access URL: '' @ py_str clid @ ''.dp.cloud.couchbase.com''"
    using w' by simp
  ultimately show ?thesis using new(2,3) t4 by blast
qed

text \<open>C8: whatever the answers, and whether the run completes, exits or raises,
  every request \<open>main\<close> sends passes the control plane's check of section 6 of the
  spec under the credentials of the environment: the access key
  \<^verbatim>\<open>CBC_ACCESS_KEY\<close>, the secret \<^verbatim>\<open>CBC_SECRET_KEY\<close> and the base URL
  \<^verbatim>\<open>CBC_URL\<close>.\<close>

theorem main_requests_signed:
  assumes "env ''CBC_SECRET_KEY'' = Some s"
  shows "pyst_rel (sends_only (cbc_verify (py_str (getenv env ''CBC_ACCESS_KEY'')) (utf8_bytes s)
                                 (py_str (getenv env ''CBC_URL''))))
                  (main env)"
  by (rule pyst_rel_sends_only_mono [OF main_sends])
     (auto simp: signed_by_def bootstrap_cloud_def getenv_def py_bytes_utf8_def assms)

text \<open>C9: the delete step is disabled: no run of \<open>main\<close> sends a DELETE.\<close>

theorem main_never_deletes:
  "pyst_rel (sends_only (\<lambda>q. req_method q \<noteq> ''DELETE'')) (main env)"
  by (rule pyst_rel_sends_only_mono [OF main_sends]) auto

text \<open>C27: every request of every run of \<open>main\<close> is well formed: it carries
  exactly the \<^verbatim>\<open>Authorization\<close> and \<^verbatim>\<open>Couchbase-Timestamp\<close> headers of
  the scheme, in that order; a POST carries a JSON object as its body, any other
  request none.\<close>

theorem main_requests_well_formed: "pyst_rel (sends_only req_well_formed) (main env)"
  by (rule main_rel) (auto intro: request_well_formed time_sleep_sends)

subsection \<open>Witnesses\<close>

text \<open>C34: the bootstrap and the SDK script compose. When \<open>main\<close> completes and
  its last line prints the access address, that address is the one of the cluster
  on which the run created the database user, and the script run with that address
  as \<^verbatim>\<open>DB_HOST\<close> and the same \<^verbatim>\<open>USERNAME\<close>/\<^verbatim>\<open>PASSWORD\<close> completes
  against a data service that answers on that address, holds the bucket, and
  knows the users that the run's exchanges created: the user \<open>main\<close> created
  is the one the script logs in with.\<close>

theorem bootstrap_then_sdk_test:
  assumes run: "main env w = (Inr (), w')"
    and printed: "last (console w') = ''Database access URL: '' @ addr"
    and env: "env ''USERNAME'' = Some u" "env ''PASSWORD'' = Some p"
    and host: "CHR ''?'' \<notin> set addr" "dbs_host dw = addr"
    and users: "set (created_users (exchanges w')) \<subseteq> set (dbs_users dw)"
    and bucket: "map_of (dbs_buckets dw) ''couchbasecloudbucket'' = Some docs"
  shows "(\<exists>clid. addr = py_str clid @ ''.dp.cloud.couchbase.com'' \<and>
            (''POST'', py_str (url (bootstrap_cloud env)) @ cluster_path clid @ ''/users'') \<in> set (map req_line (exchanges w'))) \<and>
         (\<exists>dw'. sdk_test (env(''DB_HOST'' \<mapsto> addr)) dw = (Inr (), dw') \<and>
           take (Suc (length (stdout dw))) (stdout dw') = stdout dw @ [py_str arthur_doc])"
proof
  obtain clid w6 w7 where
      user: "create_database_user (bootstrap_cloud env) clid (getenv env ''USERNAME'') (getenv env ''PASSWORD'') w6 = (Inr True, w7)"
    and w': "w' = w7\<lparr>console := console w7 @ [''Database access URL: '' @ py_str clid @ ''.dp.cloud.couchbase.com'']\<rparr>"
    using run by (rule main_InrE) simp
  obtain e where "exchanges w7 = exchanges w6 @ [e]"
    "req_line e = (''POST'', py_str (url (bootstrap_cloud env)) @ cluster_path clid @ ''/users'')"
    using bind_request_lift_line [OF user [unfolded create_database_user_def]] by blast
  moreover have "addr = py_str clid @ ''.dp.cloud.couchbase.com''" using printed w' by simp
  ultimately show "\<exists>clid. addr = py_str clid @ ''.dp.cloud.couchbase.com'' \<and>
      (''POST'', py_str (url (bootstrap_cloud env)) @ cluster_path clid @ ''/users'') \<in> set (map req_line (exchanges w'))"
    using w' by auto
next
  have "(u, p) \<in> set (dbs_users dw)" using main_creates_user [OF run env] users by blast
  moreover have "(env(''DB_HOST'' \<mapsto> addr)) ''DB_HOST'' = Some addr"
    "(env(''DB_HOST'' \<mapsto> addr)) ''USERNAME'' = Some u" "(env(''DB_HOST'' \<mapsto> addr)) ''PASSWORD'' = Some p"
    using env by simp_all
  ultimately show "\<exists>dw'. sdk_test (env(''DB_HOST'' \<mapsto> addr)) dw = (Inr (), dw') \<and>
      take (Suc (length (stdout dw))) (stdout dw') = stdout dw @ [py_str arthur_doc]"
    using sdk_test_run [of "env(''DB_HOST'' \<mapsto> addr)" addr u p dw docs] host bucket by simp
qed

text \<open>C35: the ids flow from answer to request, and the bodies are the source's.
  In every run of \<^verbatim>\<open>main\<close> that completes, the first answer gave a cloud id and
  the second a project id, and the cluster creation request carries exactly those
  ids with the name \<^verbatim>\<open>CBC_CLUSTER\<close>; the project request carries
  \<^verbatim>\<open>CBC_PROJECT\<close>; the allowlist request opens the cluster to
  \<^verbatim>\<open>0.0.0.0/0\<close>, the whole IPv4 space, permanently; the user request carries
  \<^verbatim>\<open>USERNAME\<close> and \<^verbatim>\<open>PASSWORD\<close> with write access to all buckets.\<close>

theorem main_request_bodies:
  assumes "main env w = (Inr u, w')"
  shows "\<exists>e1 e2 e3 mid e6 e7 cid prov pid.
           drop (length (exchanges w)) (exchanges w') = [e1, e2, e3] @ mid @ [e6, e7] \<and>
           cloud_status_result (snd e1) = Inr (cid, prov) \<and>
           req_json (fst e2) = JObj [(''name'', getenv env ''CBC_PROJECT'')] \<and>
           create_project_result (snd e2) = Inr pid \<and>
           req_json (fst e3) = cluster_request (getenv env ''CBC_CLUSTER'') cid pid \<and>
           req_json (fst e6) = JObj [(''cidrBlock'', JStr ''0.0.0.0/0''), (''ruleType'', JStr ''permanent''),
                                    (''comment'', JStr ''cluster accesss to all'')] \<and>
           req_json (fst e7) = JObj [(''username'', getenv env ''USERNAME''), (''password'', getenv env ''PASSWORD''),
                                    (''allBucketsAccess'', JStr ''data_writer'')]"
proof -
  let ?c = "bootstrap_cloud env"
  obtain cid prov pid created clid w1 w2 w3 w4 w5 w6 w7 where
    s1: "get_cloud_status ?c w = (Inr (cid, prov), w1)" and
    s2: "create_project ?c (getenv env ''CBC_PROJECT'')
           (w1\<lparr>console := console w1 @ [''Cloud ID: '' @ py_str cid, ''Cloud Provider: '' @ py_str prov]\<rparr>) = (Inr pid, w2)" and
    s3: "create_cluster ?c (getenv env ''CBC_CLUSTER'') cid pid
           (w2\<lparr>console := console w2 @ [''Project Created with ID: '' @ py_str pid]\<rparr>) = (Inr created, w3)" and
    s4: "get_clusters ?c w3 = (Inr clid, w4)" and
    s5: "poll_cluster_ready ?c clid 30
           (w4\<lparr>console := console w4 @ [''Cluster Created with ID: '' @ py_str clid]\<rparr>) = (Inr (), w5)" and
    s6: "enable_access_to_cluster ?c clid w5 = (Inr True, w6)" and
    s7: "create_database_user ?c clid (getenv env ''USERNAME'') (getenv env ''PASSWORD'') w6 = (Inr True, w7)" and
    w': "w' = w7\<lparr>console := console w7 @ [''Database access URL: '' @ py_str clid @ ''.dp.cloud.couchbase.com'']\<rparr>"
    using main_InrE [OF assms] by metis
  obtain e1 where e1: "exchanges w1 = exchanges w @ [e1]" "cloud_status_result (snd e1) = Inr (cid, prov)"
    using bind_request_lift_body [OF s1 [unfolded get_cloud_status_def]] by auto
  obtain e2 where e2: "exchanges w2 = exchanges w1 @ [e2]" "create_project_result (snd e2) = Inr pid"
    "req_json (fst e2) = JObj [(''name'', getenv env ''CBC_PROJECT'')]"
    using bind_request_lift_body [OF s2 [unfolded create_project_def]] by auto
  obtain e3 where e3: "exchanges w3 = exchanges w2 @ [e3]"
    "req_json (fst e3) = cluster_request (getenv env ''CBC_CLUSTER'') cid pid"
    using bind_request_lift_body [OF s3 [unfolded create_cluster_def]] by auto
  obtain e4 where e4: "exchanges w4 = exchanges w3 @ [e4]"
    using bind_request_lift_line [OF s4 [unfolded get_clusters_def]] by blast
  have s5': "poll_cluster_ready ?c clid (Suc 29)
      (w4\<lparr>console := console w4 @ [''Cluster Created with ID: '' @ py_str clid]\<rparr>) = (Inr (), w5)"
    using s5 by simp
  obtain new where new: "exchanges w5 = exchanges w4 @ new"
    using poll_Inr_exchanges [OF s5'] by auto
  obtain e6 where e6: "exchanges w6 = exchanges w5 @ [e6]" "req_json (fst e6) = allowlist_rule"
    using bind_request_lift_body [OF s6 [unfolded enable_access_to_cluster_def]] by auto
  obtain e7 where e7: "exchanges w7 = exchanges w6 @ [e7]"
    "req_json (fst e7) = database_user (getenv env ''USERNAME'') (getenv env ''PASSWORD'')"
    using bind_request_lift_body [OF s7 [unfolded create_database_user_def]] by auto
  have "drop (length (exchanges w)) (exchanges w') = [e1, e2, e3] @ (e4 # new) @ [e6, e7]"
    using e1(1) e2(1) e3(1) e4 new e6(1) e7(1) w' by simp
  then show ?thesis using e1(2) e2(2,3) e3(2) e6(2) e7(2)
    by (simp only: allowlist_rule_def database_user_def) blast
qed


theorem main_end_to_end_witness:
  "demo_env ''CBC_SECRET_KEY'' = Some ''sk'' \<and>
   (\<exists>w'. main demo_env (answer_world [cloud_list_answer, project_answer, ok_answer 202, cluster_list_answer,
      status_answer ''ready'', ok_answer 202, ok_answer 201]) = (Inr (), w') \<and>
      map req_line (exchanges w') = provisioning_calls ''https://api'' ''clus-1'' 1 \<and>
      console w' =
       [''Check Cloud Connection Successful'', ''Cloud ID: cloud-1'', ''Cloud Provider: aws'',
        ''Create Project Successful'', ''Project Created with ID: p1'', ''Create Cluster Successful'',
        ''Get Clusters Successful'', ''Cluster Created with ID: clus-1'', ''Get Cluster Status Successful'',
        ''Cluster is ready'', ''Enable Cluster Access Successful'', ''Create Database User Successful'',
        ''Database access URL: clus-1.dp.cloud.couchbase.com''])"
proof -
  have h: "demo_env ''CBC_SECRET_KEY'' = Some ''sk''"
    "responses (answer_world [cloud_list_answer, project_answer, ok_answer 202, cluster_list_answer,
      status_answer ''ready'', ok_answer 202, ok_answer 201]) =
     cloud_list_answer # project_answer # ok_answer 202 # cluster_list_answer #
       status_answer ''ready'' # ok_answer 202 # ok_answer 201 # []"
    "status_code cloud_list_answer = 200"
    "json_field cloud_list_answer ''data'' =
       Inr (JArr (JObj [(''id'', JStr ''cloud-1''), (''provider'', JStr ''aws'')] # []))"
    "dict_lookup [(''id'', JStr ''cloud-1''), (''provider'', JStr ''aws'')] ''id'' = Some (JStr ''cloud-1'')"
    "dict_lookup [(''id'', JStr ''cloud-1''), (''provider'', JStr ''aws'')] ''provider'' = Some (JStr ''aws'')"
    "py_truthy (JStr ''cloud-1'')"
    "status_code project_answer = 201" "json_field project_answer ''id'' = Inr (JStr ''p1'')"
    "py_truthy (JStr ''p1'')"
    "status_code (ok_answer 202) = 202"
    "status_code cluster_list_answer = 200"
    "json_field cluster_list_answer ''data'' = Inr (JArr (JObj [(''id'', JStr ''clus-1'')] # []))"
    "dict_lookup [(''id'', JStr ''clus-1'')] ''id'' = Some (JStr ''clus-1'')"
    "py_truthy (JStr ''clus-1'')"
    "ready_answer (status_answer ''ready'')"
    "status_code (ok_answer 202) = 202" "status_code (ok_answer 201) = 201"
    by (simp_all add: demo_env_def answer_defs ok_answer_def ready_answer_def status_answer_def cluster_status_def)
  have u: "py_str (url (bootstrap_cloud demo_env)) = ''https://api''"
    by (simp add: bootstrap_cloud_def getenv_def demo_env_def)
  obtain w' where r: "main demo_env (answer_world [cloud_list_answer, project_answer, ok_answer 202,
      cluster_list_answer, status_answer ''ready'', ok_answer 202, ok_answer 201]) = (Inr (), w')"
    and l: "map req_line (exchanges w') = map req_line (exchanges (answer_world [cloud_list_answer, project_answer,
      ok_answer 202, cluster_list_answer, status_answer ''ready'', ok_answer 202, ok_answer 201])) @
      provisioning_calls (py_str (url (bootstrap_cloud demo_env))) (py_str (JStr ''clus-1'')) 1"
    and c: "console w' = console (answer_world [cloud_list_answer, project_answer, ok_answer 202,
      cluster_list_answer, status_answer ''ready'', ok_answer 202, ok_answer 201]) @
       [''Check Cloud Connection Successful'', ''Cloud ID: '' @ py_str (JStr ''cloud-1''),
        ''Cloud Provider: '' @ py_str (JStr ''aws''), ''Create Project Successful'',
        ''Project Created with ID: '' @ py_str (JStr ''p1''), ''Create Cluster Successful'',
        ''Get Clusters Successful'', ''Cluster Created with ID: '' @ py_str (JStr ''clus-1''),
        ''Get Cluster Status Successful'', ''Cluster is ready'', ''Enable Cluster Access Successful'',
        ''Create Database User Successful'',
        ''Database access URL: '' @ py_str (JStr ''clus-1'') @ ''.dp.cloud.couchbase.com'']"
    using main_end_to_end [where env = demo_env, OF h] by blast
  show ?thesis using h(1) r l c u by (simp add: answer_world_def)
qed

theorem main_request_bodies_witness:
  "\<exists>w'. main demo_env (answer_world e2e_answers) = (Inr (), w') \<and>
     (\<exists>e1 e2 e3 mid e6 e7 cid prov pid.
        drop (length (exchanges (answer_world e2e_answers))) (exchanges w') = [e1, e2, e3] @ mid @ [e6, e7] \<and>
        cloud_status_result (snd e1) = Inr (cid, prov) \<and>
        req_json (fst e2) = JObj [(''name'', getenv demo_env ''CBC_PROJECT'')] \<and>
        create_project_result (snd e2) = Inr pid \<and>
        req_json (fst e3) = cluster_request (getenv demo_env ''CBC_CLUSTER'') cid pid \<and>
        req_json (fst e6) = JObj [(''cidrBlock'', JStr ''0.0.0.0/0''), (''ruleType'', JStr ''permanent''),
                                 (''comment'', JStr ''cluster accesss to all'')] \<and>
        req_json (fst e7) = JObj [(''username'', getenv demo_env ''USERNAME''), (''password'', getenv demo_env ''PASSWORD''),
                                 (''allBucketsAccess'', JStr ''data_writer'')])"
proof -
  obtain w' where h: "main demo_env (answer_world e2e_answers) = (Inr (), w')"
    by (simp add: run_simps e2e_answers_def)
  show ?thesis using h main_request_bodies [OF h] by blast
qed

theorem main_refines_provisioning_witness:
  "\<exists>w'. main demo_env (answer_world e2e_answers) = (Inr (), w') \<and>
     (\<exists>clid k. 1 \<le> k \<and> k \<le> 30 \<and> py_truthy clid \<and>
        map req_line (drop (length (exchanges (answer_world e2e_answers))) (exchanges w')) =
          provisioning_calls (py_str (url (bootstrap_cloud demo_env))) (py_str clid) k \<and>
        last (console w') = ''Database access URL: '' @ py_str clid @ ''.dp.cloud.couchbase.com'')"
proof -
  obtain w' where h: "main demo_env (answer_world e2e_answers) = (Inr (), w')"
    by (simp add: run_simps e2e_answers_def)
  show ?thesis using h main_refines_provisioning [OF h] by blast
qed

theorem main_requests_signed_witness:
  "demo_env ''CBC_SECRET_KEY'' = Some ''sk'' \<and>
   sends_only (cbc_verify (py_str (getenv demo_env ''CBC_ACCESS_KEY'')) (utf8_bytes ''sk'')
                 (py_str (getenv demo_env ''CBC_URL'')))
     (answer_world e2e_answers) (snd (main demo_env (answer_world e2e_answers)))"
proof -
  have h: "demo_env ''CBC_SECRET_KEY'' = Some ''sk''" by (simp add: demo_env_def)
  show ?thesis using h main_requests_signed [where env = demo_env, OF h] unfolding pyst_rel_def by blast
qed

theorem main_never_deletes_witness:
  "sends_only (\<lambda>q. req_method q \<noteq> ''DELETE'') (answer_world e2e_answers)
     (snd (main demo_env (answer_world e2e_answers)))"
  using main_never_deletes [of demo_env] unfolding pyst_rel_def by blast


theorem main_requests_well_formed_witness:
  "sends_only req_well_formed (answer_world e2e_answers) (snd (main demo_env (answer_world e2e_answers)))"
  using main_requests_well_formed [of demo_env] unfolding pyst_rel_def by blast

theorem bootstrap_then_sdk_test_witness:
  "fst (main demo_env (answer_world e2e_answers)) = Inr () \<and>
   (\<exists>dw'. sdk_test (demo_env(''DB_HOST'' \<mapsto> ''clus-1.dp.cloud.couchbase.com'')) demo_dbs = (Inr (), dw') \<and>
      take 1 (stdout dw') = [py_str arthur_doc])"
proof -
  have r: "fst (main demo_env (answer_world e2e_answers)) = Inr ()"
    by (simp add: run_simps e2e_answers_def)
  then have run: "main demo_env (answer_world e2e_answers) = (Inr (), snd (main demo_env (answer_world e2e_answers)))"
    by (metis prod.collapse)
  have printed: "last (console (snd (main demo_env (answer_world e2e_answers)))) =
      ''Database access URL: '' @ ''clus-1.dp.cloud.couchbase.com''"
    by (simp add: run_simps e2e_answers_def)
  have users: "set (created_users (exchanges (snd (main demo_env (answer_world e2e_answers))))) \<subseteq>
      set (dbs_users demo_dbs)"
    by (simp add: run_simps e2e_answers_def created_users_def List.map_filter_def signed_request_def
        ends_with_def database_user_def cluster_path_def demo_dbs_def)
  have h: "demo_env ''USERNAME'' = Some ''u''" "demo_env ''PASSWORD'' = Some ''p''"
    "CHR ''?'' \<notin> set ''clus-1.dp.cloud.couchbase.com''" "dbs_host demo_dbs = ''clus-1.dp.cloud.couchbase.com''"
    "map_of (dbs_buckets demo_dbs) ''couchbasecloudbucket'' = Some []"
    by (simp_all add: demo_env_def demo_dbs_def)
  show ?thesis using r bootstrap_then_sdk_test [OF run printed h(1,2,3,4) users h(5)] by (simp add: demo_dbs_def)
qed

end
